theory Spec2Isabelle
  imports Complex_Main
begin

section \<open>JavaScript values, as the two services see them\<close>

text \<open>
  Both services receive JSON, read members without any validation and build strings
  with template literals, \<^verbatim>\<open>join\<close> and \<^verbatim>\<open>toString\<close>.
  The embedding therefore keeps the values dynamically typed. A number is an IEEE-754
  binary64 value: one of the three special values, or a finite number, held as the
  rational it prints as, which is the shortest decimal that reads back as the same
  binary64 value (what \<^verbatim>\<open>JSON.parse\<close> makes of a literal and what Number::toString
  prints); the sign of zero, which no response shows, is not kept. A string is the list
  of the bytes of its UTF-8 form, an unpaired surrogate (a JSON escape can denote one)
  in the three bytes that generalised UTF-8 gives it. An object is its list of members
  in order; a member is looked up by its first occurrence (parsed JSON has no duplicate
  keys).
\<close>

datatype jsnum = Fin rat | NaN | PosInf | NegInf

datatype jsval =
    JUndefined
  | JNull
  | JBool bool
  | JNum jsnum
  | JStr string
  | JArr "jsval list"
  | JObj "(string \<times> jsval) list"

text \<open>
  A thrown value: one of the exceptions the engine itself raises, with its message, or
  the \<open>AxiosError\<close> of a failed HTTP call, with its message and, when the peer answered,
  the status and body. The gateway sends the message of an exception to the client, so
  the messages are part of its behaviour; they are worded as V8 words them (Node.js 16
  and later), the engine both services are written for.
\<close>

datatype js_error =
    TypeError string
  | RangeError string
  | URIError string
  | AxiosError string "(nat \<times> jsval) option"

fun error_message :: "js_error \<Rightarrow> string" where
  "error_message (TypeError m) = m"
| "error_message (RangeError m) = m"
| "error_message (URIError m) = m"
| "error_message (AxiosError m r) = m"

text \<open>
  The exceptions of the operations the services apply to request data: reading the
  member \<open>k\<close> of \<^verbatim>\<open>undefined\<close> or \<^verbatim>\<open>null\<close>, calling a member that is not a
  function, iterating what is not iterable, and converting an object that has no usable
  \<^verbatim>\<open>toString\<close>.
\<close>

definition cannot_read :: "jsval \<Rightarrow> string \<Rightarrow> js_error" where
  "cannot_read v k =
     TypeError (''Cannot read properties of '' @ (if v = JNull then ''null'' else ''undefined'')
                @ '' (reading '' @ [CHR 0x27] @ k @ [CHR 0x27] @ '')'')"

definition not_a_function :: "string \<Rightarrow> js_error" where
  "not_a_function callee = TypeError (callee @ '' is not a function'')"

definition not_iterable :: "string \<Rightarrow> js_error" where
  "not_iterable expr = TypeError (expr @ '' is not iterable'')"

definition no_primitive :: js_error where
  "no_primitive = TypeError ''Cannot convert object to primitive value''"

definition bindE :: "'e + 'a \<Rightarrow> ('a \<Rightarrow> 'e + 'b) \<Rightarrow> 'e + 'b" where
  "bindE m f = (case m of Inl e \<Rightarrow> Inl e | Inr x \<Rightarrow> f x)"

fun mapE :: "('a \<Rightarrow> 'e + 'b) \<Rightarrow> 'a list \<Rightarrow> 'e + 'b list" where
  "mapE f [] = Inr []"
| "mapE f (x # xs) = bindE (f x) (\<lambda>y. bindE (mapE f xs) (\<lambda>ys. Inr (y # ys)))"

fun nullish :: "jsval \<Rightarrow> bool" where
  "nullish JUndefined = True"
| "nullish JNull = True"
| "nullish v = False"

fun truthy :: "jsval \<Rightarrow> bool" where
  "truthy JUndefined = False"
| "truthy JNull = False"
| "truthy (JBool b) = b"
| "truthy (JNum (Fin r)) = (r \<noteq> 0)"
| "truthy (JNum NaN) = False"
| "truthy (JNum PosInf) = True"
| "truthy (JNum NegInf) = True"
| "truthy (JStr s) = (s \<noteq> [])"
| "truthy (JArr xs) = True"
| "truthy (JObj kvs) = True"

text \<open>\<^verbatim>\<open>a || b\<close>\<close>

definition js_or :: "jsval \<Rightarrow> jsval \<Rightarrow> jsval" where
  "js_or a b = (if truthy a then a else b)"

text \<open>
  \<open>field v k\<close> is \<^verbatim>\<open>v.k\<close> for a value that is neither \<^verbatim>\<open>undefined\<close> nor
  \<^verbatim>\<open>null\<close> and a name \<open>k\<close> that no built-in prototype defines (every member name the
  services read is of that kind; \<^verbatim>\<open>length\<close> and indices are read with \<open>js_length\<close>
  and \<open>js_index\<close>). \<open>jget\<close> adds the TypeError of reading a member of
  \<^verbatim>\<open>undefined\<close> or \<^verbatim>\<open>null\<close>; \<open>opt_get\<close> is \<^verbatim>\<open>v?.k\<close>.
\<close>

fun lookup :: "(string \<times> jsval) list \<Rightarrow> string \<Rightarrow> jsval" where
  "lookup [] k = JUndefined"
| "lookup ((k', v) # kvs) k = (if k' = k then v else lookup kvs k)"

fun field :: "jsval \<Rightarrow> string \<Rightarrow> jsval" where
  "field (JObj kvs) k = lookup kvs k"
| "field v k = JUndefined"

definition jget :: "jsval \<Rightarrow> string \<Rightarrow> js_error + jsval" where
  "jget v k = (if nullish v then Inl (cannot_read v k) else Inr (field v k))"

definition has_member :: "jsval \<Rightarrow> string \<Rightarrow> bool" where
  "has_member v k = (case v of JObj kvs \<Rightarrow> k \<in> fst ` set kvs | _ \<Rightarrow> False)"

definition opt_get :: "jsval \<Rightarrow> string \<Rightarrow> jsval" where
  "opt_get v k = (if nullish v then JUndefined else field v k)"

text \<open>A destructuring default: it replaces \<^verbatim>\<open>undefined\<close> only, not \<^verbatim>\<open>null\<close>.\<close>

definition default_to :: "jsval \<Rightarrow> jsval \<Rightarrow> jsval" where
  "default_to d v = (if v = JUndefined then d else v)"

subsection \<open>Numbers to strings\<close>

definition digit_char :: "nat \<Rightarrow> char" where
  "digit_char d = ''0123456789'' ! d"

fun nat_digits :: "nat \<Rightarrow> string" where
  "nat_digits n = (if n < 10 then [digit_char n] else nat_digits (n div 10) @ [digit_char (n mod 10)])"

declare nat_digits.simps [simp del]

text \<open>
  The least number of decimal places after which \<open>r\<close> is an integer, searched up to the
  given bound (every number a JSON literal denotes has a finite decimal expansion).
\<close>

fun decimal_places :: "nat \<Rightarrow> rat \<Rightarrow> nat" where
  "decimal_places f r =
     (if f = 0 \<or> r = of_int \<lfloor>r\<rfloor> then 0 else 1 + decimal_places (f - 1) (r * 10))"

declare decimal_places.simps [simp del]

fun strip_zeros :: "string \<Rightarrow> string" where
  "strip_zeros s = rev (dropWhile (\<lambda>c. c = CHR ''0'') (rev s))"

text \<open>
  Number::toString of ECMAScript for a positive number whose digits are \<open>s\<close> (no
  trailing zero) and whose decimal point stands after the first \<open>n\<close> digits.
\<close>

definition place_point :: "string \<Rightarrow> int \<Rightarrow> string" where
  "place_point s n =
     (let k = int (length s) in
      if k \<le> n \<and> n \<le> 21 then s @ replicate (nat (n - k)) CHR ''0''
      else if 0 < n \<and> n \<le> 21 then take (nat n) s @ ''.'' @ drop (nat n) s
      else if -6 < n \<and> n \<le> 0 then ''0.'' @ replicate (nat (- n)) CHR ''0'' @ s
      else (if k = 1 then s else take 1 s @ ''.'' @ drop 1 s)
           @ ''e'' @ (if 0 \<le> n - 1 then ''+'' else ''-'') @ nat_digits (nat \<bar>n - 1\<bar>))"

definition pos_str :: "rat \<Rightarrow> string" where
  "pos_str r =
     (let e = decimal_places 400 r;
          m = nat \<lfloor>r * 10 ^ e\<rfloor>;
          ds = nat_digits m
      in place_point (strip_zeros ds) (int (length ds) - int e))"

fun num_str :: "jsnum \<Rightarrow> string" where
  "num_str NaN = ''NaN''"
| "num_str PosInf = ''Infinity''"
| "num_str NegInf = ''-Infinity''"
| "num_str (Fin r) = (if r = 0 then ''0'' else if r < 0 then ''-'' @ pos_str (- r) else pos_str r)"

subsection \<open>Values to strings\<close>

definition join :: "string \<Rightarrow> string list \<Rightarrow> string" where
  "join sep xs = (case xs of [] \<Rightarrow> [] | y # ys \<Rightarrow> y @ concat (map (\<lambda>z. sep @ z) ys))"

text \<open>
  ToString, as a template literal, \<^verbatim>\<open>Array.prototype.join\<close> and URLSearchParams apply
  it. An array is its elements joined by commas, \<^verbatim>\<open>null\<close> and \<^verbatim>\<open>undefined\<close>
  elements giving the empty string. A parsed JSON object prints as
  \<^verbatim>\<open>[object Object]\<close>, unless it has a member named \<^verbatim>\<open>toString\<close> of its own: that
  member is not callable, \<^verbatim>\<open>valueOf\<close> returns no primitive, and the conversion throws.
\<close>

fun to_str :: "jsval \<Rightarrow> js_error + string"
  and elem_strs :: "jsval list \<Rightarrow> js_error + string list" where
  "to_str JUndefined = Inr ''undefined''"
| "to_str JNull = Inr ''null''"
| "to_str (JBool b) = Inr (if b then ''true'' else ''false'')"
| "to_str (JNum n) = Inr (num_str n)"
| "to_str (JStr s) = Inr s"
| "to_str (JArr xs) = bindE (elem_strs xs) (\<lambda>ss. Inr (join '','' ss))"
| "to_str (JObj kvs) =
     (if ''toString'' \<in> fst ` set kvs then Inl no_primitive
      else Inr ''[object Object]'')"
| "elem_strs [] = Inr []"
| "elem_strs (x # xs) =
     bindE (if nullish x then Inr [] else to_str x) (\<lambda>s. bindE (elem_strs xs) (\<lambda>ss. Inr (s # ss)))"

text \<open>
  \<^verbatim>\<open>v.toString()\<close>, \<open>expr\<close> being the text of the expression \<^verbatim>\<open>v\<close> in the source,
  which the engine quotes in its message: reading the method of \<^verbatim>\<open>null\<close> throws, and
  so does calling the member of that name of a parsed object, which is no function.
\<close>

definition method_toString :: "string \<Rightarrow> jsval \<Rightarrow> js_error + string" where
  "method_toString expr v =
     (if nullish v then Inl (cannot_read v ''toString'')
      else if has_member v ''toString'' then Inl (not_a_function (expr @ ''.toString''))
      else to_str v)"

text \<open>\<^verbatim>\<open>v.join(sep)\<close>: only an array has the method.\<close>

definition array_join :: "string \<Rightarrow> string \<Rightarrow> jsval \<Rightarrow> js_error + string" where
  "array_join expr sep v =
     (case v of
        JArr xs \<Rightarrow> bindE (elem_strs xs) (\<lambda>ss. Inr (join sep ss))
      | _ \<Rightarrow> Inl (if nullish v then cannot_read v ''join'' else not_a_function (expr @ ''.join'')))"

subsection \<open>Numbers: coercion, comparison, arithmetic\<close>

text \<open>
  ToNumber. The conversion of a string (StringToNumber of ECMAScript) is a built-in
  whose definition is not part of the repository; it is the parameter \<open>s2n\<close>.
  An array or object is converted to a string first.
\<close>

fun to_number :: "(string \<Rightarrow> jsnum) \<Rightarrow> jsval \<Rightarrow> js_error + jsnum" where
  "to_number s2n JUndefined = Inr NaN"
| "to_number s2n JNull = Inr (Fin 0)"
| "to_number s2n (JBool b) = Inr (Fin (if b then 1 else 0))"
| "to_number s2n (JNum n) = Inr n"
| "to_number s2n (JStr s) = Inr (s2n s)"
| "to_number s2n (JArr xs) = bindE (to_str (JArr xs)) (\<lambda>s. Inr (s2n s))"
| "to_number s2n (JObj kvs) = bindE (to_str (JObj kvs)) (\<lambda>s. Inr (s2n s))"

fun num_less :: "jsnum \<Rightarrow> jsnum \<Rightarrow> bool" where
  "num_less NaN y = False"
| "num_less x NaN = False"
| "num_less (Fin a) (Fin b) = (a < b)"
| "num_less (Fin a) PosInf = True"
| "num_less (Fin a) NegInf = False"
| "num_less PosInf y = False"
| "num_less NegInf (Fin b) = True"
| "num_less NegInf PosInf = True"
| "num_less NegInf NegInf = False"

text \<open>\<^verbatim>\<open>v > 0\<close>\<close>

definition js_gt0 :: "(string \<Rightarrow> jsnum) \<Rightarrow> jsval \<Rightarrow> js_error + bool" where
  "js_gt0 s2n v = bindE (to_number s2n v) (\<lambda>n. Inr (num_less (Fin 0) n))"

fun num_neg :: "jsnum \<Rightarrow> jsnum" where
  "num_neg (Fin a) = Fin (- a)"
| "num_neg NaN = NaN"
| "num_neg PosInf = NegInf"
| "num_neg NegInf = PosInf"

text \<open>
  Rounding to binary64. \<open>log2_floor\<close> and \<open>log10_floor\<close> are the binary and the decimal
  exponent of a positive rational, searched with more steps than the exponent range of
  binary64 needs. \<open>nearest_double\<close> rounds a positive rational to the nearest multiple
  of the unit in the last place of its binade, ties to the even multiple; below the
  least normal number the unit stays \<^verbatim>\<open>2^-1074\<close> (subnormal numbers, and zero below
  half of it); a result of \<^verbatim>\<open>2^1024\<close> or more is an overflow, \<open>None\<close>.
\<close>

fun log2_floor :: "nat \<Rightarrow> rat \<Rightarrow> int" where
  "log2_floor fuel r =
     (if fuel = 0 then 0
      else if r < 1 then log2_floor (fuel - 1) (r * 2) - 1
      else if 2 \<le> r then log2_floor (fuel - 1) (r / 2) + 1
      else 0)"

declare log2_floor.simps [simp del]

fun log10_floor :: "nat \<Rightarrow> rat \<Rightarrow> int" where
  "log10_floor fuel r =
     (if fuel = 0 then 0
      else if r < 1 then log10_floor (fuel - 1) (r * 10) - 1
      else if 10 \<le> r then log10_floor (fuel - 1) (r / 10) + 1
      else 0)"

declare log10_floor.simps [simp del]

definition power_of :: "rat \<Rightarrow> int \<Rightarrow> rat" where
  "power_of b e = (if 0 \<le> e then b ^ nat e else 1 / b ^ nat (- e))"

definition round_half_even :: "rat \<Rightarrow> int" where
  "round_half_even q =
     (if q - of_int \<lfloor>q\<rfloor> < 1 / 2 then \<lfloor>q\<rfloor>
      else if 1 / 2 < q - of_int \<lfloor>q\<rfloor> then \<lfloor>q\<rfloor> + 1
      else if even \<lfloor>q\<rfloor> then \<lfloor>q\<rfloor> else \<lfloor>q\<rfloor> + 1)"

definition in_range :: "rat \<Rightarrow> rat option" where
  "in_range v = (if 2 ^ 1024 \<le> v then None else Some v)"

definition round_to_unit :: "rat \<Rightarrow> rat \<Rightarrow> rat option" where
  "round_to_unit u r = in_range (of_int (round_half_even (r / u)) * u)"

definition nearest_double :: "rat \<Rightarrow> rat option" where
  "nearest_double r = round_to_unit (power_of 2 (max (log2_floor 1100 r) (- 1022) - 52)) r"

text \<open>
  The shortest decimal of a positive binary64 value \<open>v\<close> (Number::toString of
  ECMAScript): the least number of significant digits for which a decimal reads back
  as \<open>v\<close>, and with that many digits the decimal closest to \<open>v\<close>. With digits down to
  the place \<open>p\<close>, only the two multiples of \<open>p\<close> around \<open>v\<close> can read back as \<open>v\<close>.
  Seventeen digits always suffice.
\<close>

definition closest :: "rat \<Rightarrow> rat \<Rightarrow> rat \<Rightarrow> bool \<Rightarrow> rat option" where
  "closest v lo hi lo_even =
     (if nearest_double lo = Some v \<and> nearest_double hi = Some v
      then Some (if v - lo < hi - v then lo else if hi - v < v - lo then hi
                 else if lo_even then lo else hi)
      else if nearest_double lo = Some v then Some lo
      else if nearest_double hi = Some v then Some hi
      else None)"

definition neighbours :: "rat \<Rightarrow> rat \<Rightarrow> int \<Rightarrow> rat option" where
  "neighbours v p s = closest v (of_int s * p) (of_int s * p + p) (even s)"

definition candidate :: "rat \<Rightarrow> rat \<Rightarrow> rat option" where
  "candidate p v = neighbours v p \<lfloor>v / p\<rfloor>"

fun shortest_from :: "nat \<Rightarrow> rat \<Rightarrow> rat \<Rightarrow> rat" where
  "shortest_from fuel p v =
     (if fuel = 0 then v
      else case candidate p v of
             Some c \<Rightarrow> c
           | None \<Rightarrow> shortest_from (fuel - 1) (p / 10) v)"

declare shortest_from.simps [simp del]

definition shortest_decimal :: "rat \<Rightarrow> rat" where
  "shortest_decimal v = shortest_from 17 (power_of 10 (log10_floor 400 v)) v"

text \<open>
  \<open>denoted a\<close> is the binary64 value that the decimal \<open>a\<close> stands for, as an exact
  rational, and \<open>binary64 r\<close> the number that an exact result \<open>r\<close> is rounded to. A sum
  or product of two finite numbers is the exact sum or product of the values they
  stand for, rounded.
\<close>

definition denoted :: "rat \<Rightarrow> rat" where
  "denoted a =
     (if a = 0 then 0
      else case nearest_double \<bar>a\<bar> of
             None \<Rightarrow> a
           | Some v \<Rightarrow> if a < 0 then - v else v)"

definition binary64 :: "rat \<Rightarrow> jsnum" where
  "binary64 r =
     (if r = 0 then Fin 0
      else case nearest_double \<bar>r\<bar> of
             None \<Rightarrow> (if r < 0 then NegInf else PosInf)
           | Some v \<Rightarrow> if v = 0 then Fin 0
                       else Fin (if r < 0 then - shortest_decimal v else shortest_decimal v))"

fun num_add :: "jsnum \<Rightarrow> jsnum \<Rightarrow> jsnum" where
  "num_add NaN y = NaN"
| "num_add x NaN = NaN"
| "num_add (Fin a) (Fin b) = binary64 (denoted a + denoted b)"
| "num_add (Fin a) PosInf = PosInf"
| "num_add (Fin a) NegInf = NegInf"
| "num_add PosInf NegInf = NaN"
| "num_add PosInf y = PosInf"
| "num_add NegInf PosInf = NaN"
| "num_add NegInf y = NegInf"

definition num_sub :: "jsnum \<Rightarrow> jsnum \<Rightarrow> jsnum" where
  "num_sub x y = num_add x (num_neg y)"

fun num_mul :: "jsnum \<Rightarrow> jsnum \<Rightarrow> jsnum" where
  "num_mul NaN y = NaN"
| "num_mul x NaN = NaN"
| "num_mul (Fin a) (Fin b) = binary64 (denoted a * denoted b)"
| "num_mul (Fin a) PosInf = (if a = 0 then NaN else if 0 < a then PosInf else NegInf)"
| "num_mul (Fin a) NegInf = (if a = 0 then NaN else if 0 < a then NegInf else PosInf)"
| "num_mul PosInf (Fin b) = (if b = 0 then NaN else if 0 < b then PosInf else NegInf)"
| "num_mul NegInf (Fin b) = (if b = 0 then NaN else if 0 < b then NegInf else PosInf)"
| "num_mul PosInf PosInf = PosInf"
| "num_mul PosInf NegInf = NegInf"
| "num_mul NegInf PosInf = NegInf"
| "num_mul NegInf NegInf = PosInf"

text \<open>The binary steps of \<^verbatim>\<open>Math.min\<close> and \<^verbatim>\<open>Math.max\<close>: NaN is contagious.\<close>

definition num_min :: "jsnum \<Rightarrow> jsnum \<Rightarrow> jsnum" where
  "num_min x y = (if x = NaN \<or> y = NaN then NaN else if num_less y x then y else x)"

definition num_max :: "jsnum \<Rightarrow> jsnum \<Rightarrow> jsnum" where
  "num_max x y = (if x = NaN \<or> y = NaN then NaN else if num_less x y then y else x)"

text \<open>
  \<^verbatim>\<open>Math.min(...vs)\<close> and \<^verbatim>\<open>Math.max(...vs)\<close>. The spread pushes every element on the
  stack as an argument of the call; with more elements than the stack holds the engine
  throws a RangeError before the function runs. That number depends on the engine and
  on the size of its stack (about 125000 for V8 as Node.js starts it); it is the
  parameter \<open>limit\<close>. Otherwise every argument is coerced to a number, in order; the
  result of no argument is the neutral infinity.
\<close>

definition Math_min :: "nat \<Rightarrow> (string \<Rightarrow> jsnum) \<Rightarrow> jsval list \<Rightarrow> js_error + jsnum" where
  "Math_min limit s2n vs =
     (if limit < length vs then Inl (RangeError ''Maximum call stack size exceeded'')
      else bindE (mapE (to_number s2n) vs) (\<lambda>ns. Inr (foldl num_min PosInf ns)))"

definition Math_max :: "nat \<Rightarrow> (string \<Rightarrow> jsnum) \<Rightarrow> jsval list \<Rightarrow> js_error + jsnum" where
  "Math_max limit s2n vs =
     (if limit < length vs then Inl (RangeError ''Maximum call stack size exceeded'')
      else bindE (mapE (to_number s2n) vs) (\<lambda>ns. Inr (foldl num_max NegInf ns)))"

subsection \<open>Strings\<close>

text \<open>
  The engine counts and indexes a string by UTF-16 code units and iterates it by code
  points. \<open>code_points\<close> decodes the bytes (\<open>acc\<close> holds the bits read of a sequence
  and \<open>need\<close> the number of bytes it still lacks), \<open>code_units\<close> splits a code point
  above the basic plane into its surrogate pair, and \<open>utf8\<close> is the bytes of one code
  point or code unit.
\<close>

fun code_points :: "nat \<Rightarrow> nat \<Rightarrow> string \<Rightarrow> nat list" where
  "code_points acc need [] = []"
| "code_points acc need (c # cs) =
     (if need = 0
      then (if (of_char c :: nat) < 0x80 then of_char c # code_points 0 0 cs
            else if (of_char c :: nat) < 0xE0 then code_points (of_char c mod 0x20) 1 cs
            else if (of_char c :: nat) < 0xF0 then code_points (of_char c mod 0x10) 2 cs
            else code_points (of_char c mod 0x08) 3 cs)
      else if need = 1 then (acc * 0x40 + of_char c mod 0x40) # code_points 0 0 cs
      else code_points (acc * 0x40 + of_char c mod 0x40) (need - 1) cs)"

definition code_units :: "string \<Rightarrow> nat list" where
  "code_units s =
     concat (map (\<lambda>cp. if cp < 0x10000 then [cp]
                        else [0xD800 + (cp - 0x10000) div 0x400, 0xDC00 + (cp - 0x10000) mod 0x400])
                 (code_points 0 0 s))"

definition utf8 :: "nat \<Rightarrow> string" where
  "utf8 cp =
     (if cp < 0x80 then [char_of cp]
      else if cp < 0x800 then [char_of (0xC0 + cp div 0x40), char_of (0x80 + cp mod 0x40)]
      else if cp < 0x10000
      then [char_of (0xE0 + cp div 0x1000), char_of (0x80 + cp div 0x40 mod 0x40), char_of (0x80 + cp mod 0x40)]
      else [char_of (0xF0 + cp div 0x40000), char_of (0x80 + cp div 0x1000 mod 0x40),
            char_of (0x80 + cp div 0x40 mod 0x40), char_of (0x80 + cp mod 0x40)])"

text \<open>
  An unpaired surrogate is the only code point whose bytes begin with \<^verbatim>\<open>ED\<close> followed
  by a byte from \<^verbatim>\<open>A0\<close> on. \<open>lone_surrogate\<close> tells whether a string holds one, and
  \<open>scalar_values\<close> puts U+FFFD, the bytes \<^verbatim>\<open>EF BF BD\<close>, in the place of each (the
  conversion to a USVString of the URL standard).
\<close>

fun lone_surrogate :: "string \<Rightarrow> bool" where
  "lone_surrogate (a # b # r) = (a = CHR 0xED \<and> (0xA0 :: nat) \<le> of_char b \<or> lone_surrogate (b # r))"
| "lone_surrogate s = False"

fun scalar_values :: "string \<Rightarrow> string" where
  "scalar_values (a # b # c # r) =
     (if a = CHR 0xED \<and> (0xA0 :: nat) \<le> of_char b then CHR 0xEF # CHR 0xBF # CHR 0xBD # scalar_values r
      else a # scalar_values (b # c # r))"
| "scalar_values s = s"

subsection \<open>Length and index\<close>

text \<open>
  \<^verbatim>\<open>v.length\<close>: the number of elements of an array, the number of code units of a
  string, the member of that name of an object, \<^verbatim>\<open>undefined\<close> for a number or boolean.
  \<^verbatim>\<open>v[i]\<close> for a constant index likewise.
\<close>

definition js_length :: "jsval \<Rightarrow> js_error + jsval" where
  "js_length v =
     (case v of
        JArr xs \<Rightarrow> Inr (JNum (Fin (of_nat (length xs))))
      | JStr s \<Rightarrow> Inr (JNum (Fin (of_nat (length (code_units s)))))
      | JObj kvs \<Rightarrow> Inr (lookup kvs ''length'')
      | _ \<Rightarrow> if nullish v then Inl (cannot_read v ''length'') else Inr JUndefined)"

definition js_index :: "jsval \<Rightarrow> nat \<Rightarrow> js_error + jsval" where
  "js_index v i =
     (case v of
        JArr xs \<Rightarrow> Inr (if i < length xs then xs ! i else JUndefined)
      | JStr s \<Rightarrow> Inr (if i < length (code_units s) then JStr (utf8 (code_units s ! i)) else JUndefined)
      | JObj kvs \<Rightarrow> Inr (lookup kvs (nat_digits i))
      | _ \<Rightarrow> if nullish v then Inl (cannot_read v (nat_digits i)) else Inr JUndefined)"

text \<open>
  \<^verbatim>\<open>v[v.length - 1]\<close>. The length of an array or string is an integer far below
  \<^verbatim>\<open>2^53\<close>, where the subtraction is exact, so the element read is the last one, and
  \<^verbatim>\<open>undefined\<close> when there is none. The \<^verbatim>\<open>length\<close> member of an object can be any
  value: it is coerced to a number, and the member read is the one named by the
  difference. A number or boolean has no length, and no member named \<^verbatim>\<open>NaN\<close>.
\<close>

definition last_element :: "(string \<Rightarrow> jsnum) \<Rightarrow> jsval \<Rightarrow> js_error + jsval" where
  "last_element s2n v =
     (case v of
        JArr xs \<Rightarrow> Inr (if xs = [] then JUndefined else last xs)
      | JStr s \<Rightarrow> Inr (if code_units s = [] then JUndefined else JStr (utf8 (last (code_units s))))
      | JObj kvs \<Rightarrow> bindE (to_number s2n (lookup kvs ''length'')) (\<lambda>n.
                     Inr (lookup kvs (num_str (num_sub n (Fin 1)))))
      | _ \<Rightarrow> if nullish v then Inl (cannot_read v ''length'') else Inr JUndefined)"

subsection \<open>Percent-encoding\<close>

definition hex_digit :: "nat \<Rightarrow> char" where
  "hex_digit d = ''0123456789ABCDEF'' ! d"

definition percent :: "char \<Rightarrow> string" where
  "percent c = [CHR ''%'', hex_digit (of_char c div 16), hex_digit (of_char c mod 16)]"

definition alphanumeric :: string where
  "alphanumeric = ''ABCDEFGHIJKLMNOPQRSTUVWXYZabcdefghijklmnopqrstuvwxyz0123456789''"

text \<open>
  \<^verbatim>\<open>encodeURIComponent\<close> leaves the letters, the digits and \<^verbatim>\<open>- _ . ! ~ * ' ( )\<close>
  and escapes every other byte of the UTF-8 form; a string with an unpaired surrogate
  has no UTF-8 form, and the function throws a URIError.
\<close>

definition uri_component :: "string \<Rightarrow> string" where
  "uri_component s =
     concat (map (\<lambda>c. if c \<in> set (alphanumeric @ [CHR ''-'', CHR ''_'', CHR ''.'', CHR ''!'', CHR ''~'',
                                                      CHR ''*'', CHR 0x27, CHR ''('', CHR '')''])
                        then [c] else percent c) s)"

definition encodeURIComponent :: "jsval \<Rightarrow> js_error + string" where
  "encodeURIComponent v =
     bindE (to_str v) (\<lambda>s. if lone_surrogate s then Inl (URIError ''URI malformed'') else Inr (uri_component s))"

text \<open>
  The serialisation of a \<^verbatim>\<open>URLSearchParams\<close> (application/x-www-form-urlencoded): names
  and values are USVStrings; the letters, the digits and \<^verbatim>\<open>* - . _\<close> stay, a space
  becomes \<^verbatim>\<open>+\<close>, every other byte is escaped; the pairs are joined by \<^verbatim>\<open>&\<close>.
\<close>

definition form_encode :: "string \<Rightarrow> string" where
  "form_encode s =
     concat (map (\<lambda>c. if c \<in> set (alphanumeric @ [CHR ''*'', CHR ''-'', CHR ''.'', CHR ''_'']) then [c]
                        else if c = CHR '' '' then ''+'' else percent c) (scalar_values s))"

definition URLSearchParams :: "(string \<times> string) list \<Rightarrow> string" where
  "URLSearchParams ps = join ''&'' (map (\<lambda>(k, v). form_encode k @ ''='' @ form_encode v) ps)"

section \<open>The gateway service\<close>

text \<open>
  What a handler of the gateway depends on besides the request: the access token read
  from the environment at start-up, the answer of the Mapbox API to a GET of a URL
  (\<open>Inr\<close> the parsed body \<^verbatim>\<open>response.data\<close>, \<open>Inl\<close> the rejection), which of two
  rejections \<^verbatim>\<open>Promise.all\<close> sees first when both calls fail, the engine's
  StringToNumber, and the number of arguments its stack holds.
\<close>

record gateway_env =
  MAPBOX_ACCESS_TOKEN :: string
  axios_get :: "string \<Rightarrow> js_error + jsval"
  second_rejects_first :: bool
  string_to_number :: "string \<Rightarrow> jsnum"
  argument_limit :: nat

text \<open>
  What a handler does: the URLs it requests, in the order of the calls, and the response
  it sends. \<open>body\<close> is the value handed to \<^verbatim>\<open>res.json\<close> (Express serialises it, and a
  member whose value is \<^verbatim>\<open>undefined\<close> is not written).
\<close>

record response =
  status :: nat
  body :: jsval

record outcome =
  calls :: "string list"
  response :: response

definition ok :: "jsval \<Rightarrow> response" where
  "ok b = \<lparr>status = 200, body = b\<rparr>"

text \<open>\<^verbatim>\<open>req.body.arguments || req.body\<close>\<close>

definition args_of :: "jsval \<Rightarrow> js_error + jsval" where
  "args_of req_body = bindE (jget req_body ''arguments'') (\<lambda>a. Inr (js_or a req_body))"

text \<open>\<^verbatim>\<open>error.response?.data?.message\<close>\<close>

definition upstream_message :: "js_error \<Rightarrow> jsval" where
  "upstream_message e =
     (case e of
        AxiosError m (Some (st, d)) \<Rightarrow> opt_get d ''message''
      | _ \<Rightarrow> JUndefined)"

text \<open>
  The two catch blocks of the gateway: the handlers that call Mapbox answer with
  \<^verbatim>\<open>error.response?.data?.message || error.message\<close>, the two that only build a URL
  with \<^verbatim>\<open>error.message\<close>.
\<close>

definition upstream_failure :: "js_error \<Rightarrow> response" where
  "upstream_failure e =
     \<lparr>status = 500,
      body = JObj [(''success'', JBool False),
                   (''error'', js_or (upstream_message e) (JStr (error_message e)))]\<rparr>"

definition local_failure :: "js_error \<Rightarrow> response" where
  "local_failure e =
     \<lparr>status = 500,
      body = JObj [(''success'', JBool False), (''error'', JStr (error_message e))]\<rparr>"

text \<open>
  A handler is a \<^verbatim>\<open>try\<close> block and a \<^verbatim>\<open>catch\<close> block. What the \<^verbatim>\<open>try\<close> block does is
  an attempt: the URLs requested and either the thrown value or the object handed to
  \<^verbatim>\<open>res.json\<close>. The \<^verbatim>\<open>catch\<close> block turns the thrown value into the 500 response.
\<close>

type_synonym attempt = "string list \<times> (js_error + jsval)"

definition catch_upstream :: "attempt \<Rightarrow> outcome" where
  "catch_upstream t =
     \<lparr>calls = fst t, response = (case snd t of Inl e \<Rightarrow> upstream_failure e | Inr b \<Rightarrow> ok b)\<rparr>"

definition catch_local :: "attempt \<Rightarrow> outcome" where
  "catch_local t =
     \<lparr>calls = fst t, response = (case snd t of Inl e \<Rightarrow> local_failure e | Inr b \<Rightarrow> ok b)\<rparr>"

text \<open>A handler that builds one URL, requests it and reshapes the answer.\<close>

definition one_call_try ::
  "gateway_env \<Rightarrow> jsval \<Rightarrow> (jsval \<Rightarrow> js_error + string) \<Rightarrow> (jsval \<Rightarrow> js_error + jsval) \<Rightarrow> attempt" where
  "one_call_try env req_body build shape =
     (case bindE (args_of req_body) build of
        Inl e \<Rightarrow> ([], Inl e)
      | Inr url \<Rightarrow> ([url], bindE (axios_get env url) shape))"

subsection \<open>geocode_forward and geocode_reverse\<close>

definition feature_result :: "jsval \<Rightarrow> js_error + jsval" where
  "feature_result feature =
     (if nullish feature then Inl (cannot_read feature ''place_name'')
      else Inr (JObj [(''place_name'', field feature ''place_name''),
                      (''center'', field feature ''center''),
                      (''place_type'', field feature ''place_type''),
                      (''relevance'', field feature ''relevance''),
                      (''properties'', field feature ''properties''),
                      (''context'', field feature ''context'')]))"

definition geocode_results :: "jsval \<Rightarrow> js_error + jsval" where
  "geocode_results data =
     bindE (jget data ''features'') (\<lambda>features.
       case features of
         JArr fs \<Rightarrow> bindE (mapE feature_result fs) (\<lambda>results.
                      Inr (JObj [(''success'', JBool True),
                                 (''results'', JArr results),
                                 (''total'', JNum (Fin (of_nat (length results))))]))
       | _ \<Rightarrow> Inl (if nullish features then cannot_read features ''map''
                    else not_a_function ''response.data.features.map''))"

definition geocode_forward_url :: "gateway_env \<Rightarrow> jsval \<Rightarrow> js_error + string" where
  "geocode_forward_url env a =
     (let query = field a ''query'';
          limit = default_to (JNum (Fin 5)) (field a ''limit'');
          country = field a ''country''
      in bindE (encodeURIComponent query) (\<lambda>q.
         bindE (method_toString ''limit'' limit) (\<lambda>l.
         bindE (if truthy country then bindE (to_str country) (\<lambda>c. Inr [(''country'', c)]) else Inr []) (\<lambda>cs.
           Inr (''https://api.mapbox.com/geocoding/v5/mapbox.places/'' @ q @ ''.json'' @ ''?''
                @ URLSearchParams ([(''access_token'', MAPBOX_ACCESS_TOKEN env), (''limit'', l)] @ cs))))))"

definition geocode_forward_try :: "gateway_env \<Rightarrow> jsval \<Rightarrow> attempt" where
  "geocode_forward_try env req_body = one_call_try env req_body (geocode_forward_url env) geocode_results"

definition geocode_forward :: "gateway_env \<Rightarrow> jsval \<Rightarrow> outcome" where
  "geocode_forward env req_body = catch_upstream (geocode_forward_try env req_body)"

definition geocode_reverse_url :: "gateway_env \<Rightarrow> jsval \<Rightarrow> js_error + string" where
  "geocode_reverse_url env a =
     (let longitude = field a ''longitude'';
          latitude = field a ''latitude'';
          types = field a ''types''
      in bindE (to_str longitude) (\<lambda>lon.
         bindE (to_str latitude) (\<lambda>lat.
         bindE (if truthy types
                then bindE (js_length types) (\<lambda>n.
                     bindE (js_gt0 (string_to_number env) n) (\<lambda>some.
                       if some then bindE (array_join ''types'' '','' types) (\<lambda>t. Inr [(''types'', t)]) else Inr []))
                else Inr []) (\<lambda>ts.
           Inr (''https://api.mapbox.com/geocoding/v5/mapbox.places/'' @ lon @ '','' @ lat @ ''.json'' @ ''?''
                @ URLSearchParams ([(''access_token'', MAPBOX_ACCESS_TOKEN env)] @ ts))))))"

definition geocode_reverse_try :: "gateway_env \<Rightarrow> jsval \<Rightarrow> attempt" where
  "geocode_reverse_try env req_body = one_call_try env req_body (geocode_reverse_url env) geocode_results"

definition geocode_reverse :: "gateway_env \<Rightarrow> jsval \<Rightarrow> outcome" where
  "geocode_reverse env req_body = catch_upstream (geocode_reverse_try env req_body)"

subsection \<open>get_matrix\<close>

text \<open>\<^verbatim>\<open>coordinates.map(coord => coord.join(',')).join(';')\<close>\<close>

definition coordinate_string :: "jsval \<Rightarrow> js_error + string" where
  "coordinate_string coordinates =
     (case coordinates of
        JArr cs \<Rightarrow> bindE (mapE (array_join ''coord'' '','') cs) (\<lambda>ss. Inr (join '';'' ss))
      | _ \<Rightarrow> Inl (if nullish coordinates then cannot_read coordinates ''map''
                   else not_a_function ''coordinates.map''))"

definition get_matrix_url :: "gateway_env \<Rightarrow> jsval \<Rightarrow> js_error + string" where
  "get_matrix_url env a =
     (let coordinates = field a ''coordinates'';
          profile = default_to (JStr ''driving'') (field a ''profile'');
          sources = field a ''sources'';
          destinations = field a ''destinations'';
          annotations = default_to (JArr [JStr ''duration'', JStr ''distance'']) (field a ''annotations'')
      in bindE (coordinate_string coordinates) (\<lambda>cstr.
         bindE (to_str profile) (\<lambda>p.
         bindE (array_join ''annotations'' '','' annotations) (\<lambda>ann.
         bindE (if truthy sources then bindE (array_join ''sources'' '';'' sources) (\<lambda>x. Inr [(''sources'', x)])
                else Inr []) (\<lambda>src.
         bindE (if truthy destinations
                then bindE (array_join ''destinations'' '';'' destinations) (\<lambda>x. Inr [(''destinations'', x)])
                else Inr []) (\<lambda>dst.
           Inr (''https://api.mapbox.com/directions-matrix/v1/mapbox/'' @ p @ ''/'' @ cstr @ ''?''
                @ URLSearchParams ([(''access_token'', MAPBOX_ACCESS_TOKEN env), (''annotations'', ann)]
                                   @ src @ dst))))))))"

definition matrix_result :: "jsval \<Rightarrow> js_error + jsval" where
  "matrix_result data =
     (if nullish data then Inl (cannot_read data ''durations'')
      else Inr (JObj [(''success'', JBool True),
                      (''durations'', field data ''durations''),
                      (''distances'', field data ''distances''),
                      (''sources'', field data ''sources''),
                      (''destinations'', field data ''destinations''),
                      (''code'', field data ''code'')]))"

definition matrix_try :: "gateway_env \<Rightarrow> jsval \<Rightarrow> attempt" where
  "matrix_try env req_body = one_call_try env req_body (get_matrix_url env) matrix_result"

definition get_matrix :: "gateway_env \<Rightarrow> jsval \<Rightarrow> outcome" where
  "get_matrix env req_body = catch_upstream (matrix_try env req_body)"

subsection \<open>get_directions\<close>

text \<open>
  The handler destructures \<^verbatim>\<open>coordinates\<close>, \<^verbatim>\<open>profile\<close>, \<^verbatim>\<open>geometries\<close>,
  \<^verbatim>\<open>steps\<close> and \<^verbatim>\<open>overview\<close>; \<^verbatim>\<open>geometries\<close> is bound and not read again. Both
  URLs are built before either call is made, and both calls are made before either
  answer is awaited.
\<close>

definition directions_urls :: "gateway_env \<Rightarrow> jsval \<Rightarrow> js_error + string \<times> string" where
  "directions_urls env a =
     (let coordinates = field a ''coordinates'';
          profile = default_to (JStr ''driving'') (field a ''profile'');
          steps = default_to (JBool True) (field a ''steps'');
          overview = default_to (JStr ''full'') (field a ''overview'')
      in bindE (coordinate_string coordinates) (\<lambda>coordinateString.
         bindE (to_str profile) (\<lambda>p.
         bindE (method_toString ''steps'' steps) (\<lambda>st.
         bindE (to_str overview) (\<lambda>ov.
           Inr (''https://api.mapbox.com/directions/v5/mapbox/'' @ p @ ''/'' @ coordinateString @ ''?''
                  @ URLSearchParams [(''access_token'', MAPBOX_ACCESS_TOKEN env), (''geometries'', ''geojson''),
                                     (''steps'', st), (''overview'', ov)],
                ''https://api.mapbox.com/directions/v5/mapbox/'' @ p @ ''/'' @ coordinateString @ ''?''
                  @ URLSearchParams [(''access_token'', MAPBOX_ACCESS_TOKEN env), (''geometries'', ''polyline''),
                                     (''steps'', ''false''), (''overview'', ''full'')]))))))"

text \<open>\<^verbatim>\<open>await Promise.all([p1, p2])\<close> of two settled calls.\<close>

definition promise_all2 :: "bool \<Rightarrow> js_error + 'a \<Rightarrow> js_error + 'b \<Rightarrow> js_error + 'a \<times> 'b" where
  "promise_all2 second_first r1 r2 =
     (case (r1, r2) of
        (Inr x, Inr y) \<Rightarrow> Inr (x, y)
      | (Inl e1, Inr y) \<Rightarrow> Inl e1
      | (Inr x, Inl e2) \<Rightarrow> Inl e2
      | (Inl e1, Inl e2) \<Rightarrow> Inl (if second_first then e2 else e1))"

definition directions_result :: "jsval \<Rightarrow> jsval \<Rightarrow> js_error + jsval" where
  "directions_result geojson_data polyline_data =
     (if nullish geojson_data then Inl (cannot_read geojson_data ''routes'')
      else
        let result = [(''success'', JBool True),
                      (''routes'', field geojson_data ''routes''),
                      (''waypoints'', field geojson_data ''waypoints''),
                      (''code'', field geojson_data ''code'')]
        in bindE (jget polyline_data ''routes'') (\<lambda>routes.
           if truthy routes
           then bindE (js_index routes 0) (\<lambda>first.
                  if truthy first then Inr (JObj (result @ [(''polyline'', field first ''geometry'')]))
                  else Inr (JObj result))
           else Inr (JObj result)))"

definition directions_try :: "gateway_env \<Rightarrow> jsval \<Rightarrow> attempt" where
  "directions_try env req_body =
     (case bindE (args_of req_body) (directions_urls env) of
        Inl e \<Rightarrow> ([], Inl e)
      | Inr (geojsonUrl, polylineUrl) \<Rightarrow>
          ([geojsonUrl, polylineUrl],
           bindE (promise_all2 (second_rejects_first env) (axios_get env geojsonUrl) (axios_get env polylineUrl))
                 (\<lambda>(geojson_data, polyline_data). directions_result geojson_data polyline_data)))"

definition get_directions :: "gateway_env \<Rightarrow> jsval \<Rightarrow> outcome" where
  "get_directions env req_body = catch_upstream (directions_try env req_body)"

subsection \<open>get_static_image\<close>

definition marker_token :: "jsval \<Rightarrow> js_error + string" where
  "marker_token marker =
     (if nullish marker then Inl (cannot_read marker ''size'')
      else
        bindE (to_str (js_or (field marker ''size'') (JStr ''small''))) (\<lambda>size.
        bindE (if truthy (field marker ''label'')
               then bindE (to_str (field marker ''label'')) (\<lambda>l. Inr (''-'' @ l)) else Inr []) (\<lambda>label.
        bindE (to_str (js_or (field marker ''color'') (JStr ''red''))) (\<lambda>color.
        bindE (to_str (field marker ''longitude'')) (\<lambda>lon.
        bindE (to_str (field marker ''latitude'')) (\<lambda>lat.
          Inr (''pin-'' @ size @ label @ ''+'' @ color @ ''('' @ lon @ '','' @ lat @ '')'')))))))"

text \<open>
  \<^verbatim>\<open>if (markers.length > 0) url += '/' + markers.map(...).join(',')\<close>. A value that is not
  an array can pass the test (a non-empty string, an object with a \<^verbatim>\<open>length\<close>
  member); it has no \<^verbatim>\<open>map\<close>.
\<close>

definition marker_segment :: "gateway_env \<Rightarrow> jsval \<Rightarrow> js_error + string" where
  "marker_segment env markers =
     bindE (js_length markers) (\<lambda>n.
     bindE (js_gt0 (string_to_number env) n) (\<lambda>some.
       if some
       then (case markers of
               JArr ms \<Rightarrow> bindE (mapE marker_token ms) (\<lambda>tokens. Inr (''/'' @ join '','' tokens))
             | _ \<Rightarrow> Inl (not_a_function ''markers.map''))
       else Inr []))"

definition viewport_segment :: "jsval \<Rightarrow> jsval \<Rightarrow> jsval \<Rightarrow> js_error + string" where
  "viewport_segment bbox center zoom =
     (if truthy bbox then bindE (array_join ''bbox'' '','' bbox) (\<lambda>b. Inr (''/['' @ b @ '']''))
      else if truthy center \<and> zoom \<noteq> JUndefined
      then bindE (array_join ''center'' '','' center) (\<lambda>c. bindE (to_str zoom) (\<lambda>z. Inr (''/'' @ c @ '','' @ z)))
      else Inr [])"

definition static_image_result :: "gateway_env \<Rightarrow> jsval \<Rightarrow> js_error + jsval" where
  "static_image_result env a =
     (let style = default_to (JStr ''mapbox/streets-v12'') (field a ''style'');
          width = default_to (JNum (Fin 600)) (field a ''width'');
          height = default_to (JNum (Fin 400)) (field a ''height'');
          zoom = field a ''zoom'';
          center = field a ''center'';
          bbox = field a ''bbox'';
          markers = default_to (JArr []) (field a ''markers'')
      in bindE (to_str style) (\<lambda>st.
         bindE (marker_segment env markers) (\<lambda>ms.
         bindE (viewport_segment bbox center zoom) (\<lambda>vp.
         bindE (to_str width) (\<lambda>w.
         bindE (to_str height) (\<lambda>h.
           Inr (JObj [(''success'', JBool True),
                      (''image_url'', JStr (''https://api.mapbox.com/styles/v1/'' @ st @ ''/static'' @ ms @ vp
                                            @ ''/'' @ w @ ''x'' @ h @ ''?''
                                            @ URLSearchParams [(''access_token'', MAPBOX_ACCESS_TOKEN env)])),
                      (''width'', width),
                      (''height'', height)])))))))"

text \<open>A handler that calls nothing: it builds its answer from the request alone.\<close>

definition no_call_try :: "jsval \<Rightarrow> (jsval \<Rightarrow> js_error + jsval) \<Rightarrow> attempt" where
  "no_call_try req_body build = ([], bindE (args_of req_body) build)"

definition static_image_try :: "gateway_env \<Rightarrow> jsval \<Rightarrow> attempt" where
  "static_image_try env req_body = no_call_try req_body (static_image_result env)"

definition get_static_image :: "gateway_env \<Rightarrow> jsval \<Rightarrow> outcome" where
  "get_static_image env req_body = catch_local (static_image_try env req_body)"

subsection \<open>get_route_map\<close>

text \<open>
  The statements of the handler in their order: \<^verbatim>\<open>coordinates[0]\<close> and
  \<^verbatim>\<open>coordinates[coordinates.length - 1]\<close> are read, the two pins are built from them,
  the overlay is added to the URL, and only then \<^verbatim>\<open>coordinates.map\<close> is called, which
  a value that is not an array does not have. The first statement that throws decides
  the message the client is sent.
\<close>

definition pin :: "string \<Rightarrow> jsval \<Rightarrow> js_error + string" where
  "pin prefix coord =
     bindE (js_index coord 0) (\<lambda>x. bindE (to_str x) (\<lambda>xs.
     bindE (js_index coord 1) (\<lambda>y. bindE (to_str y) (\<lambda>ys.
       Inr (prefix @ ''('' @ xs @ '','' @ ys @ '')'')))))"

text \<open>
  \<^verbatim>\<open>(maxLon - minLon) * 0.1\<close> and the four sides of the box, each operation rounded to
  binary64.
\<close>

definition padded_box :: "jsnum \<Rightarrow> jsnum \<Rightarrow> jsnum \<Rightarrow> jsnum \<Rightarrow> jsnum list" where
  "padded_box minLon maxLon minLat maxLat =
     (let lonPadding = num_mul (num_sub maxLon minLon) (Fin (1 / 10));
          latPadding = num_mul (num_sub maxLat minLat) (Fin (1 / 10))
      in [num_sub minLon lonPadding, num_sub minLat latPadding,
          num_add maxLon lonPadding, num_add maxLat latPadding])"

definition route_map_result :: "gateway_env \<Rightarrow> jsval \<Rightarrow> js_error + jsval" where
  "route_map_result env a =
     (let coordinates = field a ''coordinates'';
          style = default_to (JStr ''mapbox/streets-v12'') (field a ''style'');
          width = default_to (JNum (Fin 800)) (field a ''width'');
          height = default_to (JNum (Fin 600)) (field a ''height'');
          route_polyline = field a ''route_polyline''
      in bindE (to_str style) (\<lambda>st.
         bindE (js_index coordinates 0) (\<lambda>startCoord.
         bindE (last_element (string_to_number env) coordinates) (\<lambda>endCoord.
         bindE (pin ''pin-s-a+00ff00'' startCoord) (\<lambda>startPin.
         bindE (pin ''pin-s-b+ff0000'' endCoord) (\<lambda>endPin.
         bindE (if truthy route_polyline
                then bindE (encodeURIComponent route_polyline) (\<lambda>e.
                       Inr (''path-5+0080ff-0.75('' @ e @ '')'' @ '','' @ join '','' [startPin, endPin]))
                else Inr (join '','' [startPin, endPin])) (\<lambda>overlay.
           case coordinates of
             JArr cs \<Rightarrow>
               bindE (mapE (\<lambda>coord. js_index coord 0) cs) (\<lambda>lons.
               bindE (mapE (\<lambda>coord. js_index coord 1) cs) (\<lambda>lats.
               bindE (Math_min (argument_limit env) (string_to_number env) lons) (\<lambda>minLon.
               bindE (Math_max (argument_limit env) (string_to_number env) lons) (\<lambda>maxLon.
               bindE (Math_min (argument_limit env) (string_to_number env) lats) (\<lambda>minLat.
               bindE (Math_max (argument_limit env) (string_to_number env) lats) (\<lambda>maxLat.
                 let bbox = padded_box minLon maxLon minLat maxLat
                 in bindE (to_str width) (\<lambda>w.
                    bindE (to_str height) (\<lambda>h.
                      Inr (JObj [(''success'', JBool True),
                                 (''image_url'',
                                  JStr (''https://api.mapbox.com/styles/v1/'' @ st @ ''/static''
                                        @ ''/'' @ overlay
                                        @ ''/['' @ join '','' (map num_str bbox) @ '']''
                                        @ ''/'' @ w @ ''x'' @ h @ ''?''
                                        @ URLSearchParams [(''access_token'', MAPBOX_ACCESS_TOKEN env)])),
                                 (''width'', width),
                                 (''height'', height),
                                 (''start_coordinates'', startCoord),
                                 (''end_coordinates'', endCoord),
                                 (''bounding_box'', JArr (map JNum bbox))])))))))))
           | _ \<Rightarrow> Inl (not_a_function ''coordinates.map''))))))))"

definition route_map_try :: "gateway_env \<Rightarrow> jsval \<Rightarrow> attempt" where
  "route_map_try env req_body = no_call_try req_body (route_map_result env)"

definition get_route_map :: "gateway_env \<Rightarrow> jsval \<Rightarrow> outcome" where
  "get_route_map env req_body = catch_local (route_map_try env req_body)"

section \<open>The assistant bridge\<close>

text \<open>
  The outbound calls of the bridge, as they appear in the trace of one chat request: the
  GET of the tool catalogue, a POST of a payload to the Messages API, and a POST of a
  body to a route of the gateway.
\<close>

datatype bridge_call =
    ToolsFetch string
  | ModelCall jsval
  | ToolCall string jsval

text \<open>
  What a chat request depends on besides its body and the cached catalogue: the address
  of the gateway, the answer to the catalogue request, the answer of the Messages API to
  a payload (the payloads of one request are pairwise different, each carrying more
  messages than the one before), the answer of the gateway to the \<open>n\<close>-th tool call of
  the request, and \<^verbatim>\<open>JSON.stringify\<close>. \<open>Inr\<close> is \<^verbatim>\<open>response.data\<close>, \<open>Inl\<close> the rejection;
  the fixed headers and the timeouts of the calls are not part of the model.
\<close>

record bridge_env =
  MCP_SERVER_URL :: string
  tools_get :: "js_error + jsval"
  messages_post :: "jsval \<Rightarrow> js_error + jsval"
  mcp_post :: "nat \<Rightarrow> string \<Rightarrow> jsval \<Rightarrow> js_error + jsval"
  JSON_stringify :: "jsval \<Rightarrow> jsval"

subsection \<open>initializeMCPTools\<close>

definition tool_entry :: "jsval \<Rightarrow> js_error + jsval" where
  "tool_entry tool =
     (if nullish tool then Inl (cannot_read tool ''name'')
      else Inr (JObj [(''name'', field tool ''name''),
                      (''description'', field tool ''description''),
                      (''input_schema'', field tool ''inputSchema'')]))"

text \<open>
  The catalogue is replaced when the request and the mapping succeed; any failure is
  logged and swallowed, and the cached catalogue stays as it was.
\<close>

definition initializeMCPTools :: "bridge_env \<Rightarrow> jsval list \<Rightarrow> jsval list" where
  "initializeMCPTools env availableTools =
     (case bindE (tools_get env) (\<lambda>data.
           bindE (jget data ''tools'') (\<lambda>tools.
             case tools of
               JArr ts \<Rightarrow> mapE tool_entry ts
             | _ \<Rightarrow> Inl (if nullish tools then cannot_read tools ''map''
                          else not_a_function ''response.data.tools.map''))) of
        Inl e \<Rightarrow> availableTools
      | Inr ts \<Rightarrow> ts)"

subsection \<open>Payloads\<close>

definition system_lines :: "string list" where
  "system_lines =
     [''You are a helpful AI assistant with access to Mapbox mapping and location services. You can help with:'',
      ''- Geocoding: Convert addresses to coordinates and vice versa'',
      ''- Directions: Get driving, walking, or cycling routes between locations'',
      ''- Static Maps: Generate map images with markers and custom styling'',
      ''- Route Maps: Generate visual route maps showing start/end points and route paths'',
      ''- Matrix: Calculate travel times and distances between multiple points'',
      [],
      ''When users ask to '' @ [CHR 0x22] @ ''show'' @ [CHR 0x22] @ '' a route or want to '' @ [CHR 0x22] @ ''see'' @ [CHR 0x22]
        @ '' directions, first use get_directions to get route details, then use get_route_map with the same coordinates and the polyline from the directions response to create visual maps.'',
      ''IMPORTANT: When you use get_route_map or get_static_image tools, always include the image_url from the response in your final answer so users can see the map. Simply include the full URL in your response text.'',
      ''Always provide helpful, accurate responses about mapping and location-based queries.'',
      ''When using tools, explain what you'' @ [CHR 0x27] @ ''re doing and interpret the results clearly for the user.'',
      ''Image URLs from Mapbox will be automatically displayed as images in the chat interface.'']"

text \<open>
  The two template literals of the source hold the same lines; the continuation lines
  are indented by 15 spaces in the first call and by 17 in the follow-up calls.
\<close>

definition system_prompt :: "nat \<Rightarrow> string" where
  "system_prompt indent = join (CHR 0x0A # replicate indent CHR '' '') system_lines"

definition first_payload :: "jsval list \<Rightarrow> jsval list \<Rightarrow> jsval" where
  "first_payload availableTools messages =
     JObj ([(''model'', JStr ''claude-sonnet-4-20250514''),
            (''max_tokens'', JNum (Fin 2000)),
            (''messages'', JArr messages),
            (''system'', JStr (system_prompt 15))]
           @ (if availableTools \<noteq> []
              then [(''tools'', JArr availableTools), (''tool_choice'', JObj [(''type'', JStr ''auto'')])]
              else []))"

definition follow_up_payload :: "jsval list \<Rightarrow> jsval list \<Rightarrow> jsval" where
  "follow_up_payload availableTools messages =
     JObj [(''model'', JStr ''claude-sonnet-4-20250514''),
           (''max_tokens'', JNum (Fin 2000)),
           (''messages'', JArr messages),
           (''tools'', JArr availableTools),
           (''system'', JStr (system_prompt 17))]"

subsection \<open>handleToolCalls\<close>

definition tool_result_block :: "bridge_env \<Rightarrow> jsval \<Rightarrow> string \<Rightarrow> js_error + jsval \<Rightarrow> jsval" where
  "tool_result_block env block name r =
     (case r of
        Inr data \<Rightarrow> JObj [(''type'', JStr ''tool_result''),
                          (''tool_use_id'', field block ''id''),
                          (''content'', JSON_stringify env data)]
      | Inl error \<Rightarrow> JObj [(''type'', JStr ''tool_result''),
                           (''tool_use_id'', field block ''id''),
                           (''content'', JStr (''Error calling tool '' @ name @ '': '' @ error_message error)),
                           (''is_error'', JBool True)])"

text \<open>
  The blocks are visited in order; \<open>n\<close> counts the tool calls of the request made so
  far. The name of a tool-use block is converted to a string for the log line before the
  \<^verbatim>\<open>try\<close>, so a failure of that conversion, like a \<^verbatim>\<open>null\<close> block, leaves the function;
  inside the \<^verbatim>\<open>try\<close> only the POST can fail, and its failure becomes a result block.
\<close>

fun handleToolCalls :: "bridge_env \<Rightarrow> nat \<Rightarrow> jsval list \<Rightarrow> bridge_call list \<times> (js_error + jsval list)" where
  "handleToolCalls env n [] = ([], Inr [])"
| "handleToolCalls env n (block # rest) =
     (if nullish block then ([], Inl (cannot_read block ''type''))
      else if field block ''type'' = JStr ''tool_use''
      then (case to_str (field block ''name'') of
              Inl e \<Rightarrow> ([], Inl e)
            | Inr name \<Rightarrow>
                let url = MCP_SERVER_URL env @ ''/'' @ name;
                    post_body = JObj [(''arguments'', field block ''input'')];
                    result = tool_result_block env block name (mcp_post env n url post_body);
                    later = handleToolCalls env (Suc n) rest
                in (ToolCall url post_body # fst later,
                    bindE (snd later) (\<lambda>toolResults. Inr (result # toolResults))))
      else handleToolCalls env n rest)"

subsection \<open>The chat handler\<close>

text \<open>\<^verbatim>\<open>content.some(block => block.type === 'tool_use')\<close>: it stops at the first match.\<close>

fun some_tool_use :: "jsval list \<Rightarrow> js_error + bool" where
  "some_tool_use [] = Inr False"
| "some_tool_use (block # rest) =
     (if nullish block then Inl (cannot_read block ''type'')
      else if field block ''type'' = JStr ''tool_use'' then Inr True
      else some_tool_use rest)"

definition has_tool_use :: "jsval \<Rightarrow> js_error + bool" where
  "has_tool_use finalResponse =
     bindE (jget finalResponse ''content'') (\<lambda>content.
       case content of
         JArr blocks \<Rightarrow> some_tool_use blocks
       | _ \<Rightarrow> Inl (if nullish content then cannot_read content ''some''
                    else not_a_function ''finalResponse.content.some''))"

text \<open>
  \<^verbatim>\<open>[...v]\<close>, \<open>expr\<close> being the text of the expression \<^verbatim>\<open>v\<close> in the source: the
  elements of an array, the code points of a string; nothing else that JSON can hold
  iterates.
\<close>

definition spread :: "string \<Rightarrow> jsval \<Rightarrow> js_error + jsval list" where
  "spread expr v =
     (case v of
        JArr xs \<Rightarrow> Inr xs
      | JStr s \<Rightarrow> Inr (map (\<lambda>cp. JStr (utf8 cp)) (code_points 0 0 s))
      | _ \<Rightarrow> Inl (not_iterable expr))"

text \<open>
  \<^verbatim>\<open>l + r\<close>: an array or object operand is converted to a string first; with a string
  operand the result is the concatenation, otherwise the sum of the numbers.
\<close>

definition to_primitive :: "jsval \<Rightarrow> js_error + jsval" where
  "to_primitive v =
     (case v of
        JArr xs \<Rightarrow> bindE (to_str v) (\<lambda>s. Inr (JStr s))
      | JObj kvs \<Rightarrow> bindE (to_str v) (\<lambda>s. Inr (JStr s))
      | _ \<Rightarrow> Inr v)"

fun primitive_number :: "jsval \<Rightarrow> jsnum" where
  "primitive_number JNull = Fin 0"
| "primitive_number (JBool b) = Fin (if b then 1 else 0)"
| "primitive_number (JNum n) = n"
| "primitive_number v = NaN"

definition js_add :: "jsval \<Rightarrow> jsval \<Rightarrow> js_error + jsval" where
  "js_add l r =
     bindE (to_primitive l) (\<lambda>lp.
     bindE (to_primitive r) (\<lambda>rp.
       if (case lp of JStr s \<Rightarrow> True | _ \<Rightarrow> False) \<or> (case rp of JStr s \<Rightarrow> True | _ \<Rightarrow> False)
       then bindE (to_str lp) (\<lambda>a. bindE (to_str rp) (\<lambda>b. Inr (JStr (a @ b))))
       else Inr (JNum (num_add (primitive_number lp) (primitive_number rp)))))"

fun set_member :: "(string \<times> jsval) list \<Rightarrow> string \<Rightarrow> jsval \<Rightarrow> (string \<times> jsval) list" where
  "set_member [] k v = [(k, v)]"
| "set_member ((k', v') # kvs) k v = (if k' = k then (k, v) # kvs else (k', v') # set_member kvs k v)"

text \<open>
  \<^verbatim>\<open>obj.k += v\<close> in strict code (the bridge is an ES module). On an array the new
  property is none of its elements: it is not serialised, and reading it back can only
  feed the next sum, which is again a primitive; the model leaves the array as it is.
  A primitive takes no property.
\<close>

definition type_of :: "jsval \<Rightarrow> string" where
  "type_of v = (case v of JBool b \<Rightarrow> ''boolean'' | JNum n \<Rightarrow> ''number'' | JStr s \<Rightarrow> ''string''
                | JUndefined \<Rightarrow> ''undefined'' | _ \<Rightarrow> ''object'')"

definition add_to_member :: "jsval \<Rightarrow> string \<Rightarrow> jsval \<Rightarrow> js_error + jsval" where
  "add_to_member obj k v =
     (if nullish obj then Inl (cannot_read obj k)
      else bindE (js_add (field obj k) v) (\<lambda>sum.
             case obj of
               JObj kvs \<Rightarrow> Inr (JObj (set_member kvs k sum))
             | JArr xs \<Rightarrow> Inr obj
             | _ \<Rightarrow> bindE (to_str obj) (\<lambda>text.
                      Inl (TypeError (''Cannot create property '' @ [CHR 0x27] @ k @ [CHR 0x27] @ '' on ''
                                      @ type_of obj @ '' '' @ [CHR 0x27] @ text @ [CHR 0x27])))))"

definition accumulate_usage :: "jsval \<Rightarrow> jsval \<Rightarrow> js_error + jsval" where
  "accumulate_usage totalUsage data =
     bindE (jget data ''usage'') (\<lambda>usage.
       if truthy usage
       then bindE (add_to_member totalUsage ''input_tokens'' (js_or (field usage ''input_tokens'') (JNum (Fin 0)))) (\<lambda>u.
              add_to_member u ''output_tokens'' (js_or (field usage ''output_tokens'') (JNum (Fin 0))))
       else Inr totalUsage)"

record loop_state =
  currentMessages :: "jsval list"
  finalResponse :: jsval
  totalUsage :: jsval
  trace :: "bridge_call list"
  tool_calls :: nat

text \<open>
  One pass through the body of the \<^verbatim>\<open>while\<close> loop: the tool calls, the two appended
  messages, the follow-up call and the usage counters. \<open>Inl\<close> carries the trace up to
  the throw and the thrown value.
\<close>

definition tool_round :: "bridge_env \<Rightarrow> jsval list \<Rightarrow> loop_state \<Rightarrow> (bridge_call list \<times> js_error) + loop_state" where
  "tool_round env availableTools s =
     (case field (finalResponse s) ''content'' of
        JArr content \<Rightarrow>
          (let handled = handleToolCalls env (tool_calls s) content
           in case snd handled of
                Inl e \<Rightarrow> Inl (trace s @ fst handled, e)
              | Inr toolResults \<Rightarrow>
                  let messages = currentMessages s
                                 @ [JObj [(''role'', JStr ''assistant''), (''content'', JArr content)],
                                    JObj [(''role'', JStr ''user''), (''content'', JArr toolResults)]];
                      payload = follow_up_payload availableTools messages;
                      tr = trace s @ fst handled @ [ModelCall payload]
                  in case bindE (messages_post env payload) (\<lambda>data.
                            bindE (accumulate_usage (totalUsage s) data) (\<lambda>usage. Inr (data, usage))) of
                       Inl e \<Rightarrow> Inl (tr, e)
                     | Inr (data, usage) \<Rightarrow>
                         Inr \<lparr>currentMessages = messages, finalResponse = data, totalUsage = usage,
                              trace = tr, tool_calls = tool_calls s + length (fst handled)\<rparr>)
      | _ \<Rightarrow> Inl (trace s, not_iterable ''content''))"

text \<open>
  The \<^verbatim>\<open>while\<close> loop. The source puts no bound on the number of rounds; a run that never
  leaves the loop is \<open>None\<close>.
\<close>

partial_function (option) tool_loop ::
  "bridge_env \<Rightarrow> jsval list \<Rightarrow> loop_state \<Rightarrow> ((bridge_call list \<times> js_error) + loop_state) option" where
  "tool_loop env availableTools s =
     (case has_tool_use (finalResponse s) of
        Inl e \<Rightarrow> Some (Inl (trace s, e))
      | Inr again \<Rightarrow>
          if again
          then (case tool_round env availableTools s of
                  Inl failed \<Rightarrow> Some (Inl failed)
                | Inr s' \<Rightarrow> tool_loop env availableTools s')
          else Some (Inr s))"

text \<open>\<^verbatim>\<open>error.response?.status\<close> decides the status of the catch block.\<close>

definition chat_failure :: "js_error \<Rightarrow> response" where
  "chat_failure e =
     (case e of
        AxiosError m (Some (st, d)) \<Rightarrow>
          if st = 401 then \<lparr>status = 401, body = JObj [(''error'', JStr ''Invalid API key'')]\<rparr>
          else if st = 429 then \<lparr>status = 429, body = JObj [(''error'', JStr ''Rate limit exceeded'')]\<rparr>
          else \<lparr>status = 500, body = JObj [(''error'', JStr ''Failed to process chat message'')]\<rparr>
      | _ \<Rightarrow> \<lparr>status = 500, body = JObj [(''error'', JStr ''Failed to process chat message'')]\<rparr>)"

text \<open>
  The result of a chat request: the catalogue cached afterwards, the calls made, and the
  response sent, or the exception that left the handler (the body is destructured before
  the \<^verbatim>\<open>try\<close>).
\<close>

datatype reply = Responded response | Escaped js_error

record chat_outcome =
  tools_after :: "jsval list"
  chat_trace :: "bridge_call list"
  reply :: reply

definition user_message :: "jsval \<Rightarrow> jsval" where
  "user_message message = JObj [(''role'', JStr ''user''), (''content'', message)]"

definition assistant_message :: "jsval \<Rightarrow> jsval" where
  "assistant_message content = JObj [(''role'', JStr ''assistant''), (''content'', content)]"

definition chat :: "bridge_env \<Rightarrow> jsval list \<Rightarrow> jsval \<Rightarrow> chat_outcome option" where
  "chat env availableTools req_body =
     (if nullish req_body
      then Some \<lparr>tools_after = availableTools, chat_trace = [],
                 reply = Escaped (TypeError (''Cannot destructure property '' @ [CHR 0x27] @ ''message'' @ [CHR 0x27]
                                             @ '' of '' @ [CHR 0x27] @ ''req.body'' @ [CHR 0x27] @ '' as it is ''
                                             @ (if req_body = JNull then ''null'' else ''undefined'') @ ''.''))\<rparr>
      else
        let message = field req_body ''message'';
            conversationHistory = default_to (JArr []) (field req_body ''conversationHistory'')
        in if \<not> truthy message \<or> (case message of JStr m \<Rightarrow> False | _ \<Rightarrow> True)
           then Some \<lparr>tools_after = availableTools, chat_trace = [],
                      reply = Responded \<lparr>status = 400,
                                         body = JObj [(''error'', JStr ''Message is required and must be a string'')]\<rparr>\<rparr>
           else
             let tools = (if availableTools = [] then initializeMCPTools env availableTools else availableTools);
                 fetched = (if availableTools = [] then [ToolsFetch (MCP_SERVER_URL env @ ''/tools'')] else [])
             in (case spread ''conversationHistory'' conversationHistory of
                   Inl e \<Rightarrow> Some \<lparr>tools_after = tools, chat_trace = fetched, reply = Responded (chat_failure e)\<rparr>
                 | Inr history \<Rightarrow>
                     let messages = history @ [user_message message];
                         claudePayload = first_payload tools messages;
                         tr = fetched @ [ModelCall claudePayload]
                     in (case bindE (messages_post env claudePayload) (\<lambda>data.
                               bindE (jget data ''usage'') (\<lambda>usage. Inr (data, usage))) of
                           Inl e \<Rightarrow> Some \<lparr>tools_after = tools, chat_trace = tr, reply = Responded (chat_failure e)\<rparr>
                         | Inr (data, usage) \<Rightarrow>
                             (case tool_loop env tools
                                     \<lparr>currentMessages = messages, finalResponse = data, totalUsage = usage,
                                      trace = tr, tool_calls = 0\<rparr> of
                                None \<Rightarrow> None
                              | Some (Inl (tr', e)) \<Rightarrow>
                                  Some \<lparr>tools_after = tools, chat_trace = tr', reply = Responded (chat_failure e)\<rparr>
                              | Some (Inr s) \<Rightarrow>
                                  Some \<lparr>tools_after = tools, chat_trace = trace s,
                                        reply = Responded
                                          \<lparr>status = 200,
                                           body = JObj [(''response'', field (finalResponse s) ''content''),
                                                        (''conversationHistory'',
                                                         JArr (history @ [user_message message,
                                                                          assistant_message (field (finalResponse s) ''content'')])),
                                                        (''usage'', totalUsage s)]\<rparr>\<rparr>))))"

section \<open>Definitions used to state the properties\<close>

text \<open>
  A gateway environment for the concrete runs: the token \<^verbatim>\<open>tk\<close>, a Mapbox API that is
  not reachable, a StringToNumber that is never consulted by them, and a stack that
  holds 125000 arguments.
\<close>

definition offline_env :: gateway_env where
  "offline_env = \<lparr>MAPBOX_ACCESS_TOKEN = ''tk'',
                   axios_get = (\<lambda>url. Inl (AxiosError ''Network Error'' None)),
                   second_rejects_first = False,
                   string_to_number = (\<lambda>s. NaN),
                   argument_limit = 125000\<rparr>"

text \<open>
  The text of a string or number, and the test for a number, used where a property is
  stated for requests of the shape the tool schema describes.
\<close>

definition the_str :: "jsval \<Rightarrow> string" where
  "the_str v = (case v of JStr s \<Rightarrow> s | JNum n \<Rightarrow> num_str n | _ \<Rightarrow> [])"

definition is_number :: "jsval \<Rightarrow> bool" where
  "is_number v = (case v of JNum n \<Rightarrow> True | _ \<Rightarrow> False)"

text \<open>
  A marker as the tool schema describes it: an object with numeric \<^verbatim>\<open>longitude\<close> and
  \<^verbatim>\<open>latitude\<close>, and \<^verbatim>\<open>size\<close>, \<^verbatim>\<open>color\<close>, \<^verbatim>\<open>label\<close> each omitted or a string
  (the schema puts no bound on the length of a string, so the empty one is among them).
\<close>

definition optional_string :: "jsval \<Rightarrow> bool" where
  "optional_string v = (case v of JUndefined \<Rightarrow> True | JStr s \<Rightarrow> True | _ \<Rightarrow> False)"

definition wf_marker :: "jsval \<Rightarrow> bool" where
  "wf_marker m =
     ((case m of JObj kvs \<Rightarrow> True | _ \<Rightarrow> False)
      \<and> is_number (field m ''longitude'') \<and> is_number (field m ''latitude'')
      \<and> optional_string (field m ''size'')
      \<and> optional_string (field m ''color'')
      \<and> optional_string (field m ''label''))"

text \<open>
  The marker syntax in the words of the specification:
  \<^verbatim>\<open>pin-{size}[-{label}]+{color}({longitude},{latitude})\<close>, the size \<^verbatim>\<open>small\<close> and the
  colour \<^verbatim>\<open>red\<close> when omitted, the label part only for a marker that has a label.
\<close>

definition spec_marker_token :: "jsval \<Rightarrow> string" where
  "spec_marker_token m =
     ''pin-'' @ (if field m ''size'' = JUndefined then ''small'' else the_str (field m ''size''))
     @ (if field m ''label'' = JUndefined then [] else ''-'' @ the_str (field m ''label''))
     @ ''+'' @ (if field m ''color'' = JUndefined then ''red'' else the_str (field m ''color''))
     @ ''('' @ the_str (field m ''longitude'') @ '','' @ the_str (field m ''latitude'') @ '')''"

text \<open>
  The same syntax with the defaults as the handler applies them: the size \<^verbatim>\<open>small\<close>
  and the colour \<^verbatim>\<open>red\<close> when the member is omitted or empty, the label part only
  for a label that is not empty.
\<close>

definition absent :: "jsval \<Rightarrow> bool" where
  "absent v = (v = JUndefined \<or> v = JStr [])"

definition amended_marker_token :: "jsval \<Rightarrow> string" where
  "amended_marker_token m =
     ''pin-'' @ (if absent (field m ''size'') then ''small'' else the_str (field m ''size''))
     @ (if absent (field m ''label'') then [] else ''-'' @ the_str (field m ''label''))
     @ ''+'' @ (if absent (field m ''color'') then ''red'' else the_str (field m ''color''))
     @ ''('' @ the_str (field m ''longitude'') @ '','' @ the_str (field m ''latitude'') @ '')''"

text \<open>A marker with an empty colour.\<close>

definition colourless :: jsval where
  "colourless = JObj [(''longitude'', JNum (Fin 1)), (''latitude'', JNum (Fin 2)), (''color'', JStr [])]"

definition times_square :: jsval where
  "times_square = JObj [(''longitude'', JNum (Fin (- 73985 / 1000))), (''latitude'', JNum (Fin (40758 / 1000))),
                        (''color'', JStr ''red''), (''size'', JStr ''small'')]"

text \<open>
  A coordinate pair \<^verbatim>\<open>[longitude, latitude]\<close> of two numbers and the text of a pin at
  such a pair.
\<close>

definition coord_pair :: "rat \<times> rat \<Rightarrow> jsval" where
  "coord_pair p = JArr [JNum (Fin (fst p)), JNum (Fin (snd p))]"

definition pin_text :: "string \<Rightarrow> rat \<times> rat \<Rightarrow> string" where
  "pin_text prefix p = prefix @ ''('' @ num_str (Fin (fst p)) @ '','' @ num_str (Fin (snd p)) @ '')''"

text \<open>
  The bounding box in the words of the specification, the minima and maxima over the
  pairs widened on each side by a tenth of the extent: first with the arithmetic of the
  rationals, as the formula reads, then with each difference, product and sum rounded to
  binary64.
\<close>

definition exact_bounding_box :: "(rat \<times> rat) list \<Rightarrow> rat list" where
  "exact_bounding_box ps =
     (let minLon = Min (fst ` set ps); maxLon = Max (fst ` set ps);
          minLat = Min (snd ` set ps); maxLat = Max (snd ` set ps)
      in [minLon - (1 / 10) * (maxLon - minLon), minLat - (1 / 10) * (maxLat - minLat),
          maxLon + (1 / 10) * (maxLon - minLon), maxLat + (1 / 10) * (maxLat - minLat)])"

definition spec_bounding_box :: "(rat \<times> rat) list \<Rightarrow> jsnum list" where
  "spec_bounding_box ps =
     (let minLon = Fin (Min (fst ` set ps)); maxLon = Fin (Max (fst ` set ps));
          minLat = Fin (Min (snd ` set ps)); maxLat = Fin (Max (snd ` set ps))
      in [num_sub minLon (num_mul (Fin (1 / 10)) (num_sub maxLon minLon)),
          num_sub minLat (num_mul (Fin (1 / 10)) (num_sub maxLat minLat)),
          num_add maxLon (num_mul (Fin (1 / 10)) (num_sub maxLon minLon)),
          num_add maxLat (num_mul (Fin (1 / 10)) (num_sub maxLat minLat))])"

text \<open>
  A directions URL in the shape the specification gives it, and a Mapbox API that
  answers the two calls of one directions request, for the concrete runs.
\<close>

definition directions_url :: "string \<Rightarrow> string \<Rightarrow> string \<Rightarrow> string \<Rightarrow> string \<Rightarrow> string \<Rightarrow> string" where
  "directions_url token profile coordinateString geometries steps overview =
     ''https://api.mapbox.com/directions/v5/mapbox/'' @ profile @ ''/'' @ coordinateString @ ''?''
     @ URLSearchParams [(''access_token'', token), (''geometries'', geometries),
                        (''steps'', steps), (''overview'', overview)]"

definition geojson_answer :: jsval where
  "geojson_answer =
     JObj [(''routes'', JArr [JObj [(''geometry'', JObj [(''type'', JStr ''LineString'')]), (''distance'', JNum (Fin 1500))]]),
           (''waypoints'', JArr [JObj [(''name'', JStr ''A'')], JObj [(''name'', JStr ''B'')]]),
           (''code'', JStr ''Ok'')]"

definition polyline_answer :: jsval where
  "polyline_answer =
     JObj [(''routes'', JArr [JObj [(''geometry'', JStr ''_p~iF~ps|U''), (''distance'', JNum (Fin 1500))]]),
           (''code'', JStr ''Ok'')]"

definition directions_env :: gateway_env where
  "directions_env =
     \<lparr>MAPBOX_ACCESS_TOKEN = ''tk'',
      axios_get = (\<lambda>url. if url = ''https://api.mapbox.com/directions/v5/mapbox/driving/-74,40;-73,41?access_token=tk&geometries=geojson&steps=true&overview=full''
                         then Inr geojson_answer else Inr polyline_answer),
      second_rejects_first = False,
      string_to_number = (\<lambda>s. NaN),
      argument_limit = 125000\<rparr>"

text \<open>
  Two request bodies differ only in \<^verbatim>\<open>geometries\<close> when they are equal once that
  member is removed, at the top level and inside \<^verbatim>\<open>arguments\<close>.
\<close>

definition without_member :: "string \<Rightarrow> jsval \<Rightarrow> jsval" where
  "without_member k v = (case v of JObj kvs \<Rightarrow> JObj (filter (\<lambda>kv. fst kv \<noteq> k) kvs) | _ \<Rightarrow> v)"

definition erase_geometries :: "jsval \<Rightarrow> jsval" where
  "erase_geometries req_body =
     (case req_body of
        JObj kvs \<Rightarrow>
          JObj (map (\<lambda>kv. if fst kv = ''arguments'' then (fst kv, without_member ''geometries'' (snd kv)) else kv)
                    (filter (\<lambda>kv. fst kv \<noteq> ''geometries'') kvs))
      | _ \<Rightarrow> req_body)"

text \<open>
  The entry of \<^verbatim>\<open>get_directions\<close> in the tool catalogue that \<^verbatim>\<open>GET /tools\<close> serves.
\<close>

definition get_directions_tool :: jsval where
  "get_directions_tool =
     JObj [(''name'', JStr ''get_directions''),
           (''description'', JStr ''Get directions between multiple waypoints''),
           (''inputSchema'',
            JObj [(''type'', JStr ''object''),
                  (''properties'',
                   JObj [(''coordinates'',
                          JObj [(''type'', JStr ''array''),
                                (''items'', JObj [(''type'', JStr ''array''),
                                                  (''items'', JObj [(''type'', JStr ''number'')]),
                                                  (''minItems'', JNum (Fin 2)),
                                                  (''maxItems'', JNum (Fin 2))]),
                                (''minItems'', JNum (Fin 2)),
                                (''description'', JStr ''Array of [longitude, latitude] coordinate pairs'')]),
                         (''profile'',
                          JObj [(''type'', JStr ''string''),
                                (''enum'', JArr [JStr ''driving'', JStr ''walking'', JStr ''cycling'', JStr ''driving-traffic'']),
                                (''default'', JStr ''driving''),
                                (''description'', JStr ''Routing profile'')]),
                         (''geometries'',
                          JObj [(''type'', JStr ''string''),
                                (''enum'', JArr [JStr ''geojson'', JStr ''polyline'', JStr ''polyline6'']),
                                (''default'', JStr ''geojson''),
                                (''description'', JStr ''Response geometry format'')]),
                         (''steps'',
                          JObj [(''type'', JStr ''boolean''),
                                (''default'', JBool True),
                                (''description'', JStr ''Include turn-by-turn instructions'')]),
                         (''overview'',
                          JObj [(''type'', JStr ''string''),
                                (''enum'', JArr [JStr ''full'', JStr ''simplified'', JStr ''false'']),
                                (''default'', JStr ''full''),
                                (''description'', JStr ''Type of route geometry overview'')])]),
                  (''required'', JArr [JStr ''coordinates''])])]"

text \<open>
  The failure response in the words of the specification: status 500 and
  \<^verbatim>\<open>{success: false, error: message}\<close>, the message being the \<^verbatim>\<open>message\<close> member of the
  body of the provider's error response when there is one, and the message of the
  exception otherwise.
\<close>

definition provider_message :: "js_error \<Rightarrow> jsval" where
  "provider_message e =
     (case e of
        AxiosError m (Some (st, JObj kvs)) \<Rightarrow> lookup kvs ''message''
      | _ \<Rightarrow> JUndefined)"

definition spec_failure :: "js_error \<Rightarrow> response" where
  "spec_failure e =
     \<lparr>status = 500,
      body = JObj [(''success'', JBool False),
                   (''error'', if truthy (provider_message e) then provider_message e
                               else JStr (error_message e))]\<rparr>"

text \<open>A computation that throws nothing but the engine's own exceptions.\<close>

definition raises_only_local :: "js_error + 'a \<Rightarrow> bool" where
  "raises_only_local m = (case m of Inl (AxiosError msg r) \<Rightarrow> False | _ \<Rightarrow> True)"

text \<open>
  The POST routes of the gateway: the name of the route, the \<^verbatim>\<open>try\<close> block of its
  handler and the handler.
\<close>

definition gateway_post ::
  "(string \<times> (gateway_env \<Rightarrow> jsval \<Rightarrow> attempt) \<times> (gateway_env \<Rightarrow> jsval \<Rightarrow> outcome)) list" where
  "gateway_post =
     [(''geocode_forward'', geocode_forward_try, geocode_forward),
      (''geocode_reverse'', geocode_reverse_try, geocode_reverse),
      (''get_directions'', directions_try, get_directions),
      (''get_static_image'', static_image_try, get_static_image),
      (''get_route_map'', route_map_try, get_route_map),
      (''get_matrix'', matrix_try, get_matrix)]"

text \<open>
  The routes that make one call to Mapbox, each with the function that builds its URL
  from the request fields and the function that reshapes the answer; and the routes that
  make none, each with the function that builds its answer.
\<close>

definition one_call_routes ::
  "((gateway_env \<Rightarrow> jsval \<Rightarrow> outcome) \<times> (gateway_env \<Rightarrow> jsval \<Rightarrow> js_error + string)
    \<times> (jsval \<Rightarrow> js_error + jsval)) list" where
  "one_call_routes =
     [(geocode_forward, geocode_forward_url, geocode_results),
      (geocode_reverse, geocode_reverse_url, geocode_results),
      (get_matrix, get_matrix_url, matrix_result)]"

definition no_call_routes ::
  "((gateway_env \<Rightarrow> jsval \<Rightarrow> outcome) \<times> (gateway_env \<Rightarrow> jsval \<Rightarrow> js_error + jsval)) list" where
  "no_call_routes =
     [(get_static_image, static_image_result),
      (get_route_map, route_map_result)]"

text \<open>
  A Mapbox API that rejects the token, and one that answers every call with a body that
  is \<^verbatim>\<open>null\<close>, for the concrete runs.
\<close>

definition null_env :: gateway_env where
  "null_env =
     \<lparr>MAPBOX_ACCESS_TOKEN = ''tk'',
      axios_get = (\<lambda>url. Inr JNull),
      second_rejects_first = False,
      string_to_number = (\<lambda>s. NaN),
      argument_limit = 125000\<rparr>"

definition unauthorized_env :: gateway_env where
  "unauthorized_env =
     \<lparr>MAPBOX_ACCESS_TOKEN = ''bad'',
      axios_get = (\<lambda>url. Inl (AxiosError ''Request failed with status code 401''
                                  (Some (401, JObj [(''message'', JStr ''Not Authorized - Invalid Token'')])))),
      second_rejects_first = False,
      string_to_number = (\<lambda>s. NaN),
      argument_limit = 125000\<rparr>"

text \<open>The calls of the Messages API among the calls of a trace.\<close>

fun is_model_call :: "bridge_call \<Rightarrow> bool" where
  "is_model_call (ModelCall payload) = True"
| "is_model_call c = False"

text \<open>
  A Messages API, a gateway and a catalogue for the concrete runs: the model asks for two
  tools when it is sent a single message and answers in text otherwise; the first tool
  call of a request succeeds with an empty object and every later one times out; the
  catalogue cannot be fetched; \<^verbatim>\<open>JSON.stringify\<close> is given on the one value these runs
  serialise.
\<close>

definition tool_use_answer :: jsval where
  "tool_use_answer =
     JObj [(''content'',
            JArr [JObj [(''type'', JStr ''text''), (''text'', JStr ''Let me look that up.'')],
                  JObj [(''type'', JStr ''tool_use''), (''id'', JStr ''toolu_1''),
                        (''name'', JStr ''geocode_forward''), (''input'', JObj [(''query'', JStr ''Paris'')])],
                  JObj [(''type'', JStr ''tool_use''), (''id'', JStr ''toolu_2''),
                        (''name'', JStr ''get_matrix''), (''input'', JObj [])]]),
           (''usage'', JObj [(''input_tokens'', JNum (Fin 10)), (''output_tokens'', JNum (Fin 20))])]"

definition final_answer :: jsval where
  "final_answer =
     JObj [(''content'', JArr [JObj [(''type'', JStr ''text''), (''text'', JStr ''Paris is in France.'')]]),
           (''usage'', JObj [(''input_tokens'', JNum (Fin 30)), (''output_tokens'', JNum (Fin 5))])]"

definition sample_bridge_env :: bridge_env where
  "sample_bridge_env =
     \<lparr>MCP_SERVER_URL = ''http://localhost:3000'',
      tools_get = Inl (AxiosError ''connect ECONNREFUSED'' None),
      messages_post = (\<lambda>payload. case field payload ''messages'' of
                                   JArr [m] \<Rightarrow> Inr tool_use_answer
                                 | _ \<Rightarrow> Inr final_answer),
      mcp_post = (\<lambda>n url post_body. if n = 0 then Inr (JObj [])
                                   else Inl (AxiosError ''timeout of 15000ms exceeded'' None)),
      JSON_stringify = (\<lambda>v. if v = JObj [] then JStr ''{}'' else JUndefined)\<rparr>"

text \<open>
  The parts of a tool-use block that a tool call is made of: the route of the gateway
  named by the block, and the body \<^verbatim>\<open>{arguments: block.input}\<close>.
\<close>

definition is_tool_use :: "jsval \<Rightarrow> bool" where
  "is_tool_use block = (field block ''type'' = JStr ''tool_use'')"

definition tool_url :: "bridge_env \<Rightarrow> jsval \<Rightarrow> string" where
  "tool_url env block = MCP_SERVER_URL env @ ''/'' @ the_str (field block ''name'')"

definition tool_body :: "jsval \<Rightarrow> jsval" where
  "tool_body block = JObj [(''arguments'', field block ''input'')]"

text \<open>
  The content of a model response as the Messages API documents it: blocks that are
  objects, a tool-use block naming its tool by a string.
\<close>

definition wf_content :: "jsval list \<Rightarrow> bool" where
  "wf_content content =
     (\<forall>b\<in>set content. \<not> nullish b \<and> (is_tool_use b \<longrightarrow> (case field b ''name'' of JStr name \<Rightarrow> True | _ \<Rightarrow> False)))"

text \<open>
  The tool results of a round in the words of the specification: one result per tool-use
  block, in order, built from the answer to that block's call; the \<open>i\<close>-th tool-use
  block of the round makes the call number \<open>n + i\<close> of the request.
\<close>

definition spec_tool_results :: "bridge_env \<Rightarrow> nat \<Rightarrow> jsval list \<Rightarrow> jsval list" where
  "spec_tool_results env n content =
     map (\<lambda>(i, b). tool_result_block env b (the_str (field b ''name''))
                      (mcp_post env i (tool_url env b) (tool_body b)))
         (enumerate n (filter is_tool_use content))"

definition spec_tool_posts :: "bridge_env \<Rightarrow> jsval list \<Rightarrow> bridge_call list" where
  "spec_tool_posts env content =
     map (\<lambda>b. ToolCall (tool_url env b) (tool_body b)) (filter is_tool_use content)"

text \<open>
  The state of the loop after the first model call of a request whose only member is the
  message \<^verbatim>\<open>Where is Paris?\<close>.
\<close>

definition paris_state :: loop_state where
  "paris_state =
     \<lparr>currentMessages = [user_message (JStr ''Where is Paris?'')],
      finalResponse = tool_use_answer,
      totalUsage = field tool_use_answer ''usage'',
      trace = [ToolsFetch ''http://localhost:3000/tools'',
               ModelCall (first_payload [] [user_message (JStr ''Where is Paris?'')])],
      tool_calls = 0\<rparr>"

text \<open>The messages of that request after its round of tool calls.\<close>

definition paris_messages :: "jsval list" where
  "paris_messages =
     [user_message (JStr ''Where is Paris?''),
      assistant_message (field tool_use_answer ''content''),
      user_message (JArr [JObj [(''type'', JStr ''tool_result''), (''tool_use_id'', JStr ''toolu_1''),
                                (''content'', JStr ''{}'')],
                          JObj [(''type'', JStr ''tool_result''), (''tool_use_id'', JStr ''toolu_2''),
                                (''content'', JStr ''Error calling tool get_matrix: timeout of 15000ms exceeded''),
                                (''is_error'', JBool True)]])]"

section \<open>Properties\<close>

subsection \<open>Evaluation\<close>

lemma bindE_simps [simp]: "bindE (Inr x) f = f x" "bindE (Inl e) f = Inl e"
  by (simp_all add: bindE_def)

lemma floor_rat_numeral: "\<lfloor>numeral a / numeral b :: rat\<rfloor> = numeral a div numeral b"
  by (metis floor_divide_of_int_eq of_int_numeral)

lemma floor_rat_one: "\<lfloor>1 / numeral b :: rat\<rfloor> = 1 div numeral b"
  by (metis floor_divide_of_int_eq of_int_numeral of_int_1)

lemma replicate_numeral_unfold: "replicate (numeral v) x = x # replicate (numeral v - 1) x"
  by (simp add: numeral_eq_Suc)

lemmas num_eval = pos_str_def place_point_def nat_digits.simps digit_char_def Let_def
  decimal_places.simps floor_rat_numeral replicate_numeral_unfold

lemmas url_eval = URLSearchParams_def form_encode_def alphanumeric_def join_def percent_def hex_digit_def

lemmas b64_eval = binary64_def denoted_def nearest_double_def round_to_unit_def in_range_def
  round_half_even_def power_of_def log2_floor.simps log10_floor.simps
  shortest_decimal_def shortest_from.simps candidate_def neighbours_def closest_def
  floor_rat_numeral floor_rat_one

lemma elem_strs_nums: "elem_strs (map JNum ns) = Inr (map num_str ns)"
  by (induction ns) simp_all

lemma args_of_response:
  "args_of req = Inr a \<Longrightarrow> build a = Inr b \<Longrightarrow> response (catch_local (no_call_try req build)) = ok b"
  by (simp add: no_call_try_def catch_local_def)

lemma token_params: "URLSearchParams [(''access_token'', ''tk'')] = ''access_token=tk''"
  by (simp add: url_eval)

subsection \<open>Markers of a static image\<close>

lemma optional_string_or:
  "optional_string v \<Longrightarrow> to_str (js_or v (JStr d)) = Inr (if absent v then d else the_str v)"
  by (cases v) (simp_all add: optional_string_def js_or_def absent_def the_str_def)

lemma optional_string_label:
  "optional_string v \<Longrightarrow>
   (if truthy v then bindE (to_str v) (\<lambda>l. Inr (''-'' @ l)) else Inr [])
     = Inr (if absent v then [] else ''-'' @ the_str v)"
  by (cases v) (simp_all add: optional_string_def absent_def the_str_def)

lemma is_number_str: "is_number v \<Longrightarrow> to_str v = Inr (the_str v)"
  by (cases v) (simp_all add: is_number_def the_str_def)

lemma marker_token_amended: "wf_marker m \<Longrightarrow> marker_token m = Inr (amended_marker_token m)"
proof -
  assume wf: "wf_marker m"
  then obtain kvs where m: "m = JObj kvs"
    by (cases m) (simp_all add: wf_marker_def)
  have nn: "\<not> nullish m" by (simp add: m)
  show ?thesis
    using wf nn unfolding wf_marker_def marker_token_def amended_marker_token_def
    by (simp add: optional_string_or optional_string_label is_number_str)
qed

lemma marker_tokens_amended:
  "\<forall>m\<in>set ms. wf_marker m \<Longrightarrow> mapE marker_token ms = Inr (map amended_marker_token ms)"
  by (induction ms) (simp_all add: marker_token_amended)

lemma marker_segment_array:
  "ms \<noteq> [] \<Longrightarrow> mapE marker_token ms = Inr ts \<Longrightarrow> marker_segment env (JArr ms) = Inr (''/'' @ join '','' ts)"
  by (simp add: marker_segment_def js_length_def js_gt0_def)

lemma times_square_token: "marker_token times_square = Inr ''pin-small+red(-73.985,40.758)''"
  by (simp add: times_square_def marker_token_def js_or_def num_eval)

lemma wf_times_square: "wf_marker times_square"
  by (simp add: times_square_def wf_marker_def is_number_def optional_string_def)

lemma wf_colourless: "wf_marker colourless"
  by (simp add: colourless_def wf_marker_def is_number_def optional_string_def)

lemma colourless_token: "marker_token colourless = Inr ''pin-small+red(1,2)''"
  by (simp add: colourless_def marker_token_def js_or_def num_eval)

lemma static_image_marker_url:
  assumes "args_of req = Inr a"
    and "field a ''markers'' = JArr ms" and "ms \<noteq> []" and "mapE marker_token ms = Inr ts"
    and "to_str (default_to (JStr ''mapbox/streets-v12'') (field a ''style'')) = Inr st"
    and "viewport_segment (field a ''bbox'') (field a ''center'') (field a ''zoom'') = Inr vp"
    and "to_str (default_to (JNum (Fin 600)) (field a ''width'')) = Inr w"
    and "to_str (default_to (JNum (Fin 400)) (field a ''height'')) = Inr h"
  shows "field (body (response (get_static_image env req))) ''image_url''
           = JStr (''https://api.mapbox.com/styles/v1/'' @ st @ ''/static''
                   @ ''/'' @ join '','' ts
                   @ vp @ ''/'' @ w @ ''x'' @ h @ ''?''
                   @ URLSearchParams [(''access_token'', MAPBOX_ACCESS_TOKEN env)])"
proof -
  have seg: "marker_segment env (default_to (JArr []) (field a ''markers'')) = Inr (''/'' @ join '','' ts)"
    using assms(2-4) by (simp add: default_to_def marker_segment_array)
  have "static_image_result env a
          = Inr (JObj [(''success'', JBool True),
                       (''image_url'', JStr (''https://api.mapbox.com/styles/v1/'' @ st @ ''/static''
                           @ (''/'' @ join '','' ts)
                           @ vp @ ''/'' @ w @ ''x'' @ h @ ''?''
                           @ URLSearchParams [(''access_token'', MAPBOX_ACCESS_TOKEN env)])),
                       (''width'', default_to (JNum (Fin 600)) (field a ''width'')),
                       (''height'', default_to (JNum (Fin 400)) (field a ''height''))])"
    unfolding static_image_result_def Let_def
    by (simp only: seg assms(5-8) bindE_simps)
  then have "response (get_static_image env req) = ok (JObj [(''success'', JBool True),
                       (''image_url'', JStr (''https://api.mapbox.com/styles/v1/'' @ st @ ''/static''
                           @ (''/'' @ join '','' ts)
                           @ vp @ ''/'' @ w @ ''x'' @ h @ ''?''
                           @ URLSearchParams [(''access_token'', MAPBOX_ACCESS_TOKEN env)])),
                       (''width'', default_to (JNum (Fin 600)) (field a ''width'')),
                       (''height'', default_to (JNum (Fin 400)) (field a ''height''))])"
    using assms(1) by (simp add: get_static_image_def static_image_try_def args_of_response)
  then show ?thesis
    by (simp add: ok_def)
qed

text \<open>
  C5, as amended. In a \<^verbatim>\<open>get_static_image\<close> request whose \<^verbatim>\<open>markers\<close> is a non-empty
  list of markers, the image URL carries, right after the style, one path segment made
  of the markers' tokens joined by commas, each token
  \<^verbatim>\<open>pin-{size}[-{label}]+{color}({longitude},{latitude})\<close> with the size \<^verbatim>\<open>small\<close> and
  the colour \<^verbatim>\<open>red\<close> when the member is omitted or the empty string, and the label part
  only when the marker has a label that is not empty; and the marker
  \<^verbatim>\<open>{longitude:-73.985, latitude:40.758, color:"red", size:"small"}\<close> gives exactly
  \<^verbatim>\<open>pin-small+red(-73.985,40.758)\<close>.
\<close>

theorem static_image_marker_encoding:
  assumes "args_of req = Inr a"
    and "field a ''markers'' = JArr ms" and "ms \<noteq> []" and "\<forall>m\<in>set ms. wf_marker m"
    and "to_str (default_to (JStr ''mapbox/streets-v12'') (field a ''style'')) = Inr st"
    and "viewport_segment (field a ''bbox'') (field a ''center'') (field a ''zoom'') = Inr vp"
    and "to_str (default_to (JNum (Fin 600)) (field a ''width'')) = Inr w"
    and "to_str (default_to (JNum (Fin 400)) (field a ''height'')) = Inr h"
  shows "field (body (response (get_static_image env req))) ''image_url''
           = JStr (''https://api.mapbox.com/styles/v1/'' @ st @ ''/static''
                   @ ''/'' @ join '','' (map amended_marker_token ms)
                   @ vp @ ''/'' @ w @ ''x'' @ h @ ''?''
                   @ URLSearchParams [(''access_token'', MAPBOX_ACCESS_TOKEN env)])
         \<and> marker_token times_square = Inr ''pin-small+red(-73.985,40.758)''"
  using static_image_marker_url [OF assms(1-3) marker_tokens_amended [OF assms(4)] assms(5-8), of env]
        times_square_token
  by simp

theorem static_image_marker_encoding_witness:
  "field (body (response (get_static_image offline_env
      (JObj [(''markers'',
              JArr [times_square,
                    JObj [(''longitude'', JNum (Fin 2)), (''latitude'', JNum (Fin 48)),
                          (''label'', JStr ''a''), (''size'', JStr []), (''color'', JStr ''00f'')]])])))) ''image_url''
     = JStr ''https://api.mapbox.com/styles/v1/mapbox/streets-v12/static/pin-small+red(-73.985,40.758),pin-small-a+00f(2,48)/600x400?access_token=tk''"
proof -
  let ?m = "JObj [(''longitude'', JNum (Fin 2)), (''latitude'', JNum (Fin 48)),
                  (''label'', JStr ''a''), (''size'', JStr []), (''color'', JStr ''00f'')]"
  let ?R = "JObj [(''markers'', JArr [times_square, ?m])]"
  have tok: "map amended_marker_token [times_square, ?m]
               = [''pin-small+red(-73.985,40.758)'', ''pin-small-a+00f(2,48)'']"
    by (simp add: times_square_def amended_marker_token_def absent_def the_str_def num_eval)
  have params: "URLSearchParams [(''access_token'', MAPBOX_ACCESS_TOKEN offline_env)] = ''access_token=tk''"
    by (simp add: offline_env_def token_params)
  have h1: "args_of ?R = Inr ?R"
    by (simp add: args_of_def jget_def js_or_def)
  have h2: "field ?R ''markers'' = JArr [times_square, ?m]"
    by simp
  have h3: "[times_square, ?m] \<noteq> []"
    by simp
  have h4: "\<forall>m\<in>set [times_square, ?m]. wf_marker m"
    by (simp add: wf_times_square) (simp add: wf_marker_def is_number_def optional_string_def)
  have h5: "to_str (default_to (JStr ''mapbox/streets-v12'') (field ?R ''style'')) = Inr ''mapbox/streets-v12''"
    by (simp add: default_to_def)
  have h6: "viewport_segment (field ?R ''bbox'') (field ?R ''center'') (field ?R ''zoom'') = Inr []"
    by (simp add: viewport_segment_def)
  have h7: "to_str (default_to (JNum (Fin 600)) (field ?R ''width'')) = Inr ''600''"
    by (simp add: default_to_def num_eval)
  have h8: "to_str (default_to (JNum (Fin 400)) (field ?R ''height'')) = Inr ''400''"
    by (simp add: default_to_def num_eval)
  note t = static_image_marker_encoding [OF h1 h2 h3 h4 h5 h6 h7 h8, of offline_env, THEN conjunct1]
  show ?thesis
    using t unfolding tok params by (simp add: join_def)
qed

text \<open>
  The claim as first stated reads the defaults as applying to an omitted member only. A
  marker with the empty colour, which the schema allows, is drawn with the default
  colour: \<^verbatim>\<open>{longitude: 1, latitude: 2, color: ""}\<close> gives \<^verbatim>\<open>pin-small+red(1,2)\<close>, where
  the syntax with the colour as supplied gives \<^verbatim>\<open>pin-small+(1,2)\<close>.
\<close>

theorem empty_colour_counterexample:
  "wf_marker colourless
   \<and> spec_marker_token colourless = ''pin-small+(1,2)''
   \<and> marker_token colourless = Inr ''pin-small+red(1,2)''
   \<and> field (body (response (get_static_image offline_env (JObj [(''markers'', JArr [colourless])])))) ''image_url''
       = JStr ''https://api.mapbox.com/styles/v1/mapbox/streets-v12/static/pin-small+red(1,2)/600x400?access_token=tk''
   \<and> field (body (response (get_static_image offline_env (JObj [(''markers'', JArr [colourless])])))) ''image_url''
       \<noteq> JStr (''https://api.mapbox.com/styles/v1/mapbox/streets-v12/static/''
                @ join '','' (map spec_marker_token [colourless]) @ ''/600x400?access_token=tk'')"
proof -
  let ?R = "JObj [(''markers'', JArr [colourless])]"
  have s: "spec_marker_token colourless = ''pin-small+(1,2)''"
    by (simp add: colourless_def spec_marker_token_def the_str_def num_eval)
  have params: "URLSearchParams [(''access_token'', MAPBOX_ACCESS_TOKEN offline_env)] = ''access_token=tk''"
    by (simp add: offline_env_def token_params)
  have u: "field (body (response (get_static_image offline_env ?R))) ''image_url''
       = JStr ''https://api.mapbox.com/styles/v1/mapbox/streets-v12/static/pin-small+red(1,2)/600x400?access_token=tk''"
    using static_image_marker_url [where req = ?R and a = ?R and ms = "[colourless]" and env = offline_env
             and ts = "[''pin-small+red(1,2)'']" and st = "''mapbox/streets-v12''" and vp = "[]"
             and w = "''600''" and h = "''400''"]
    by (simp add: args_of_def jget_def js_or_def default_to_def viewport_segment_def colourless_token params num_eval join_def)
  show ?thesis
    unfolding u by (simp add: s wf_colourless colourless_token join_def)
qed

subsection \<open>Viewport of a static image\<close>

lemma static_image_url:
  assumes "args_of req = Inr a"
    and "to_str (default_to (JStr ''mapbox/streets-v12'') (field a ''style'')) = Inr st"
    and "marker_segment env (default_to (JArr []) (field a ''markers'')) = Inr mk"
    and "viewport_segment (field a ''bbox'') (field a ''center'') (field a ''zoom'') = Inr vp"
    and "to_str (default_to (JNum (Fin 600)) (field a ''width'')) = Inr w"
    and "to_str (default_to (JNum (Fin 400)) (field a ''height'')) = Inr h"
  shows "field (body (response (get_static_image env req))) ''image_url''
           = JStr (''https://api.mapbox.com/styles/v1/'' @ st @ ''/static'' @ mk @ vp
                   @ ''/'' @ w @ ''x'' @ h @ ''?''
                   @ URLSearchParams [(''access_token'', MAPBOX_ACCESS_TOKEN env)])"
proof -
  have "static_image_result env a
          = Inr (JObj [(''success'', JBool True),
                       (''image_url'', JStr (''https://api.mapbox.com/styles/v1/'' @ st @ ''/static'' @ mk @ vp
                           @ ''/'' @ w @ ''x'' @ h @ ''?''
                           @ URLSearchParams [(''access_token'', MAPBOX_ACCESS_TOKEN env)])),
                       (''width'', default_to (JNum (Fin 600)) (field a ''width'')),
                       (''height'', default_to (JNum (Fin 400)) (field a ''height''))])"
    unfolding static_image_result_def Let_def
    by (simp only: assms(2-6) bindE_simps)
  then show ?thesis
    using assms(1) by (simp add: get_static_image_def static_image_try_def args_of_response ok_def)
qed

lemma viewport_bbox:
  "viewport_segment (JArr (map JNum bs)) center zoom = Inr (''/['' @ join '','' (map num_str bs) @ '']'')"
  by (simp add: viewport_segment_def array_join_def elem_strs_nums)

lemma viewport_center_zoom:
  "viewport_segment JUndefined (JArr (map JNum cs)) (JNum z)
     = Inr (''/'' @ join '','' (map num_str cs) @ '','' @ num_str z)"
  by (simp add: viewport_segment_def array_join_def elem_strs_nums)

lemma viewport_none: "viewport_segment JUndefined JUndefined JUndefined = Inr []"
  by (simp add: viewport_segment_def)

text \<open>
  C4. In the URL of \<^verbatim>\<open>get_static_image\<close>, a \<^verbatim>\<open>bbox\<close> gives the viewport segment
  \<^verbatim>\<open>[\<close> + the box joined by commas + \<^verbatim>\<open>]\<close> whatever \<^verbatim>\<open>center\<close> and \<^verbatim>\<open>zoom\<close> are;
  without \<^verbatim>\<open>bbox\<close>, a \<^verbatim>\<open>center\<close> and a \<^verbatim>\<open>zoom\<close> give the centre joined by commas, a
  comma and the zoom; with none of the three the URL goes from the markers straight to
  \<^verbatim>\<open>{width}x{height}\<close>.
\<close>

theorem static_image_viewport:
  assumes "args_of req = Inr a"
    and "to_str (default_to (JStr ''mapbox/streets-v12'') (field a ''style'')) = Inr st"
    and "marker_segment env (default_to (JArr []) (field a ''markers'')) = Inr mk"
    and "to_str (default_to (JNum (Fin 600)) (field a ''width'')) = Inr w"
    and "to_str (default_to (JNum (Fin 400)) (field a ''height'')) = Inr h"
  shows "(field a ''bbox'' = JArr (map JNum bs) \<longrightarrow>
            field (body (response (get_static_image env req))) ''image_url''
              = JStr (''https://api.mapbox.com/styles/v1/'' @ st @ ''/static'' @ mk
                      @ ''/['' @ join '','' (map num_str bs) @ '']''
                      @ ''/'' @ w @ ''x'' @ h @ ''?''
                      @ URLSearchParams [(''access_token'', MAPBOX_ACCESS_TOKEN env)]))
       \<and> (field a ''bbox'' = JUndefined \<and> field a ''center'' = JArr (map JNum cs) \<and> field a ''zoom'' = JNum z \<longrightarrow>
            field (body (response (get_static_image env req))) ''image_url''
              = JStr (''https://api.mapbox.com/styles/v1/'' @ st @ ''/static'' @ mk
                      @ ''/'' @ join '','' (map num_str cs) @ '','' @ num_str z
                      @ ''/'' @ w @ ''x'' @ h @ ''?''
                      @ URLSearchParams [(''access_token'', MAPBOX_ACCESS_TOKEN env)]))
       \<and> (field a ''bbox'' = JUndefined \<and> field a ''center'' = JUndefined \<and> field a ''zoom'' = JUndefined \<longrightarrow>
            field (body (response (get_static_image env req))) ''image_url''
              = JStr (''https://api.mapbox.com/styles/v1/'' @ st @ ''/static'' @ mk
                      @ ''/'' @ w @ ''x'' @ h @ ''?''
                      @ URLSearchParams [(''access_token'', MAPBOX_ACCESS_TOKEN env)]))"
proof (intro conjI impI)
  assume "field a ''bbox'' = JArr (map JNum bs)"
  then have "viewport_segment (field a ''bbox'') (field a ''center'') (field a ''zoom'')
               = Inr (''/['' @ join '','' (map num_str bs) @ '']'')"
    by (simp add: viewport_bbox)
  from static_image_url [OF assms(1-3) this assms(4,5)]
  show "field (body (response (get_static_image env req))) ''image_url''
              = JStr (''https://api.mapbox.com/styles/v1/'' @ st @ ''/static'' @ mk
                      @ ''/['' @ join '','' (map num_str bs) @ '']''
                      @ ''/'' @ w @ ''x'' @ h @ ''?''
                      @ URLSearchParams [(''access_token'', MAPBOX_ACCESS_TOKEN env)])"
    by simp
next
  assume "field a ''bbox'' = JUndefined \<and> field a ''center'' = JArr (map JNum cs) \<and> field a ''zoom'' = JNum z"
  then have "viewport_segment (field a ''bbox'') (field a ''center'') (field a ''zoom'')
               = Inr (''/'' @ join '','' (map num_str cs) @ '','' @ num_str z)"
    by (simp add: viewport_center_zoom)
  from static_image_url [OF assms(1-3) this assms(4,5)]
  show "field (body (response (get_static_image env req))) ''image_url''
              = JStr (''https://api.mapbox.com/styles/v1/'' @ st @ ''/static'' @ mk
                      @ ''/'' @ join '','' (map num_str cs) @ '','' @ num_str z
                      @ ''/'' @ w @ ''x'' @ h @ ''?''
                      @ URLSearchParams [(''access_token'', MAPBOX_ACCESS_TOKEN env)])"
    by simp
next
  assume "field a ''bbox'' = JUndefined \<and> field a ''center'' = JUndefined \<and> field a ''zoom'' = JUndefined"
  then have "viewport_segment (field a ''bbox'') (field a ''center'') (field a ''zoom'') = Inr []"
    by (simp add: viewport_none)
  from static_image_url [OF assms(1-3) this assms(4,5)]
  show "field (body (response (get_static_image env req))) ''image_url''
              = JStr (''https://api.mapbox.com/styles/v1/'' @ st @ ''/static'' @ mk
                      @ ''/'' @ w @ ''x'' @ h @ ''?''
                      @ URLSearchParams [(''access_token'', MAPBOX_ACCESS_TOKEN env)])"
    by simp
qed

theorem static_image_viewport_witness:
  "field (body (response (get_static_image offline_env
       (JObj [(''bbox'', JArr (map JNum [Fin (- 74), Fin 40, Fin (- 73), Fin 41])),
              (''center'', JArr (map JNum [Fin (- 147 / 2), Fin (81 / 2)])),
              (''zoom'', JNum (Fin 10))])))) ''image_url''
     = JStr ''https://api.mapbox.com/styles/v1/mapbox/streets-v12/static/[-74,40,-73,41]/600x400?access_token=tk''
   \<and> field (body (response (get_static_image offline_env
       (JObj [(''center'', JArr (map JNum [Fin (- 73985 / 1000), Fin (40758 / 1000)])),
              (''zoom'', JNum (Fin 12))])))) ''image_url''
     = JStr ''https://api.mapbox.com/styles/v1/mapbox/streets-v12/static/-73.985,40.758,12/600x400?access_token=tk''
   \<and> field (body (response (get_static_image offline_env (JObj [])))) ''image_url''
     = JStr ''https://api.mapbox.com/styles/v1/mapbox/streets-v12/static/600x400?access_token=tk''"
proof -
  have params: "URLSearchParams [(''access_token'', MAPBOX_ACCESS_TOKEN offline_env)] = ''access_token=tk''"
    by (simp add: offline_env_def url_eval)
  have mk: "marker_segment offline_env (JArr []) = Inr []"
    by (simp add: marker_segment_def js_length_def js_gt0_def)
  have one: "field (body (response (get_static_image offline_env
       (JObj [(''bbox'', JArr (map JNum [Fin (- 74), Fin 40, Fin (- 73), Fin 41])),
              (''center'', JArr (map JNum [Fin (- 147 / 2), Fin (81 / 2)])),
              (''zoom'', JNum (Fin 10))])))) ''image_url''
     = JStr ''https://api.mapbox.com/styles/v1/mapbox/streets-v12/static/[-74,40,-73,41]/600x400?access_token=tk''"
    using static_image_viewport
            [where req = "JObj [(''bbox'', JArr (map JNum [Fin (- 74), Fin 40, Fin (- 73), Fin 41])),
                                (''center'', JArr (map JNum [Fin (- 147 / 2), Fin (81 / 2)])),
                                (''zoom'', JNum (Fin 10))]"
               and a = "JObj [(''bbox'', JArr (map JNum [Fin (- 74), Fin 40, Fin (- 73), Fin 41])),
                              (''center'', JArr (map JNum [Fin (- 147 / 2), Fin (81 / 2)])),
                              (''zoom'', JNum (Fin 10))]"
               and st = "''mapbox/streets-v12''" and env = offline_env and mk = "[]"
               and w = "''600''" and h = "''400''"
               and bs = "[Fin (- 74), Fin 40, Fin (- 73), Fin 41]"]
    by (simp add: args_of_def jget_def js_or_def default_to_def mk params num_eval join_def)
  have two: "field (body (response (get_static_image offline_env
       (JObj [(''center'', JArr (map JNum [Fin (- 73985 / 1000), Fin (40758 / 1000)])),
              (''zoom'', JNum (Fin 12))])))) ''image_url''
     = JStr ''https://api.mapbox.com/styles/v1/mapbox/streets-v12/static/-73.985,40.758,12/600x400?access_token=tk''"
    using static_image_viewport
            [where req = "JObj [(''center'', JArr (map JNum [Fin (- 73985 / 1000), Fin (40758 / 1000)])),
                                (''zoom'', JNum (Fin 12))]"
               and a = "JObj [(''center'', JArr (map JNum [Fin (- 73985 / 1000), Fin (40758 / 1000)])),
                              (''zoom'', JNum (Fin 12))]"
               and st = "''mapbox/streets-v12''" and env = offline_env and mk = "[]"
               and w = "''600''" and h = "''400''"
               and cs = "[Fin (- 73985 / 1000), Fin (40758 / 1000)]" and z = "Fin 12"]
    by (simp add: args_of_def jget_def js_or_def default_to_def mk params num_eval join_def)
  have three: "field (body (response (get_static_image offline_env (JObj [])))) ''image_url''
     = JStr ''https://api.mapbox.com/styles/v1/mapbox/streets-v12/static/600x400?access_token=tk''"
    using static_image_viewport
            [where req = "JObj []" and a = "JObj []"
               and st = "''mapbox/streets-v12''" and env = offline_env and mk = "[]"
               and w = "''600''" and h = "''400''"]
    by (simp add: args_of_def jget_def js_or_def default_to_def mk params num_eval join_def)
  from one two three show ?thesis by blast
qed

subsection \<open>Bounding box of a route map\<close>

lemma num_min_Fin: "num_min (Fin a) (Fin b) = Fin (min a b)"
  by (simp add: num_min_def min_def)

lemma num_max_Fin: "num_max (Fin a) (Fin b) = Fin (max a b)"
  by (simp add: num_max_def max_def)

lemma foldl_num_min_Fin: "foldl num_min (Fin m) (map Fin xs) = Fin (fold min xs m)"
  by (induction xs arbitrary: m) (simp_all add: num_min_Fin min.commute)

lemma foldl_num_max_Fin: "foldl num_max (Fin m) (map Fin xs) = Fin (fold max xs m)"
  by (induction xs arbitrary: m) (simp_all add: num_max_Fin max.commute)

lemma to_numbers_Fin: "mapE (to_number s2n) (map (\<lambda>x. JNum (Fin x)) xs) = Inr (map Fin xs)"
  by (induction xs) simp_all

lemma fold_min_Min: "fold min xs (x::rat) = Min (insert x (set xs))"
  using Min.set_eq_fold [of x xs] by simp

lemma fold_max_Max: "fold max xs (x::rat) = Max (insert x (set xs))"
  using Max.set_eq_fold [of x xs] by simp

lemma Math_min_Fin:
  "xs \<noteq> [] \<Longrightarrow> length xs \<le> limit \<Longrightarrow>
   Math_min limit s2n (map (\<lambda>x. JNum (Fin x)) xs) = Inr (Fin (Min (set xs)))"
  by (cases xs) (simp_all add: Math_min_def to_numbers_Fin num_min_def foldl_num_min_Fin fold_min_Min)

lemma Math_max_Fin:
  "xs \<noteq> [] \<Longrightarrow> length xs \<le> limit \<Longrightarrow>
   Math_max limit s2n (map (\<lambda>x. JNum (Fin x)) xs) = Inr (Fin (Max (set xs)))"
  by (cases xs) (simp_all add: Math_max_def to_numbers_Fin num_max_def foldl_num_max_Fin fold_max_Max)

lemma Math_min_overflow:
  "limit < length vs \<Longrightarrow> Math_min limit s2n vs = Inl (RangeError ''Maximum call stack size exceeded'')"
  by (simp add: Math_min_def)

lemma lons_of_pairs: "mapE (\<lambda>coord. js_index coord 0) (map coord_pair ps) = Inr (map (\<lambda>x. JNum (Fin x)) (map fst ps))"
  by (induction ps) (simp_all add: coord_pair_def js_index_def)

lemma lats_of_pairs: "mapE (\<lambda>coord. js_index coord 1) (map coord_pair ps) = Inr (map (\<lambda>x. JNum (Fin x)) (map snd ps))"
  by (induction ps) (simp_all add: coord_pair_def js_index_def)

lemma pin_pair: "pin prefix (coord_pair p) = Inr (pin_text prefix p)"
  by (simp add: pin_def coord_pair_def js_index_def pin_text_def)

lemma first_of_pairs: "ps \<noteq> [] \<Longrightarrow> js_index (JArr (map coord_pair ps)) 0 = Inr (coord_pair (hd ps))"
  by (cases ps) (simp_all add: js_index_def)

lemma last_of_pairs: "ps \<noteq> [] \<Longrightarrow> last_element s2n (JArr (map coord_pair ps)) = Inr (coord_pair (last ps))"
  by (simp add: last_element_def last_map)

lemma num_mul_commute: "num_mul x y = num_mul y x"
  by (cases x; cases y) (simp_all add: mult.commute)

lemma padded_box_spec:
  "ps \<noteq> [] \<Longrightarrow>
   padded_box (Fin (Min (set (map fst ps)))) (Fin (Max (set (map fst ps))))
              (Fin (Min (set (map snd ps)))) (Fin (Max (set (map snd ps))))
     = spec_bounding_box ps"
  by (simp add: padded_box_def spec_bounding_box_def Let_def num_mul_commute [of "Fin (1 / 10)"])

lemma route_map_prefix:
  assumes "field a ''coordinates'' = JArr (map coord_pair ps)" and "ps \<noteq> []"
    and "to_str (default_to (JStr ''mapbox/streets-v12'') (field a ''style'')) = Inr st"
    and "encodeURIComponent (field a ''route_polyline'') = Inr e"
  shows "route_map_result env a =
     bindE (Math_min (argument_limit env) (string_to_number env) (map (\<lambda>x. JNum (Fin x)) (map fst ps))) (\<lambda>minLon.
     bindE (Math_max (argument_limit env) (string_to_number env) (map (\<lambda>x. JNum (Fin x)) (map fst ps))) (\<lambda>maxLon.
     bindE (Math_min (argument_limit env) (string_to_number env) (map (\<lambda>x. JNum (Fin x)) (map snd ps))) (\<lambda>minLat.
     bindE (Math_max (argument_limit env) (string_to_number env) (map (\<lambda>x. JNum (Fin x)) (map snd ps))) (\<lambda>maxLat.
       bindE (to_str (default_to (JNum (Fin 800)) (field a ''width''))) (\<lambda>w.
       bindE (to_str (default_to (JNum (Fin 600)) (field a ''height''))) (\<lambda>h.
         Inr (JObj [(''success'', JBool True),
                (''image_url'',
                   JStr (''https://api.mapbox.com/styles/v1/'' @ st @ ''/static''
                         @ ''/'' @ (if truthy (field a ''route_polyline'') then ''path-5+0080ff-0.75('' @ e @ '')'' @ '','' else [])
                         @ join '','' [pin_text ''pin-s-a+00ff00'' (hd ps), pin_text ''pin-s-b+ff0000'' (last ps)]
                         @ ''/['' @ join '','' (map num_str (padded_box minLon maxLon minLat maxLat)) @ '']''
                         @ ''/'' @ w @ ''x'' @ h @ ''?''
                         @ URLSearchParams [(''access_token'', MAPBOX_ACCESS_TOKEN env)])),
                (''width'', default_to (JNum (Fin 800)) (field a ''width'')),
                (''height'', default_to (JNum (Fin 600)) (field a ''height'')),
                (''start_coordinates'', coord_pair (hd ps)),
                (''end_coordinates'', coord_pair (last ps)),
                (''bounding_box'', JArr (map JNum (padded_box minLon maxLon minLat maxLat)))])))))))"
  unfolding route_map_result_def Let_def
  by (simp add: assms first_of_pairs last_of_pairs pin_pair lons_of_pairs lats_of_pairs
        del: set_map One_nat_def map_map)

lemma route_map_body:
  assumes "field a ''coordinates'' = JArr (map coord_pair ps)" and "ps \<noteq> []"
    and "to_str (default_to (JStr ''mapbox/streets-v12'') (field a ''style'')) = Inr st"
    and "encodeURIComponent (field a ''route_polyline'') = Inr e"
    and "to_str (default_to (JNum (Fin 800)) (field a ''width'')) = Inr w"
    and "to_str (default_to (JNum (Fin 600)) (field a ''height'')) = Inr h"
    and "length ps \<le> argument_limit env"
  shows "route_map_result env a =
     Inr (JObj [(''success'', JBool True),
                (''image_url'',
                   JStr (''https://api.mapbox.com/styles/v1/'' @ st @ ''/static''
                         @ ''/'' @ (if truthy (field a ''route_polyline'') then ''path-5+0080ff-0.75('' @ e @ '')'' @ '','' else [])
                         @ join '','' [pin_text ''pin-s-a+00ff00'' (hd ps), pin_text ''pin-s-b+ff0000'' (last ps)]
                         @ ''/['' @ join '','' (map num_str (spec_bounding_box ps)) @ '']''
                         @ ''/'' @ w @ ''x'' @ h @ ''?''
                         @ URLSearchParams [(''access_token'', MAPBOX_ACCESS_TOKEN env)])),
                (''width'', default_to (JNum (Fin 800)) (field a ''width'')),
                (''height'', default_to (JNum (Fin 600)) (field a ''height'')),
                (''start_coordinates'', coord_pair (hd ps)),
                (''end_coordinates'', coord_pair (last ps)),
                (''bounding_box'', JArr (map JNum (spec_bounding_box ps)))])"
proof -
  have ne: "map fst ps \<noteq> []" "map snd ps \<noteq> []" using assms(2) by simp_all
  have le: "length (map fst ps) \<le> argument_limit env" "length (map snd ps) \<le> argument_limit env"
    using assms(7) by simp_all
  show ?thesis
    unfolding route_map_prefix [OF assms(1-4)]
      Math_min_Fin [OF ne(1) le(1)] Math_max_Fin [OF ne(1) le(1)]
      Math_min_Fin [OF ne(2) le(2)] Math_max_Fin [OF ne(2) le(2)]
      assms(5,6) bindE_simps padded_box_spec [OF assms(2)]
    by (rule refl)
qed

lemma route_map_overflow:
  assumes "field a ''coordinates'' = JArr (map coord_pair ps)" and "ps \<noteq> []"
    and "to_str (default_to (JStr ''mapbox/streets-v12'') (field a ''style'')) = Inr st"
    and "encodeURIComponent (field a ''route_polyline'') = Inr e"
    and "argument_limit env < length ps"
  shows "route_map_result env a = Inl (RangeError ''Maximum call stack size exceeded'')"
proof -
  have gt: "argument_limit env < length (map (\<lambda>x. JNum (Fin x)) (map fst ps))"
    using assms(5) by simp
  show ?thesis
    unfolding route_map_prefix [OF assms(1-4)] Math_min_overflow [OF gt] bindE_simps
    by (rule refl)
qed

lemma pad_example:
  "padded_box (Fin (- 74)) (Fin (- 73)) (Fin 40) (Fin 41)
     = [Fin (- 741 / 10), Fin (399 / 10), Fin (- 729 / 10), Fin (411 / 10)]"
  by (simp add: padded_box_def num_sub_def Let_def b64_eval)

lemma example_box:
  "spec_bounding_box [(- 74, 40), (- 73, 41)] = [Fin (- 741 / 10), Fin (399 / 10), Fin (- 729 / 10), Fin (411 / 10)]"
  using padded_box_spec [of "[(- 74, 40), (- 73, 41)]"] pad_example by simp

lemma example_strs: "map num_str [Fin (- 741 / 10), Fin (399 / 10), Fin (- 729 / 10), Fin (411 / 10)] = [''-74.1'', ''39.9'', ''-72.9'', ''41.1'']"
  by (simp add: num_eval)

lemma tenth_of_three: "num_mul (num_sub (Fin 3) (Fin 0)) (Fin (1 / 10)) = Fin (30000000000000004 / 100000000000000000)"
  by (simp add: num_sub_def b64_eval)

lemma below_zero: "num_sub (Fin 0) (Fin (30000000000000004 / 100000000000000000)) = Fin (- 30000000000000004 / 100000000000000000)"
  by (simp add: num_sub_def b64_eval)

lemma above_three: "num_add (Fin 3) (Fin (30000000000000004 / 100000000000000000)) = Fin (33 / 10)"
  by (simp add: b64_eval)

lemma pad_zero_three:
  "padded_box (Fin 0) (Fin 3) (Fin 0) (Fin 3)
     = [Fin (- 30000000000000004 / 100000000000000000), Fin (- 30000000000000004 / 100000000000000000),
        Fin (33 / 10), Fin (33 / 10)]"
  unfolding padded_box_def Let_def tenth_of_three below_zero above_three by (rule refl)

lemma zero_three_box:
  "spec_bounding_box [(0, 0), (3, 3)]
     = [Fin (- 30000000000000004 / 100000000000000000), Fin (- 30000000000000004 / 100000000000000000),
        Fin (33 / 10), Fin (33 / 10)]"
  using padded_box_spec [of "[(0, 0), (3, 3)]"] pad_zero_three by simp

lemma zero_three_strs:
  "map num_str [Fin (- 30000000000000004 / 100000000000000000), Fin (- 30000000000000004 / 100000000000000000),
                Fin (33 / 10), Fin (33 / 10)]
     = [''-0.30000000000000004'', ''-0.30000000000000004'', ''3.3'', ''3.3'']"
  by (simp add: num_eval)

lemma str_800: "pos_str 800 = ''800''"
  by (simp add: num_eval)

lemma str_600: "pos_str 600 = ''600''"
  by (simp add: num_eval)

lemma str_undefined: "encodeURIComponent JUndefined = Inr ''undefined''"
  by (simp add: encodeURIComponent_def uri_component_def alphanumeric_def)

text \<open>
  C2, as amended. For a \<^verbatim>\<open>get_route_map\<close> request whose coordinates are a non-empty
  list of pairs of numbers, no longer than the number of arguments the engine's stack
  holds, \<^verbatim>\<open>bounding_box\<close> is
  \<^verbatim>\<open>[minLon - 0.1*(maxLon-minLon), minLat - 0.1*(maxLat-minLat), maxLon + 0.1*(maxLon-minLon), maxLat + 0.1*(maxLat-minLat)]\<close>
  over the minima and maxima of the pairs, each difference, product and sum rounded to
  binary64, and the same box, joined by commas between brackets, is the viewport segment
  of \<^verbatim>\<open>image_url\<close>; a longer list is answered with status 500 and the engine's
  \<^verbatim>\<open>Maximum call stack size exceeded\<close>. For \<^verbatim>\<open>[[-74,40],[-73,41]]\<close> the extrema are
  \<^verbatim>\<open>-74, 40, -73, 41\<close> and the padded box is \<^verbatim>\<open>[-74.1,39.9,-72.9,41.1]\<close>.
\<close>

theorem route_map_bounding_box:
  assumes "args_of req = Inr a"
    and "field a ''coordinates'' = JArr (map coord_pair ps)" and "ps \<noteq> []"
    and "to_str (default_to (JStr ''mapbox/streets-v12'') (field a ''style'')) = Inr st"
    and "encodeURIComponent (field a ''route_polyline'') = Inr e"
    and "to_str (default_to (JNum (Fin 800)) (field a ''width'')) = Inr w"
    and "to_str (default_to (JNum (Fin 600)) (field a ''height'')) = Inr h"
  shows "(length ps \<le> argument_limit env \<longrightarrow>
            status (response (get_route_map env req)) = 200
          \<and> field (body (response (get_route_map env req))) ''bounding_box''
              = JArr (map JNum (spec_bounding_box ps))
          \<and> field (body (response (get_route_map env req))) ''image_url''
              = JStr (''https://api.mapbox.com/styles/v1/'' @ st @ ''/static''
                      @ ''/'' @ (if truthy (field a ''route_polyline'') then ''path-5+0080ff-0.75('' @ e @ '')'' @ '','' else [])
                      @ join '','' [pin_text ''pin-s-a+00ff00'' (hd ps), pin_text ''pin-s-b+ff0000'' (last ps)]
                      @ ''/['' @ join '','' (map num_str (spec_bounding_box ps)) @ '']''
                      @ ''/'' @ w @ ''x'' @ h @ ''?''
                      @ URLSearchParams [(''access_token'', MAPBOX_ACCESS_TOKEN env)]))
       \<and> (argument_limit env < length ps \<longrightarrow>
            response (get_route_map env req)
              = \<lparr>status = 500,
                 body = JObj [(''success'', JBool False),
                              (''error'', JStr ''Maximum call stack size exceeded'')]\<rparr>)
       \<and> (2 \<le> argument_limit env \<longrightarrow>
            Math_min (argument_limit env) (string_to_number env) (map JNum [Fin (- 74), Fin (- 73)]) = Inr (Fin (- 74))
          \<and> Math_min (argument_limit env) (string_to_number env) (map JNum [Fin 40, Fin 41]) = Inr (Fin 40)
          \<and> Math_max (argument_limit env) (string_to_number env) (map JNum [Fin (- 74), Fin (- 73)]) = Inr (Fin (- 73))
          \<and> Math_max (argument_limit env) (string_to_number env) (map JNum [Fin 40, Fin 41]) = Inr (Fin 41))
       \<and> padded_box (Fin (- 74)) (Fin (- 73)) (Fin 40) (Fin 41)
           = [Fin (- 741 / 10), Fin (399 / 10), Fin (- 729 / 10), Fin (411 / 10)]
       \<and> spec_bounding_box [(- 74, 40), (- 73, 41)]
           = [Fin (- 741 / 10), Fin (399 / 10), Fin (- 729 / 10), Fin (411 / 10)]
       \<and> map num_str (padded_box (Fin (- 74)) (Fin (- 73)) (Fin 40) (Fin 41))
           = [''-74.1'', ''39.9'', ''-72.9'', ''41.1'']"
proof -
  have within: "status (response (get_route_map env req)) = 200
          \<and> field (body (response (get_route_map env req))) ''bounding_box''
              = JArr (map JNum (spec_bounding_box ps))
          \<and> field (body (response (get_route_map env req))) ''image_url''
              = JStr (''https://api.mapbox.com/styles/v1/'' @ st @ ''/static''
                      @ ''/'' @ (if truthy (field a ''route_polyline'') then ''path-5+0080ff-0.75('' @ e @ '')'' @ '','' else [])
                      @ join '','' [pin_text ''pin-s-a+00ff00'' (hd ps), pin_text ''pin-s-b+ff0000'' (last ps)]
                      @ ''/['' @ join '','' (map num_str (spec_bounding_box ps)) @ '']''
                      @ ''/'' @ w @ ''x'' @ h @ ''?''
                      @ URLSearchParams [(''access_token'', MAPBOX_ACCESS_TOKEN env)])"
    if le: "length ps \<le> argument_limit env"
  proof -
    note b = route_map_body [OF assms(2-7) le]
    have r: "response (get_route_map env req) = ok (JObj [(''success'', JBool True),
                (''image_url'',
                   JStr (''https://api.mapbox.com/styles/v1/'' @ st @ ''/static''
                         @ ''/'' @ (if truthy (field a ''route_polyline'') then ''path-5+0080ff-0.75('' @ e @ '')'' @ '','' else [])
                         @ join '','' [pin_text ''pin-s-a+00ff00'' (hd ps), pin_text ''pin-s-b+ff0000'' (last ps)]
                         @ ''/['' @ join '','' (map num_str (spec_bounding_box ps)) @ '']''
                         @ ''/'' @ w @ ''x'' @ h @ ''?''
                         @ URLSearchParams [(''access_token'', MAPBOX_ACCESS_TOKEN env)])),
                (''width'', default_to (JNum (Fin 800)) (field a ''width'')),
                (''height'', default_to (JNum (Fin 600)) (field a ''height'')),
                (''start_coordinates'', coord_pair (hd ps)),
                (''end_coordinates'', coord_pair (last ps)),
                (''bounding_box'', JArr (map JNum (spec_bounding_box ps)))])"
      unfolding get_route_map_def route_map_try_def
      by (rule args_of_response [where build = "route_map_result env", OF assms(1) b])
    show ?thesis
      unfolding r by (simp add: ok_def)
  qed
  have beyond: "response (get_route_map env req)
              = \<lparr>status = 500,
                 body = JObj [(''success'', JBool False),
                              (''error'', JStr ''Maximum call stack size exceeded'')]\<rparr>"
    if gt: "argument_limit env < length ps"
    using route_map_overflow [OF assms(2-5) gt] assms(1)
    by (simp add: get_route_map_def route_map_try_def no_call_try_def catch_local_def local_failure_def)
  have strs: "map num_str (padded_box (Fin (- 74)) (Fin (- 73)) (Fin 40) (Fin 41))
           = [''-74.1'', ''39.9'', ''-72.9'', ''41.1'']"
    unfolding pad_example by (rule example_strs)
  have mm: "Math_min (argument_limit env) (string_to_number env) (map JNum [Fin (- 74), Fin (- 73)]) = Inr (Fin (- 74))
          \<and> Math_min (argument_limit env) (string_to_number env) (map JNum [Fin 40, Fin 41]) = Inr (Fin 40)
          \<and> Math_max (argument_limit env) (string_to_number env) (map JNum [Fin (- 74), Fin (- 73)]) = Inr (Fin (- 73))
          \<and> Math_max (argument_limit env) (string_to_number env) (map JNum [Fin 40, Fin 41]) = Inr (Fin 41)"
    if "2 \<le> argument_limit env"
    using that by (simp add: Math_min_def Math_max_def num_min_def num_max_def)
  from within beyond mm pad_example example_box strs show ?thesis
    by blast
qed

theorem route_map_bounding_box_witness:
  "field (body (response (get_route_map offline_env
       (JObj [(''coordinates'', JArr (map coord_pair [(- 74, 40), (- 73, 41)]))])))) ''bounding_box''
     = JArr [JNum (Fin (- 741 / 10)), JNum (Fin (399 / 10)), JNum (Fin (- 729 / 10)), JNum (Fin (411 / 10))]
   \<and> field (body (response (get_route_map offline_env
       (JObj [(''coordinates'', JArr (map coord_pair [(- 74, 40), (- 73, 41)]))])))) ''image_url''
     = JStr ''https://api.mapbox.com/styles/v1/mapbox/streets-v12/static/pin-s-a+00ff00(-74,40),pin-s-b+ff0000(-73,41)/[-74.1,39.9,-72.9,41.1]/800x600?access_token=tk''
   \<and> response (get_route_map offline_env
       (JObj [(''coordinates'', JArr (map coord_pair (replicate 125001 (0, 0))))]))
     = \<lparr>status = 500,
        body = JObj [(''success'', JBool False), (''error'', JStr ''Maximum call stack size exceeded'')]\<rparr>
   \<and> Math_min (argument_limit offline_env) (string_to_number offline_env) (map JNum [Fin (- 74), Fin (- 73)])
     = Inr (Fin (- 74))"
proof -
  let ?R = "JObj [(''coordinates'', JArr (map coord_pair [(- 74, 40), (- 73, 41)]))]"
  let ?L = "JObj [(''coordinates'', JArr (map coord_pair (replicate 125001 (0, 0))))]"
  have params: "URLSearchParams [(''access_token'', MAPBOX_ACCESS_TOKEN offline_env)] = ''access_token=tk''"
    by (simp add: offline_env_def token_params)
  have limit: "argument_limit offline_env = 125000"
    by (simp add: offline_env_def)
  have pins: "join '','' [pin_text ''pin-s-a+00ff00'' (hd [(- 74, 40), (- 73, 41)]),
                          pin_text ''pin-s-b+ff0000'' (last [(- 74, 40), (- 73, 41)])]
                = ''pin-s-a+00ff00(-74,40),pin-s-b+ff0000(-73,41)''"
    by (simp add: pin_text_def num_eval join_def)
  have strs: "join '','' (map num_str (spec_bounding_box [(- 74, 40), (- 73, 41)])) = ''-74.1,39.9,-72.9,41.1''"
    unfolding example_box example_strs by (simp add: join_def)
  have nums: "map JNum (spec_bounding_box [(- 74, 40), (- 73, 41)])
                = [JNum (Fin (- 741 / 10)), JNum (Fin (399 / 10)), JNum (Fin (- 729 / 10)), JNum (Fin (411 / 10))]"
    unfolding example_box by simp
  have h1: "args_of ?R = Inr ?R"
    by (simp add: args_of_def jget_def js_or_def)
  have h2: "field ?R ''coordinates'' = JArr (map coord_pair [(- 74, 40), (- 73, 41)])"
    by simp
  have h3: "[(- 74, 40), (- 73, 41)] \<noteq> ([] :: (rat \<times> rat) list)"
    by simp
  have h4: "to_str (default_to (JStr ''mapbox/streets-v12'') (field ?R ''style'')) = Inr ''mapbox/streets-v12''"
    by (simp add: default_to_def)
  have h5: "encodeURIComponent (field ?R ''route_polyline'') = Inr ''undefined''"
    by (simp add: str_undefined)
  have h6: "to_str (default_to (JNum (Fin 800)) (field ?R ''width'')) = Inr ''800''"
    by (simp add: default_to_def str_800)
  have h7: "to_str (default_to (JNum (Fin 600)) (field ?R ''height'')) = Inr ''600''"
    by (simp add: default_to_def str_600)
  have no_line: "\<not> truthy (field ?R ''route_polyline'')"
    by simp
  have le: "length [(- 74, 40), (- 73, 41) :: rat \<times> rat] \<le> argument_limit offline_env"
    by (simp add: limit)
  note t = route_map_bounding_box [OF h1 h2 h3 h4 h5 h6 h7, of offline_env]
  have box: "field (body (response (get_route_map offline_env ?R))) ''bounding_box''
     = JArr [JNum (Fin (- 741 / 10)), JNum (Fin (399 / 10)), JNum (Fin (- 729 / 10)), JNum (Fin (411 / 10))]"
    using t [THEN conjunct1, rule_format, OF le, THEN conjunct2, THEN conjunct1] unfolding nums .
  have url: "field (body (response (get_route_map offline_env ?R))) ''image_url''
     = JStr ''https://api.mapbox.com/styles/v1/mapbox/streets-v12/static/pin-s-a+00ff00(-74,40),pin-s-b+ff0000(-73,41)/[-74.1,39.9,-72.9,41.1]/800x600?access_token=tk''"
    using t [THEN conjunct1, rule_format, OF le, THEN conjunct2, THEN conjunct2]
    unfolding pins strs params if_not_P [OF no_line] by simp
  have two: "2 \<le> argument_limit offline_env"
    by (simp add: limit)
  have mn: "Math_min (argument_limit offline_env) (string_to_number offline_env) (map JNum [Fin (- 74), Fin (- 73)])
     = Inr (Fin (- 74))"
    using t [THEN conjunct2, THEN conjunct2, THEN conjunct1, rule_format, OF two, THEN conjunct1] .
  have l1: "args_of ?L = Inr ?L"
    by (simp add: args_of_def jget_def js_or_def)
  have l2: "field ?L ''coordinates'' = JArr (map coord_pair (replicate 125001 (0, 0)))"
    by simp
  have l3: "replicate 125001 (0, 0) \<noteq> ([] :: (rat \<times> rat) list)"
    by simp
  have l4: "to_str (default_to (JStr ''mapbox/streets-v12'') (field ?L ''style'')) = Inr ''mapbox/streets-v12''"
    by (simp add: default_to_def)
  have l5: "encodeURIComponent (field ?L ''route_polyline'') = Inr ''undefined''"
    by (simp add: str_undefined)
  have l6: "to_str (default_to (JNum (Fin 800)) (field ?L ''width'')) = Inr ''800''"
    by (simp add: default_to_def str_800)
  have l7: "to_str (default_to (JNum (Fin 600)) (field ?L ''height'')) = Inr ''600''"
    by (simp add: default_to_def str_600)
  have gt: "argument_limit offline_env < length (replicate 125001 (0, 0) :: (rat \<times> rat) list)"
    by (simp add: limit)
  have big: "response (get_route_map offline_env ?L)
     = \<lparr>status = 500,
        body = JObj [(''success'', JBool False), (''error'', JStr ''Maximum call stack size exceeded'')]\<rparr>"
    using route_map_bounding_box [OF l1 l2 l3 l4 l5 l6 l7, of offline_env, THEN conjunct2, THEN conjunct1, rule_format, OF gt] .
  from box url big mn show ?thesis by blast
qed

text \<open>
  The claim as first stated gives the box by the arithmetic of its formula. For
  \<^verbatim>\<open>[[0,0],[3,3]]\<close> that box is \<^verbatim>\<open>[-0.3,-0.3,3.3,3.3]\<close>; the handler, computing in
  binary64, answers \<^verbatim>\<open>[-0.30000000000000004,-0.30000000000000004,3.3,3.3]\<close>, in
  \<^verbatim>\<open>bounding_box\<close> and in the URL.
\<close>

theorem exact_box_counterexample:
  "map Fin (exact_bounding_box [(0, 0), (3, 3)]) = [Fin (- 3 / 10), Fin (- 3 / 10), Fin (33 / 10), Fin (33 / 10)]
   \<and> field (body (response (get_route_map offline_env
        (JObj [(''coordinates'', JArr (map coord_pair [(0, 0), (3, 3)]))])))) ''bounding_box''
       = JArr [JNum (Fin (- 30000000000000004 / 100000000000000000)),
               JNum (Fin (- 30000000000000004 / 100000000000000000)),
               JNum (Fin (33 / 10)), JNum (Fin (33 / 10))]
   \<and> field (body (response (get_route_map offline_env
        (JObj [(''coordinates'', JArr (map coord_pair [(0, 0), (3, 3)]))])))) ''bounding_box''
       \<noteq> JArr (map JNum (map Fin (exact_bounding_box [(0, 0), (3, 3)])))
   \<and> field (body (response (get_route_map offline_env
        (JObj [(''coordinates'', JArr (map coord_pair [(0, 0), (3, 3)]))])))) ''image_url''
       = JStr ''https://api.mapbox.com/styles/v1/mapbox/streets-v12/static/pin-s-a+00ff00(0,0),pin-s-b+ff0000(3,3)/[-0.30000000000000004,-0.30000000000000004,3.3,3.3]/800x600?access_token=tk''"
proof -
  let ?R = "JObj [(''coordinates'', JArr (map coord_pair [(0, 0), (3, 3)]))]"
  have exact: "map Fin (exact_bounding_box [(0, 0), (3, 3)]) = [Fin (- 3 / 10), Fin (- 3 / 10), Fin (33 / 10), Fin (33 / 10)]"
    by (simp add: exact_bounding_box_def Let_def)
  have params: "URLSearchParams [(''access_token'', MAPBOX_ACCESS_TOKEN offline_env)] = ''access_token=tk''"
    by (simp add: offline_env_def token_params)
  have pins: "join '','' [pin_text ''pin-s-a+00ff00'' (hd [(0, 0), (3, 3)]),
                          pin_text ''pin-s-b+ff0000'' (last [(0, 0), (3, 3)])]
                = ''pin-s-a+00ff00(0,0),pin-s-b+ff0000(3,3)''"
    by (simp add: pin_text_def num_eval join_def)
  have strs: "join '','' (map num_str (spec_bounding_box [(0, 0), (3, 3)]))
                = ''-0.30000000000000004,-0.30000000000000004,3.3,3.3''"
    unfolding zero_three_box zero_three_strs by (simp add: join_def)
  have b: "route_map_result offline_env ?R
     = Inr (JObj [(''success'', JBool True),
                (''image_url'',
                   JStr (''https://api.mapbox.com/styles/v1/'' @ ''mapbox/streets-v12'' @ ''/static''
                         @ ''/'' @ (if truthy (field ?R ''route_polyline'') then ''path-5+0080ff-0.75('' @ ''undefined'' @ '')'' @ '','' else [])
                         @ join '','' [pin_text ''pin-s-a+00ff00'' (hd [(0, 0), (3, 3)]), pin_text ''pin-s-b+ff0000'' (last [(0, 0), (3, 3)])]
                         @ ''/['' @ join '','' (map num_str (spec_bounding_box [(0, 0), (3, 3)])) @ '']''
                         @ ''/'' @ ''800'' @ ''x'' @ ''600'' @ ''?''
                         @ URLSearchParams [(''access_token'', MAPBOX_ACCESS_TOKEN offline_env)])),
                (''width'', default_to (JNum (Fin 800)) (field ?R ''width'')),
                (''height'', default_to (JNum (Fin 600)) (field ?R ''height'')),
                (''start_coordinates'', coord_pair (hd [(0, 0), (3, 3)])),
                (''end_coordinates'', coord_pair (last [(0, 0), (3, 3)])),
                (''bounding_box'', JArr (map JNum (spec_bounding_box [(0, 0), (3, 3)])))])"
    by (rule route_map_body) (simp_all add: default_to_def str_undefined str_800 str_600 offline_env_def)
  have r: "response (get_route_map offline_env ?R)
     = ok (JObj [(''success'', JBool True),
                (''image_url'',
                   JStr (''https://api.mapbox.com/styles/v1/'' @ ''mapbox/streets-v12'' @ ''/static''
                         @ ''/'' @ (if truthy (field ?R ''route_polyline'') then ''path-5+0080ff-0.75('' @ ''undefined'' @ '')'' @ '','' else [])
                         @ join '','' [pin_text ''pin-s-a+00ff00'' (hd [(0, 0), (3, 3)]), pin_text ''pin-s-b+ff0000'' (last [(0, 0), (3, 3)])]
                         @ ''/['' @ join '','' (map num_str (spec_bounding_box [(0, 0), (3, 3)])) @ '']''
                         @ ''/'' @ ''800'' @ ''x'' @ ''600'' @ ''?''
                         @ URLSearchParams [(''access_token'', MAPBOX_ACCESS_TOKEN offline_env)])),
                (''width'', default_to (JNum (Fin 800)) (field ?R ''width'')),
                (''height'', default_to (JNum (Fin 600)) (field ?R ''height'')),
                (''start_coordinates'', coord_pair (hd [(0, 0), (3, 3)])),
                (''end_coordinates'', coord_pair (last [(0, 0), (3, 3)])),
                (''bounding_box'', JArr (map JNum (spec_bounding_box [(0, 0), (3, 3)])))])"
    unfolding get_route_map_def route_map_try_def
    by (rule args_of_response [where build = "route_map_result offline_env", OF _ b])
       (simp add: args_of_def jget_def js_or_def)
  have box: "field (body (response (get_route_map offline_env ?R))) ''bounding_box''
       = JArr [JNum (Fin (- 30000000000000004 / 100000000000000000)),
               JNum (Fin (- 30000000000000004 / 100000000000000000)),
               JNum (Fin (33 / 10)), JNum (Fin (33 / 10))]"
    unfolding r zero_three_box by (simp add: ok_def)
  have url: "field (body (response (get_route_map offline_env ?R))) ''image_url''
       = JStr ''https://api.mapbox.com/styles/v1/mapbox/streets-v12/static/pin-s-a+00ff00(0,0),pin-s-b+ff0000(3,3)/[-0.30000000000000004,-0.30000000000000004,3.3,3.3]/800x600?access_token=tk''"
    unfolding r pins strs params by (simp add: ok_def)
  have ne: "field (body (response (get_route_map offline_env ?R))) ''bounding_box''
       \<noteq> JArr (map JNum (map Fin (exact_bounding_box [(0, 0), (3, 3)])))"
    unfolding box exact by simp
  from exact box ne url show ?thesis by blast
qed

subsection \<open>The two calls of get_directions\<close>

lemma directions_calls:
  assumes "args_of req = Inr a"
    and "coordinate_string (field a ''coordinates'') = Inr cstr"
    and "to_str (default_to (JStr ''driving'') (field a ''profile'')) = Inr p"
    and "method_toString ''steps'' (default_to (JBool True) (field a ''steps'')) = Inr s"
    and "to_str (default_to (JStr ''full'') (field a ''overview'')) = Inr ov"
  shows "bindE (args_of req) (directions_urls env)
          = Inr (''https://api.mapbox.com/directions/v5/mapbox/'' @ p @ ''/'' @ cstr @ ''?''
                  @ URLSearchParams [(''access_token'', MAPBOX_ACCESS_TOKEN env), (''geometries'', ''geojson''),
                                     (''steps'', s), (''overview'', ov)],
                 ''https://api.mapbox.com/directions/v5/mapbox/'' @ p @ ''/'' @ cstr @ ''?''
                  @ URLSearchParams [(''access_token'', MAPBOX_ACCESS_TOKEN env), (''geometries'', ''polyline''),
                                     (''steps'', ''false''), (''overview'', ''full'')])"
  unfolding directions_urls_def Let_def assms(1)
  by (simp only: assms(2-5) bindE_simps)

lemma directions_result_fields:
  assumes "\<not> nullish d1" and "\<not> nullish d2"
  shows "\<exists>b. directions_result d1 d2 = Inr b
            \<and> field b ''success'' = JBool True
            \<and> field b ''routes'' = field d1 ''routes''
            \<and> field b ''waypoints'' = field d1 ''waypoints''
            \<and> field b ''code'' = field d1 ''code''
            \<and> (\<forall>r rs. field d2 ''routes'' = JArr (JObj r # rs) \<longrightarrow>
                   has_member b ''polyline'' \<and> field b ''polyline'' = field (JObj r) ''geometry'')
            \<and> (field d2 ''routes'' = JUndefined \<or> field d2 ''routes'' = JArr [] \<longrightarrow> \<not> has_member b ''polyline'')"
proof -
  consider (none) "\<not> truthy (field d2 ''routes'')"
    | (nofirst) "truthy (field d2 ''routes'')" "\<exists>f. js_index (field d2 ''routes'') 0 = Inr f \<and> \<not> truthy f"
    | (first) "truthy (field d2 ''routes'')" "\<exists>f. js_index (field d2 ''routes'') 0 = Inr f \<and> truthy f"
    by (cases "field d2 ''routes''") (auto simp: js_index_def)
  then show ?thesis
  proof cases
    case none
    then show ?thesis using assms
      by (auto simp: directions_result_def jget_def has_member_def Let_def)
  next
    case nofirst
    then obtain f where f: "js_index (field d2 ''routes'') 0 = Inr f" "\<not> truthy f" by blast
    have a: "\<And>r rs. field d2 ''routes'' \<noteq> JArr (JObj r # rs)"
      using f by (auto simp: js_index_def)
    show ?thesis using assms nofirst(1) f a
      by (auto simp: directions_result_def jget_def has_member_def Let_def)
  next
    case first
    then obtain f where f: "js_index (field d2 ''routes'') 0 = Inr f" "truthy f" by blast
    have a: "\<And>r rs. field d2 ''routes'' = JArr (JObj r # rs) \<Longrightarrow> f = JObj r"
      using f by (auto simp: js_index_def)
    have b: "field d2 ''routes'' \<noteq> JUndefined" "field d2 ''routes'' \<noteq> JArr []"
      using first(1) f by (auto simp: js_index_def)
    show ?thesis using assms first(1) f a b
      by (auto simp: directions_result_def jget_def has_member_def Let_def)
  qed
qed

text \<open>
  C1. A \<^verbatim>\<open>get_directions\<close> request whose coordinate string can be built issues
  exactly two GETs, whatever either answers: the first with the request's profile,
  steps and overview (\<^verbatim>\<open>driving\<close>, \<^verbatim>\<open>true\<close>, \<^verbatim>\<open>full\<close> when absent) and
  \<^verbatim>\<open>geometries=geojson\<close>, the second with the same profile and coordinate string and
  \<^verbatim>\<open>geometries=polyline\<close>, \<^verbatim>\<open>steps=false\<close>, \<^verbatim>\<open>overview=full\<close>. When both answer, the
  response is 200 with \<^verbatim>\<open>success: true\<close>, with \<^verbatim>\<open>routes\<close>, \<^verbatim>\<open>waypoints\<close> and
  \<^verbatim>\<open>code\<close> those of the first answer, with \<^verbatim>\<open>polyline\<close> the geometry of the first
  route of the second answer when it has a route, and with no \<^verbatim>\<open>polyline\<close> member when
  its \<^verbatim>\<open>routes\<close> is absent or empty.
\<close>

theorem directions_two_calls_merged:
  assumes "args_of req = Inr a"
    and "coordinate_string (field a ''coordinates'') = Inr cstr"
    and "to_str (default_to (JStr ''driving'') (field a ''profile'')) = Inr p"
    and "method_toString ''steps'' (default_to (JBool True) (field a ''steps'')) = Inr s"
    and "to_str (default_to (JStr ''full'') (field a ''overview'')) = Inr ov"
  shows "calls (get_directions env req)
           = [directions_url (MAPBOX_ACCESS_TOKEN env) p cstr ''geojson'' s ov,
              directions_url (MAPBOX_ACCESS_TOKEN env) p cstr ''polyline'' ''false'' ''full'']
       \<and> (\<forall>d1 d2.
             axios_get env (directions_url (MAPBOX_ACCESS_TOKEN env) p cstr ''geojson'' s ov) = Inr d1
             \<and> axios_get env (directions_url (MAPBOX_ACCESS_TOKEN env) p cstr ''polyline'' ''false'' ''full'') = Inr d2
             \<and> \<not> nullish d1 \<and> \<not> nullish d2 \<longrightarrow>
               status (response (get_directions env req)) = 200
             \<and> field (body (response (get_directions env req))) ''success'' = JBool True
             \<and> field (body (response (get_directions env req))) ''routes'' = field d1 ''routes''
             \<and> field (body (response (get_directions env req))) ''waypoints'' = field d1 ''waypoints''
             \<and> field (body (response (get_directions env req))) ''code'' = field d1 ''code''
             \<and> (\<forall>r rs. field d2 ''routes'' = JArr (JObj r # rs) \<longrightarrow>
                   has_member (body (response (get_directions env req))) ''polyline''
                   \<and> field (body (response (get_directions env req))) ''polyline'' = field (JObj r) ''geometry'')
             \<and> (field d2 ''routes'' = JUndefined \<or> field d2 ''routes'' = JArr [] \<longrightarrow>
                   \<not> has_member (body (response (get_directions env req))) ''polyline''))"
proof -
  let ?u1 = "directions_url (MAPBOX_ACCESS_TOKEN env) p cstr ''geojson'' s ov"
  let ?u2 = "directions_url (MAPBOX_ACCESS_TOKEN env) p cstr ''polyline'' ''false'' ''full''"
  have urls: "bindE (args_of req) (directions_urls env) = Inr (?u1, ?u2)"
    using directions_calls [OF assms, of env] by (simp add: directions_url_def)
  have c: "calls (get_directions env req) = [?u1, ?u2]"
    by (simp add: get_directions_def directions_try_def catch_upstream_def urls)
  have r: "axios_get env ?u1 = Inr d1 \<Longrightarrow> axios_get env ?u2 = Inr d2 \<Longrightarrow>
           directions_result d1 d2 = Inr b \<Longrightarrow> response (get_directions env req) = ok b" for d1 d2 b
    by (simp add: get_directions_def directions_try_def catch_upstream_def urls promise_all2_def)
  have "status (response (get_directions env req)) = 200
             \<and> field (body (response (get_directions env req))) ''success'' = JBool True
             \<and> field (body (response (get_directions env req))) ''routes'' = field d1 ''routes''
             \<and> field (body (response (get_directions env req))) ''waypoints'' = field d1 ''waypoints''
             \<and> field (body (response (get_directions env req))) ''code'' = field d1 ''code''
             \<and> (\<forall>r rs. field d2 ''routes'' = JArr (JObj r # rs) \<longrightarrow>
                   has_member (body (response (get_directions env req))) ''polyline''
                   \<and> field (body (response (get_directions env req))) ''polyline'' = field (JObj r) ''geometry'')
             \<and> (field d2 ''routes'' = JUndefined \<or> field d2 ''routes'' = JArr [] \<longrightarrow>
                   \<not> has_member (body (response (get_directions env req))) ''polyline'')"
    if h: "axios_get env ?u1 = Inr d1 \<and> axios_get env ?u2 = Inr d2 \<and> \<not> nullish d1 \<and> \<not> nullish d2"
    for d1 d2
  proof -
    from h obtain b where b: "directions_result d1 d2 = Inr b"
      "field b ''success'' = JBool True"
      "field b ''routes'' = field d1 ''routes''"
      "field b ''waypoints'' = field d1 ''waypoints''"
      "field b ''code'' = field d1 ''code''"
      "\<forall>r rs. field d2 ''routes'' = JArr (JObj r # rs) \<longrightarrow>
                   has_member b ''polyline'' \<and> field b ''polyline'' = field (JObj r) ''geometry''"
      "field d2 ''routes'' = JUndefined \<or> field d2 ''routes'' = JArr [] \<longrightarrow> \<not> has_member b ''polyline''"
      using directions_result_fields [of d1 d2] by blast
    have rb: "response (get_directions env req) = ok b"
      using r h b(1) by blast
    show ?thesis
      unfolding rb using b(2-7) by (simp add: ok_def)
  qed
  with c show ?thesis by blast
qed

theorem directions_two_calls_merged_witness:
  "calls (get_directions directions_env (JObj [(''coordinates'', JArr (map coord_pair [(- 74, 40), (- 73, 41)]))]))
     = [''https://api.mapbox.com/directions/v5/mapbox/driving/-74,40;-73,41?access_token=tk&geometries=geojson&steps=true&overview=full'',
        ''https://api.mapbox.com/directions/v5/mapbox/driving/-74,40;-73,41?access_token=tk&geometries=polyline&steps=false&overview=full'']
   \<and> status (response (get_directions directions_env
          (JObj [(''coordinates'', JArr (map coord_pair [(- 74, 40), (- 73, 41)]))]))) = 200
   \<and> field (body (response (get_directions directions_env
          (JObj [(''coordinates'', JArr (map coord_pair [(- 74, 40), (- 73, 41)]))])))) ''routes''
       = field geojson_answer ''routes''
   \<and> field (body (response (get_directions directions_env
          (JObj [(''coordinates'', JArr (map coord_pair [(- 74, 40), (- 73, 41)]))])))) ''polyline''
       = JStr ''_p~iF~ps|U''"
proof -
  let ?R = "JObj [(''coordinates'', JArr (map coord_pair [(- 74, 40), (- 73, 41)]))]"
  let ?u1 = "''https://api.mapbox.com/directions/v5/mapbox/driving/-74,40;-73,41?access_token=tk&geometries=geojson&steps=true&overview=full''"
  let ?u2 = "''https://api.mapbox.com/directions/v5/mapbox/driving/-74,40;-73,41?access_token=tk&geometries=polyline&steps=false&overview=full''"
  have h1: "args_of ?R = Inr ?R"
    by (simp add: args_of_def jget_def js_or_def)
  have h2: "coordinate_string (field ?R ''coordinates'') = Inr ''-74,40;-73,41''"
    by (simp add: coordinate_string_def coord_pair_def array_join_def join_def num_eval)
  have h3: "to_str (default_to (JStr ''driving'') (field ?R ''profile'')) = Inr ''driving''"
    by (simp add: default_to_def)
  have h4: "method_toString ''steps'' (default_to (JBool True) (field ?R ''steps'')) = Inr ''true''"
    by (simp add: default_to_def method_toString_def has_member_def)
  have h5: "to_str (default_to (JStr ''full'') (field ?R ''overview'')) = Inr ''full''"
    by (simp add: default_to_def)
  have tk: "MAPBOX_ACCESS_TOKEN directions_env = ''tk''"
    by (simp add: directions_env_def)
  have u1: "directions_url ''tk'' ''driving'' ''-74,40;-73,41'' ''geojson'' ''true'' ''full'' = ?u1"
    by (simp add: directions_url_def url_eval)
  have u2: "directions_url ''tk'' ''driving'' ''-74,40;-73,41'' ''polyline'' ''false'' ''full'' = ?u2"
    by (simp add: directions_url_def url_eval)
  have g1: "axios_get directions_env ?u1 = Inr geojson_answer"
    by (simp add: directions_env_def)
  have g2: "axios_get directions_env ?u2 = Inr polyline_answer"
    by (simp add: directions_env_def)
  have nn: "\<not> nullish geojson_answer" "\<not> nullish polyline_answer"
    by (simp_all add: geojson_answer_def polyline_answer_def)
  have routes2: "field polyline_answer ''routes''
                   = JArr (JObj [(''geometry'', JStr ''_p~iF~ps|U''), (''distance'', JNum (Fin 1500))] # [])"
    by (simp add: polyline_answer_def)
  note t = directions_two_calls_merged [OF h1 h2 h3 h4 h5, of directions_env, unfolded tk u1 u2]
  from t have c: "calls (get_directions directions_env ?R) = [?u1, ?u2]"
    by (rule conjunct1)
  from t [THEN conjunct2, rule_format, of geojson_answer polyline_answer] g1 g2 nn
  have m: "status (response (get_directions directions_env ?R)) = 200"
    "field (body (response (get_directions directions_env ?R))) ''routes'' = field geojson_answer ''routes''"
    "\<forall>r rs. field polyline_answer ''routes'' = JArr (JObj r # rs) \<longrightarrow>
        field (body (response (get_directions directions_env ?R))) ''polyline'' = field (JObj r) ''geometry''"
    by blast+
  from m(3) routes2
  have "field (body (response (get_directions directions_env ?R))) ''polyline''
          = field (JObj [(''geometry'', JStr ''_p~iF~ps|U''), (''distance'', JNum (Fin 1500))]) ''geometry''"
    by blast
  then have p: "field (body (response (get_directions directions_env ?R))) ''polyline'' = JStr ''_p~iF~ps|U''"
    by simp
  from c m(1,2) p show ?thesis by blast
qed

subsection \<open>The geometries member of a directions request\<close>

lemma lookup_filter: "k \<noteq> g \<Longrightarrow> lookup (filter (\<lambda>kv. fst kv \<noteq> g) kvs) k = lookup kvs k"
  by (induction kvs) auto

lemma lookup_map_member:
  "f JUndefined = JUndefined \<Longrightarrow>
   lookup (map (\<lambda>kv. if fst kv = m then (fst kv, f (snd kv)) else kv) kvs) k
     = (if k = m then f (lookup kvs k) else lookup kvs k)"
  by (induction kvs) auto

lemma field_without_member: "k \<noteq> g \<Longrightarrow> field (without_member g v) k = field v k"
  by (cases v) (simp_all add: without_member_def lookup_filter)

lemma truthy_without_member: "truthy (without_member g v) = truthy v"
  by (cases v) (simp_all add: without_member_def)

lemma nullish_erase [simp]: "nullish (erase_geometries b) = nullish b"
  by (cases b) (simp_all add: erase_geometries_def)

lemma field_erase:
  "field (erase_geometries b) k
     = (if k = ''geometries'' then JUndefined
        else if k = ''arguments'' then without_member ''geometries'' (field b k)
        else field b k)"
proof (cases b)
  case (JObj kvs)
  have g: "lookup (filter (\<lambda>kv. fst kv \<noteq> ''geometries'') kvs) ''geometries'' = JUndefined"
    by (induction kvs) auto
  show ?thesis
    by (simp add: JObj erase_geometries_def lookup_map_member without_member_def lookup_filter g)
qed (simp_all add: erase_geometries_def without_member_def)

lemma directions_urls_fields:
  assumes "\<forall>k \<in> {''coordinates'', ''profile'', ''steps'', ''overview''}. field a k = field a' k"
  shows "directions_urls env a = directions_urls env a'"
  using assms by (simp add: directions_urls_def)

lemma directions_urls_erase:
  "bindE (args_of (erase_geometries b)) (directions_urls env) = bindE (args_of b) (directions_urls env)"
proof (cases "nullish b")
  case True
  then have "erase_geometries b = b"
    by (cases b) (simp_all add: erase_geometries_def)
  then show ?thesis by simp
next
  case False
  show ?thesis
  proof (cases "truthy (field b ''arguments'')")
    case True
    then have "args_of b = Inr (field b ''arguments'')"
      "args_of (erase_geometries b) = Inr (without_member ''geometries'' (field b ''arguments''))"
      using False by (simp_all add: args_of_def jget_def js_or_def field_erase truthy_without_member)
    then show ?thesis
      by (simp add: directions_urls_fields [of "without_member ''geometries'' (field b ''arguments'')" "field b ''arguments''"]
            field_without_member)
  next
    case no: False
    then have "args_of b = Inr b" "args_of (erase_geometries b) = Inr (erase_geometries b)"
      using False by (simp_all add: args_of_def jget_def js_or_def field_erase truthy_without_member)
    then show ?thesis
      by (simp add: directions_urls_fields [of "erase_geometries b" b] field_erase)
  qed
qed

lemma get_directions_erase: "get_directions env (erase_geometries b) = get_directions env b"
  by (simp add: get_directions_def directions_try_def directions_urls_erase)

text \<open>
  C10. Two \<^verbatim>\<open>get_directions\<close> requests whose bodies differ only in \<^verbatim>\<open>geometries\<close>
  (at the top level or inside \<^verbatim>\<open>arguments\<close>) have the same outcome: the same two URLs
  are requested and the same response is sent. The tool catalogue nevertheless offers
  \<^verbatim>\<open>geometries\<close> with the values \<^verbatim>\<open>geojson\<close>, \<^verbatim>\<open>polyline\<close>, \<^verbatim>\<open>polyline6\<close>.
\<close>

theorem geometries_ignored:
  "(erase_geometries b1 = erase_geometries b2 \<longrightarrow> get_directions env b1 = get_directions env b2)
   \<and> field (field (field (field get_directions_tool ''inputSchema'') ''properties'') ''geometries'') ''enum''
       = JArr [JStr ''geojson'', JStr ''polyline'', JStr ''polyline6'']"
proof -
  have "get_directions env b1 = get_directions env b2" if "erase_geometries b1 = erase_geometries b2"
    using get_directions_erase [of env b1] get_directions_erase [of env b2] that by simp
  then show ?thesis
    by (simp add: get_directions_tool_def)
qed

theorem geometries_ignored_witness:
  "erase_geometries (JObj [(''coordinates'', JArr (map coord_pair [(- 74, 40), (- 73, 41)])), (''geometries'', JStr ''polyline6'')])
     = erase_geometries (JObj [(''geometries'', JStr ''geojson''), (''coordinates'', JArr (map coord_pair [(- 74, 40), (- 73, 41)]))])
   \<and> get_directions directions_env
        (JObj [(''coordinates'', JArr (map coord_pair [(- 74, 40), (- 73, 41)])), (''geometries'', JStr ''polyline6'')])
     = get_directions directions_env
        (JObj [(''geometries'', JStr ''geojson''), (''coordinates'', JArr (map coord_pair [(- 74, 40), (- 73, 41)]))])
   \<and> erase_geometries (JObj [(''arguments'', JObj [(''coordinates'', JArr []), (''geometries'', JStr ''polyline'')])])
     = erase_geometries (JObj [(''arguments'', JObj [(''coordinates'', JArr [])])])
   \<and> get_directions directions_env (JObj [(''arguments'', JObj [(''coordinates'', JArr []), (''geometries'', JStr ''polyline'')])])
     = get_directions directions_env (JObj [(''arguments'', JObj [(''coordinates'', JArr [])])])"
proof -
  let ?b1 = "JObj [(''coordinates'', JArr (map coord_pair [(- 74, 40), (- 73, 41)])), (''geometries'', JStr ''polyline6'')]"
  let ?b2 = "JObj [(''geometries'', JStr ''geojson''), (''coordinates'', JArr (map coord_pair [(- 74, 40), (- 73, 41)]))]"
  let ?c1 = "JObj [(''arguments'', JObj [(''coordinates'', JArr []), (''geometries'', JStr ''polyline'')])]"
  let ?c2 = "JObj [(''arguments'', JObj [(''coordinates'', JArr [])])]"
  have e: "erase_geometries ?b1 = erase_geometries ?b2"
    by (simp add: erase_geometries_def)
  have f: "erase_geometries ?c1 = erase_geometries ?c2"
    by (simp add: erase_geometries_def without_member_def)
  from geometries_ignored [of ?b1 ?b2 directions_env] e
  have g: "get_directions directions_env ?b1 = get_directions directions_env ?b2" by blast
  from geometries_ignored [of ?c1 ?c2 directions_env] f
  have h: "get_directions directions_env ?c1 = get_directions directions_env ?c2" by blast
  from e f g h show ?thesis by blast
qed

subsection \<open>Failures in the gateway\<close>

lemma provider_message_eq: "upstream_message e = provider_message e"
proof (cases e)
  case (AxiosError m r)
  show ?thesis
  proof (cases r)
    case None
    then show ?thesis by (simp add: AxiosError upstream_message_def provider_message_def)
  next
    case (Some sd)
    obtain st d where sd: "sd = (st, d)" by (cases sd)
    show ?thesis
      by (cases d) (simp_all add: AxiosError Some sd upstream_message_def provider_message_def opt_get_def)
  qed
qed (simp_all add: upstream_message_def provider_message_def)

lemma upstream_failure_spec: "upstream_failure e = spec_failure e"
  by (simp add: upstream_failure_def spec_failure_def js_or_def provider_message_eq)

lemma rol_Inr [simp]: "raises_only_local (Inr x)"
  by (simp add: raises_only_local_def)

lemma rol_engine [simp]:
  "raises_only_local (Inl (TypeError m))" "raises_only_local (Inl (RangeError m))"
  "raises_only_local (Inl (URIError m))" "raises_only_local (Inl (cannot_read v k))"
  "raises_only_local (Inl (not_a_function c))" "raises_only_local (Inl no_primitive)"
  by (simp_all add: raises_only_local_def cannot_read_def not_a_function_def no_primitive_def)

lemma rol_bind [intro!]:
  "raises_only_local m \<Longrightarrow> (\<And>x. raises_only_local (f x)) \<Longrightarrow> raises_only_local (bindE m f)"
  by (cases m) (simp_all add: raises_only_local_def)

lemma rol_mapE [intro!]: "(\<And>x. raises_only_local (f x)) \<Longrightarrow> raises_only_local (mapE f xs)"
  by (induction xs) auto

lemma rol_to_str_both: "raises_only_local (to_str v)" "raises_only_local (elem_strs vs)"
  by (induction v and vs rule: to_str_elem_strs.induct) auto

lemmas rol_to_str [simp, intro!] = rol_to_str_both

lemma rol_array_join [simp, intro!]: "raises_only_local (array_join expr sep v)"
  by (cases v) (auto simp: array_join_def)

lemma rol_js_length [simp, intro!]: "raises_only_local (js_length v)"
  by (cases v) (auto simp: js_length_def)

lemma rol_js_index [simp, intro!]: "raises_only_local (js_index v i)"
  by (cases v) (auto simp: js_index_def)

lemma rol_to_number [simp, intro!]: "raises_only_local (to_number s2n v)"
  by (cases v) auto

lemma rol_last_element [simp, intro!]: "raises_only_local (last_element s2n v)"
  by (cases v) (auto simp: last_element_def)

lemma rol_js_gt0 [simp, intro!]: "raises_only_local (js_gt0 s2n v)"
  by (auto simp: js_gt0_def)

lemma rol_Math [simp, intro!]:
  "raises_only_local (Math_min limit s2n vs)" "raises_only_local (Math_max limit s2n vs)"
  by (auto simp: Math_min_def Math_max_def)

lemma rol_encodeURIComponent [simp, intro!]: "raises_only_local (encodeURIComponent v)"
  by (auto simp: encodeURIComponent_def)

lemma rol_marker_token [simp, intro!]: "raises_only_local (marker_token m)"
  by (auto simp: marker_token_def)

lemma rol_marker_segment [simp, intro!]: "raises_only_local (marker_segment env v)"
  by (cases v) (auto simp: marker_segment_def)

lemma rol_viewport_segment [simp, intro!]: "raises_only_local (viewport_segment b c z)"
  by (auto simp: viewport_segment_def)

lemma rol_pin [simp, intro!]: "raises_only_local (pin prefix c)"
  by (auto simp: pin_def)

lemma rol_args_of [simp, intro!]: "raises_only_local (args_of b)"
  by (auto simp: args_of_def jget_def)

lemma rol_static_image [simp, intro!]: "raises_only_local (static_image_result env a)"
  by (auto simp: static_image_result_def Let_def)

lemma rol_route_map [simp, intro!]: "raises_only_local (route_map_result env a)"
  by (cases "field a ''coordinates''") (auto simp: route_map_result_def Let_def)

lemma local_failure_spec: "raises_only_local (Inl e :: js_error + jsval) \<Longrightarrow> local_failure e = spec_failure e"
  by (cases e) (simp_all add: raises_only_local_def local_failure_def spec_failure_def provider_message_def)

lemma catch_upstream_spec:
  "calls (catch_upstream t) = fst t
   \<and> (\<forall>e. snd t = Inl e \<longrightarrow> response (catch_upstream t) = spec_failure e)
   \<and> (\<forall>b. snd t = Inr b \<longrightarrow> response (catch_upstream t) = ok b)
   \<and> (status (response (catch_upstream t)) \<noteq> 200 \<longrightarrow>
        field (body (response (catch_upstream t))) ''success'' = JBool False)"
  by (cases "snd t") (simp_all add: catch_upstream_def upstream_failure_spec spec_failure_def ok_def)

lemma catch_local_spec:
  assumes "raises_only_local (snd t)"
  shows "calls (catch_local t) = fst t
   \<and> (\<forall>e. snd t = Inl e \<longrightarrow> response (catch_local t) = spec_failure e)
   \<and> (\<forall>b. snd t = Inr b \<longrightarrow> response (catch_local t) = ok b)
   \<and> (status (response (catch_local t)) \<noteq> 200 \<longrightarrow>
        field (body (response (catch_local t))) ''success'' = JBool False)"
proof (cases "snd t")
  case (Inl e)
  then have "local_failure e = spec_failure e"
    using assms local_failure_spec by simp
  then show ?thesis
    by (simp add: Inl catch_local_def spec_failure_def)
next
  case (Inr b)
  then show ?thesis by (simp add: catch_local_def ok_def)
qed

lemma rol_no_call_try: "(\<And>a. raises_only_local (build a)) \<Longrightarrow> raises_only_local (snd (no_call_try req build))"
  by (auto simp: no_call_try_def)

lemma status_cases:
  "status (ok b) = 200" "status (spec_failure e) = 500"
  "field (body (spec_failure e)) ''success'' = JBool False"
  by (simp_all add: ok_def spec_failure_def)

lemma one_call_spec:
  "(\<forall>e. bindE (args_of req) build = Inl e \<longrightarrow>
        calls (catch_upstream (one_call_try env req build shape)) = []
      \<and> response (catch_upstream (one_call_try env req build shape)) = spec_failure e)
   \<and> (\<forall>url. bindE (args_of req) build = Inr url \<longrightarrow>
        calls (catch_upstream (one_call_try env req build shape)) = [url]
      \<and> (\<forall>e. axios_get env url = Inl e \<longrightarrow>
             response (catch_upstream (one_call_try env req build shape)) = spec_failure e)
      \<and> (\<forall>d e. axios_get env url = Inr d \<and> shape d = Inl e \<longrightarrow>
             response (catch_upstream (one_call_try env req build shape)) = spec_failure e)
      \<and> (\<forall>d b. axios_get env url = Inr d \<and> shape d = Inr b \<longrightarrow>
             response (catch_upstream (one_call_try env req build shape)) = ok b))"
  by (cases "bindE (args_of req) build")
     (auto simp: one_call_try_def catch_upstream_def upstream_failure_spec)

lemma directions_spec:
  "(\<forall>e. bindE (args_of req) (directions_urls env) = Inl e \<longrightarrow>
        calls (get_directions env req) = [] \<and> response (get_directions env req) = spec_failure e)
   \<and> (\<forall>u1 u2. bindE (args_of req) (directions_urls env) = Inr (u1, u2) \<longrightarrow>
        calls (get_directions env req) = [u1, u2]
      \<and> (\<forall>e1 d2. axios_get env u1 = Inl e1 \<and> axios_get env u2 = Inr d2 \<longrightarrow>
             response (get_directions env req) = spec_failure e1)
      \<and> (\<forall>d1 e2. axios_get env u1 = Inr d1 \<and> axios_get env u2 = Inl e2 \<longrightarrow>
             response (get_directions env req) = spec_failure e2)
      \<and> (\<forall>e1 e2. axios_get env u1 = Inl e1 \<and> axios_get env u2 = Inl e2 \<longrightarrow>
             response (get_directions env req) = spec_failure (if second_rejects_first env then e2 else e1))
      \<and> (\<forall>d1 d2 e. axios_get env u1 = Inr d1 \<and> axios_get env u2 = Inr d2 \<and> directions_result d1 d2 = Inl e \<longrightarrow>
             response (get_directions env req) = spec_failure e)
      \<and> (\<forall>d1 d2 b. axios_get env u1 = Inr d1 \<and> axios_get env u2 = Inr d2 \<and> directions_result d1 d2 = Inr b \<longrightarrow>
             response (get_directions env req) = ok b))"
  by (cases "bindE (args_of req) (directions_urls env)")
     (auto simp: get_directions_def directions_try_def catch_upstream_def upstream_failure_spec promise_all2_def)

lemma no_call_spec:
  assumes "\<And>a. raises_only_local (build a)"
  shows "calls (catch_local (no_call_try req build)) = []
   \<and> (\<forall>e. bindE (args_of req) build = Inl e \<longrightarrow>
         response (catch_local (no_call_try req build)) = spec_failure e)
   \<and> (\<forall>b. bindE (args_of req) build = Inr b \<longrightarrow>
         response (catch_local (no_call_try req build)) = ok b)"
  using catch_local_spec [OF rol_no_call_try [of build req, OF assms]]
  by (simp add: no_call_try_def)

text \<open>
  C7. For each of the six POST routes of the gateway, every failure while the request is
  handled is answered with status 500 and the body \<^verbatim>\<open>{success: false, error: message}\<close>,
  the message being the \<^verbatim>\<open>message\<close> member of the provider's error response when there
  is one (a truthy value, as \<^verbatim>\<open>||\<close> tests it) and the message of the exception
  otherwise: a failure while the URL is built from the request, before any call; the
  rejection of a call to Mapbox, for \<^verbatim>\<open>get_directions\<close> of either call and, when both
  are rejected, of the one \<^verbatim>\<open>Promise.all\<close> sees first; a failure while the answer is
  reshaped; and, in the two routes that call nothing, a failure while the answer is
  built. Otherwise the answer built is sent with status 200. Every response is a 200 or
  a 500 whose \<^verbatim>\<open>success\<close> is \<^verbatim>\<open>false\<close>.
\<close>

theorem gateway_failure_response:
  "(\<forall>(handler, build, shape) \<in> set one_call_routes.
       (\<forall>e. bindE (args_of req) (build env) = Inl e \<longrightarrow>
            calls (handler env req) = [] \<and> response (handler env req) = spec_failure e)
     \<and> (\<forall>url. bindE (args_of req) (build env) = Inr url \<longrightarrow>
            calls (handler env req) = [url]
          \<and> (\<forall>e. axios_get env url = Inl e \<longrightarrow> response (handler env req) = spec_failure e)
          \<and> (\<forall>d e. axios_get env url = Inr d \<and> shape d = Inl e \<longrightarrow>
                 response (handler env req) = spec_failure e)
          \<and> (\<forall>d b. axios_get env url = Inr d \<and> shape d = Inr b \<longrightarrow>
                 response (handler env req) = ok b)))
   \<and> (\<forall>e. bindE (args_of req) (directions_urls env) = Inl e \<longrightarrow>
          calls (get_directions env req) = [] \<and> response (get_directions env req) = spec_failure e)
   \<and> (\<forall>u1 u2. bindE (args_of req) (directions_urls env) = Inr (u1, u2) \<longrightarrow>
          calls (get_directions env req) = [u1, u2]
        \<and> (\<forall>e1 d2. axios_get env u1 = Inl e1 \<and> axios_get env u2 = Inr d2 \<longrightarrow>
               response (get_directions env req) = spec_failure e1)
        \<and> (\<forall>d1 e2. axios_get env u1 = Inr d1 \<and> axios_get env u2 = Inl e2 \<longrightarrow>
               response (get_directions env req) = spec_failure e2)
        \<and> (\<forall>e1 e2. axios_get env u1 = Inl e1 \<and> axios_get env u2 = Inl e2 \<longrightarrow>
               response (get_directions env req) = spec_failure (if second_rejects_first env then e2 else e1))
        \<and> (\<forall>d1 d2 e. axios_get env u1 = Inr d1 \<and> axios_get env u2 = Inr d2 \<and> directions_result d1 d2 = Inl e \<longrightarrow>
               response (get_directions env req) = spec_failure e)
        \<and> (\<forall>d1 d2 b. axios_get env u1 = Inr d1 \<and> axios_get env u2 = Inr d2 \<and> directions_result d1 d2 = Inr b \<longrightarrow>
               response (get_directions env req) = ok b))
   \<and> (\<forall>(handler, build) \<in> set no_call_routes.
          calls (handler env req) = []
        \<and> (\<forall>e. bindE (args_of req) (build env) = Inl e \<longrightarrow> response (handler env req) = spec_failure e)
        \<and> (\<forall>b. bindE (args_of req) (build env) = Inr b \<longrightarrow> response (handler env req) = ok b))
   \<and> (\<forall>(name, try_block, handler) \<in> set gateway_post.
          status (response (handler env req)) = 200
        \<or> status (response (handler env req)) = 500
          \<and> field (body (response (handler env req))) ''success'' = JBool False)"
proof -
  have one: "\<forall>(handler, build, shape) \<in> set one_call_routes.
       (\<forall>e. bindE (args_of req) (build env) = Inl e \<longrightarrow>
            calls (handler env req) = [] \<and> response (handler env req) = spec_failure e)
     \<and> (\<forall>url. bindE (args_of req) (build env) = Inr url \<longrightarrow>
            calls (handler env req) = [url]
          \<and> (\<forall>e. axios_get env url = Inl e \<longrightarrow> response (handler env req) = spec_failure e)
          \<and> (\<forall>d e. axios_get env url = Inr d \<and> shape d = Inl e \<longrightarrow>
                 response (handler env req) = spec_failure e)
          \<and> (\<forall>d b. axios_get env url = Inr d \<and> shape d = Inr b \<longrightarrow>
                 response (handler env req) = ok b))"
    unfolding one_call_routes_def geocode_forward_def geocode_reverse_def get_matrix_def
              list.set ball_simps prod.case
    using one_call_spec [of req "geocode_forward_url env" env geocode_results, folded geocode_forward_try_def]
          one_call_spec [of req "geocode_reverse_url env" env geocode_results, folded geocode_reverse_try_def]
          one_call_spec [of req "get_matrix_url env" env matrix_result, folded matrix_try_def]
    by blast
  have none: "\<forall>(handler, build) \<in> set no_call_routes.
          calls (handler env req) = []
        \<and> (\<forall>e. bindE (args_of req) (build env) = Inl e \<longrightarrow> response (handler env req) = spec_failure e)
        \<and> (\<forall>b. bindE (args_of req) (build env) = Inr b \<longrightarrow> response (handler env req) = ok b)"
    unfolding no_call_routes_def get_static_image_def get_route_map_def list.set ball_simps prod.case
    using no_call_spec [of "static_image_result env" req, OF rol_static_image, folded static_image_try_def]
          no_call_spec [of "route_map_result env" req, OF rol_route_map, folded route_map_try_def]
    by blast
  have st: "status (response (catch_upstream t)) = 200
        \<or> status (response (catch_upstream t)) = 500
          \<and> field (body (response (catch_upstream t))) ''success'' = JBool False" for t
    by (cases "snd t") (simp_all add: catch_upstream_def upstream_failure_def ok_def)
  have sl: "status (response (catch_local t)) = 200
        \<or> status (response (catch_local t)) = 500
          \<and> field (body (response (catch_local t))) ''success'' = JBool False" for t
    by (cases "snd t") (simp_all add: catch_local_def local_failure_def ok_def)
  have all: "\<forall>(name, try_block, handler) \<in> set gateway_post.
          status (response (handler env req)) = 200
        \<or> status (response (handler env req)) = 500
          \<and> field (body (response (handler env req))) ''success'' = JBool False"
    unfolding gateway_post_def geocode_forward_def geocode_reverse_def get_directions_def get_matrix_def
              get_static_image_def get_route_map_def list.set ball_simps prod.case
    using st [of "geocode_forward_try env req"] st [of "geocode_reverse_try env req"]
          st [of "directions_try env req"] st [of "matrix_try env req"]
          sl [of "static_image_try env req"] sl [of "route_map_try env req"]
    by blast
  from one directions_spec [of req env] none all show ?thesis
    by (intro conjI) blast+
qed

lemma paris_url:
  "geocode_forward_url unauthorized_env (JObj [(''query'', JStr ''Paris'')])
     = Inr ''https://api.mapbox.com/geocoding/v5/mapbox.places/Paris.json?access_token=bad&limit=5''"
  by (simp add: geocode_forward_url_def encodeURIComponent_def uri_component_def method_toString_def
        has_member_def default_to_def unauthorized_env_def Let_def num_eval url_eval)

lemma origin_url:
  "geocode_reverse_url null_env (JObj [(''longitude'', JNum (Fin 0)), (''latitude'', JNum (Fin 0))])
     = Inr ''https://api.mapbox.com/geocoding/v5/mapbox.places/0,0.json?access_token=tk''"
  by (simp add: geocode_reverse_url_def null_env_def Let_def url_eval)

lemma matrix_url:
  "get_matrix_url offline_env (JObj [(''coordinates'', JArr (map coord_pair [(- 74, 40), (- 73, 41)]))])
     = Inr ''https://api.mapbox.com/directions-matrix/v1/mapbox/driving/-74,40;-73,41?access_token=tk&annotations=duration%2Cdistance''"
  by (simp add: get_matrix_url_def coordinate_string_def coord_pair_def array_join_def default_to_def
        offline_env_def Let_def num_eval url_eval)

lemma offline_directions_urls:
  "directions_urls offline_env (JObj [(''coordinates'', JArr (map coord_pair [(- 74, 40), (- 73, 41)]))])
     = Inr (''https://api.mapbox.com/directions/v5/mapbox/driving/-74,40;-73,41?access_token=tk&geometries=geojson&steps=true&overview=full'',
            ''https://api.mapbox.com/directions/v5/mapbox/driving/-74,40;-73,41?access_token=tk&geometries=polyline&steps=false&overview=full'')"
  by (simp add: directions_urls_def coordinate_string_def coord_pair_def array_join_def default_to_def
        method_toString_def has_member_def offline_env_def Let_def num_eval url_eval)

lemma no_coordinates:
  "route_map_result offline_env (JObj [])
     = Inl (TypeError (''Cannot read properties of undefined (reading '' @ [CHR 0x27] @ ''0'' @ [CHR 0x27] @ '')''))"
  by (simp add: route_map_result_def default_to_def js_index_def cannot_read_def Let_def num_eval)

theorem gateway_failure_response_witness:
  "response (geocode_forward unauthorized_env (JObj [(''arguments'', JObj [(''query'', JStr ''Paris'')])]))
     = \<lparr>status = 500,
        body = JObj [(''success'', JBool False), (''error'', JStr ''Not Authorized - Invalid Token'')]\<rparr>
   \<and> calls (geocode_forward unauthorized_env (JObj [(''arguments'', JObj [(''query'', JStr ''Paris'')])]))
     = [''https://api.mapbox.com/geocoding/v5/mapbox.places/Paris.json?access_token=bad&limit=5'']
   \<and> response (get_matrix offline_env (JObj [(''coordinates'', JArr (map coord_pair [(- 74, 40), (- 73, 41)]))]))
     = \<lparr>status = 500, body = JObj [(''success'', JBool False), (''error'', JStr ''Network Error'')]\<rparr>
   \<and> response (geocode_reverse null_env (JObj [(''longitude'', JNum (Fin 0)), (''latitude'', JNum (Fin 0))]))
     = \<lparr>status = 500,
        body = JObj [(''success'', JBool False),
                     (''error'', JStr (''Cannot read properties of null (reading '' @ [CHR 0x27] @ ''features''
                                       @ [CHR 0x27] @ '')''))]\<rparr>
   \<and> response (get_directions offline_env (JObj [(''coordinates'', JArr (map coord_pair [(- 74, 40), (- 73, 41)]))]))
     = \<lparr>status = 500, body = JObj [(''success'', JBool False), (''error'', JStr ''Network Error'')]\<rparr>
   \<and> response (get_directions offline_env (JObj []))
     = \<lparr>status = 500,
        body = JObj [(''success'', JBool False),
                     (''error'', JStr (''Cannot read properties of undefined (reading '' @ [CHR 0x27] @ ''map''
                                       @ [CHR 0x27] @ '')''))]\<rparr>
   \<and> calls (get_directions offline_env (JObj [])) = []
   \<and> response (get_route_map offline_env (JObj []))
     = \<lparr>status = 500,
        body = JObj [(''success'', JBool False),
                     (''error'', JStr (''Cannot read properties of undefined (reading '' @ [CHR 0x27] @ ''0''
                                       @ [CHR 0x27] @ '')''))]\<rparr>"
proof -
  let ?P = "JObj [(''arguments'', JObj [(''query'', JStr ''Paris'')])]"
  let ?C = "JObj [(''coordinates'', JArr (map coord_pair [(- 74, 40), (- 73, 41)]))]"
  let ?O = "JObj [(''longitude'', JNum (Fin 0)), (''latitude'', JNum (Fin 0))]"
  let ?e1 = "AxiosError ''Request failed with status code 401''
               (Some (401, JObj [(''message'', JStr ''Not Authorized - Invalid Token'')]))"
  let ?net = "AxiosError ''Network Error'' None"
  have m: "(geocode_forward, geocode_forward_url, geocode_results) \<in> set one_call_routes"
    "(geocode_reverse, geocode_reverse_url, geocode_results) \<in> set one_call_routes"
    "(get_matrix, get_matrix_url, matrix_result) \<in> set one_call_routes"
    "(get_route_map, route_map_result) \<in> set no_call_routes"
    by (simp_all add: one_call_routes_def no_call_routes_def)
  have argsC: "args_of ?C = Inr ?C"
    by (simp add: args_of_def jget_def js_or_def)
  have a1: "bindE (args_of ?P) (geocode_forward_url unauthorized_env)
              = Inr ''https://api.mapbox.com/geocoding/v5/mapbox.places/Paris.json?access_token=bad&limit=5''"
    by (simp add: args_of_def jget_def js_or_def paris_url)
  have g1: "axios_get unauthorized_env ''https://api.mapbox.com/geocoding/v5/mapbox.places/Paris.json?access_token=bad&limit=5''
              = Inl ?e1"
    by (simp add: unauthorized_env_def)
  note t1 = gateway_failure_response [where env = unauthorized_env and req = ?P, THEN conjunct1, rule_format, OF m(1),
              simplified prod.case, THEN conjunct2, rule_format, OF a1]
  have r1: "response (geocode_forward unauthorized_env ?P) = spec_failure ?e1"
    using t1 g1 by blast
  have c1: "calls (geocode_forward unauthorized_env ?P)
              = [''https://api.mapbox.com/geocoding/v5/mapbox.places/Paris.json?access_token=bad&limit=5'']"
    using t1 by blast
  have a2: "bindE (args_of ?C) (get_matrix_url offline_env)
              = Inr ''https://api.mapbox.com/directions-matrix/v1/mapbox/driving/-74,40;-73,41?access_token=tk&annotations=duration%2Cdistance''"
    by (simp only: argsC bindE_simps matrix_url)
  have g2: "axios_get offline_env u = Inl ?net" for u
    by (simp add: offline_env_def)
  have r2: "response (get_matrix offline_env ?C) = spec_failure ?net"
    using gateway_failure_response [where env = offline_env and req = ?C, THEN conjunct1, rule_format, OF m(3),
              simplified prod.case, THEN conjunct2, rule_format, OF a2] g2
    by blast
  have a3: "bindE (args_of ?O) (geocode_reverse_url null_env)
              = Inr ''https://api.mapbox.com/geocoding/v5/mapbox.places/0,0.json?access_token=tk''"
    by (simp add: args_of_def jget_def js_or_def origin_url)
  have g3: "axios_get null_env ''https://api.mapbox.com/geocoding/v5/mapbox.places/0,0.json?access_token=tk'' = Inr JNull
            \<and> geocode_results JNull = Inl (cannot_read JNull ''features'')"
    by (simp add: null_env_def geocode_results_def jget_def)
  have r3: "response (geocode_reverse null_env ?O) = spec_failure (cannot_read JNull ''features'')"
    using gateway_failure_response [where env = null_env and req = ?O, THEN conjunct1, rule_format, OF m(2),
              simplified prod.case, THEN conjunct2, rule_format, OF a3] g3
    by blast
  have a4: "bindE (args_of ?C) (directions_urls offline_env)
              = Inr (''https://api.mapbox.com/directions/v5/mapbox/driving/-74,40;-73,41?access_token=tk&geometries=geojson&steps=true&overview=full'',
                     ''https://api.mapbox.com/directions/v5/mapbox/driving/-74,40;-73,41?access_token=tk&geometries=polyline&steps=false&overview=full'')"
    by (simp only: argsC bindE_simps offline_directions_urls)
  have srf: "\<not> second_rejects_first offline_env"
    by (simp add: offline_env_def)
  have r4: "response (get_directions offline_env ?C) = spec_failure ?net"
    using gateway_failure_response [where env = offline_env and req = ?C, THEN conjunct2, THEN conjunct2, THEN conjunct1,
              rule_format, OF a4] g2 srf
    by simp
  have a5: "bindE (args_of (JObj [])) (directions_urls offline_env) = Inl (cannot_read JUndefined ''map'')"
    by (simp add: args_of_def jget_def js_or_def directions_urls_def coordinate_string_def Let_def)
  have r5: "calls (get_directions offline_env (JObj [])) = []
            \<and> response (get_directions offline_env (JObj [])) = spec_failure (cannot_read JUndefined ''map'')"
    using gateway_failure_response [where env = offline_env and req = "JObj []", THEN conjunct2, THEN conjunct1, rule_format, OF a5] .
  have a6: "bindE (args_of (JObj [])) (route_map_result offline_env)
              = Inl (TypeError (''Cannot read properties of undefined (reading '' @ [CHR 0x27] @ ''0'' @ [CHR 0x27] @ '')''))"
    by (simp add: args_of_def jget_def js_or_def no_coordinates)
  have r6: "response (get_route_map offline_env (JObj []))
              = spec_failure (TypeError (''Cannot read properties of undefined (reading '' @ [CHR 0x27] @ ''0'' @ [CHR 0x27] @ '')''))"
    using gateway_failure_response [where env = offline_env and req = "JObj []", THEN conjunct2, THEN conjunct2, THEN conjunct2,
              THEN conjunct1, rule_format, OF m(4), simplified prod.case, THEN conjunct2, THEN conjunct1,
              rule_format, OF a6] .
  show ?thesis
    unfolding r1 c1 r2 r3 r4 r5 [THEN conjunct1] r5 [THEN conjunct2] r6
    by (simp add: spec_failure_def provider_message_def cannot_read_def)
qed

subsection \<open>Where the request fields are read\<close>

lemma args_of_nested: "truthy a \<Longrightarrow> lookup kvs ''arguments'' = a \<Longrightarrow> args_of (JObj kvs) = Inr a"
  by (simp add: args_of_def jget_def js_or_def)

lemma args_of_flat: "\<not> truthy (lookup kvs ''arguments'') \<Longrightarrow> args_of (JObj kvs) = Inr (JObj kvs)"
  by (simp add: args_of_def jget_def js_or_def)

lemma args_of_precedence:
  "truthy (lookup kvs ''arguments'') \<Longrightarrow>
   args_of (JObj kvs) = args_of (JObj [(''arguments'', lookup kvs ''arguments'')])"
  by (simp add: args_of_nested)

lemma args_of_nested_flat:
  "\<not> truthy (lookup A ''arguments'') \<Longrightarrow> args_of (JObj [(''arguments'', JObj A)]) = args_of (JObj A)"
  by (simp add: args_of_nested args_of_flat)

lemma handlers_args_of:
  assumes "args_of b = args_of b'"
  shows "\<forall>(name, try_block, handler) \<in> set gateway_post. handler env b = handler env b'"
  unfolding gateway_post_def
  by (simp add: geocode_forward_def geocode_reverse_def get_directions_def get_matrix_def
        get_static_image_def get_route_map_def
        geocode_forward_try_def geocode_reverse_try_def directions_try_def matrix_try_def
        static_image_try_def route_map_try_def one_call_try_def no_call_try_def assms)

text \<open>
  C6, as amended. Every POST route of the gateway reads its fields from
  \<^verbatim>\<open>body.arguments\<close> when that is present (truthy), whatever else the body holds, and
  from the body itself otherwise; and a body \<^verbatim>\<open>{arguments: A}\<close> is handled exactly as the
  body \<^verbatim>\<open>A\<close> alone whenever \<^verbatim>\<open>A\<close> is an object without a truthy \<^verbatim>\<open>arguments\<close>
  member of its own. (When \<^verbatim>\<open>A\<close> has one, the body \<^verbatim>\<open>A\<close> alone is read from
  \<^verbatim>\<open>A.arguments\<close>, by the same precedence: see the counterexample.)
\<close>

theorem arguments_precedence:
  "\<forall>(name, try_block, handler) \<in> set gateway_post.
       (truthy (lookup kvs ''arguments'') \<longrightarrow>
          handler env (JObj kvs) = handler env (JObj [(''arguments'', lookup kvs ''arguments'')]))
     \<and> (\<not> truthy (lookup A ''arguments'') \<longrightarrow>
          handler env (JObj [(''arguments'', JObj A)]) = handler env (JObj A))"
proof -
  have one: "\<forall>(name, try_block, handler) \<in> set gateway_post.
               handler env (JObj kvs) = handler env (JObj [(''arguments'', lookup kvs ''arguments'')])"
    if "truthy (lookup kvs ''arguments'')"
    by (rule handlers_args_of) (rule args_of_precedence [OF that])
  have two: "\<forall>(name, try_block, handler) \<in> set gateway_post.
               handler env (JObj [(''arguments'', JObj A)]) = handler env (JObj A)"
    if "\<not> truthy (lookup A ''arguments'')"
    by (rule handlers_args_of) (rule args_of_nested_flat [OF that])
  from one two show ?thesis by fastforce
qed

theorem arguments_precedence_witness:
  "get_static_image offline_env (JObj [(''width'', JNum (Fin 100)), (''arguments'', JObj [(''width'', JNum (Fin 200))])])
     = get_static_image offline_env (JObj [(''arguments'', JObj [(''width'', JNum (Fin 200))])])
   \<and> get_static_image offline_env (JObj [(''arguments'', JObj [(''width'', JNum (Fin 200))])])
     = get_static_image offline_env (JObj [(''width'', JNum (Fin 200))])
   \<and> geocode_forward offline_env (JObj [(''arguments'', JObj [(''query'', JStr ''Paris'')])])
     = geocode_forward offline_env (JObj [(''query'', JStr ''Paris'')])"
proof -
  have m: "(''get_static_image'', static_image_try, get_static_image) \<in> set gateway_post"
    "(''geocode_forward'', geocode_forward_try, geocode_forward) \<in> set gateway_post"
    by (simp_all add: gateway_post_def)
  have a: "get_static_image offline_env (JObj [(''width'', JNum (Fin 100)), (''arguments'', JObj [(''width'', JNum (Fin 200))])])
     = get_static_image offline_env (JObj [(''arguments'', JObj [(''width'', JNum (Fin 200))])])"
    using arguments_precedence [of "[(''width'', JNum (Fin 100)), (''arguments'', JObj [(''width'', JNum (Fin 200))])]"
                                   offline_env "[]"] m(1)
    by fastforce
  have b: "get_static_image offline_env (JObj [(''arguments'', JObj [(''width'', JNum (Fin 200))])])
     = get_static_image offline_env (JObj [(''width'', JNum (Fin 200))])"
    using arguments_precedence [of "[]" offline_env "[(''width'', JNum (Fin 200))]"] m(1)
    by fastforce
  have c: "geocode_forward offline_env (JObj [(''arguments'', JObj [(''query'', JStr ''Paris'')])])
     = geocode_forward offline_env (JObj [(''query'', JStr ''Paris'')])"
    using arguments_precedence [of "[]" offline_env "[(''query'', JStr ''Paris'')]"] m(2)
    by fastforce
  from a b c show ?thesis by blast
qed

text \<open>
  The claim as first stated fails where \<^verbatim>\<open>A\<close> has an \<^verbatim>\<open>arguments\<close> member of its own:
  for \<^verbatim>\<open>A = {width: 100, arguments: {width: 200}}\<close> the body \<^verbatim>\<open>{arguments: A}\<close> gives an
  image 100 wide and the body \<^verbatim>\<open>A\<close> alone one 200 wide.
\<close>

theorem nested_arguments_counterexample:
  "get_static_image offline_env
     (JObj [(''arguments'', JObj [(''width'', JNum (Fin 100)), (''arguments'', JObj [(''width'', JNum (Fin 200))])])])
   \<noteq> get_static_image offline_env
     (JObj [(''width'', JNum (Fin 100)), (''arguments'', JObj [(''width'', JNum (Fin 200))])])"
proof
  let ?A = "JObj [(''width'', JNum (Fin 100)), (''arguments'', JObj [(''width'', JNum (Fin 200))])]"
  assume eq: "get_static_image offline_env (JObj [(''arguments'', ?A)]) = get_static_image offline_env ?A"
  have params: "URLSearchParams [(''access_token'', MAPBOX_ACCESS_TOKEN offline_env)] = ''access_token=tk''"
    by (simp add: offline_env_def url_eval)
  have mk: "marker_segment offline_env (JArr []) = Inr []"
    by (simp add: marker_segment_def js_length_def js_gt0_def)
  have l: "field (body (response (get_static_image offline_env (JObj [(''arguments'', ?A)])))) ''image_url''
             = JStr ''https://api.mapbox.com/styles/v1/mapbox/streets-v12/static/100x400?access_token=tk''"
    using static_image_url [where req = "JObj [(''arguments'', ?A)]" and a = ?A and env = offline_env
                              and st = "''mapbox/streets-v12''" and mk = "[]" and vp = "[]"
                              and w = "''100''" and h = "''400''"]
    by (simp add: args_of_def jget_def js_or_def default_to_def mk params viewport_segment_def num_eval)
  have r: "field (body (response (get_static_image offline_env ?A))) ''image_url''
             = JStr ''https://api.mapbox.com/styles/v1/mapbox/streets-v12/static/200x400?access_token=tk''"
    using static_image_url [where req = ?A and a = "JObj [(''width'', JNum (Fin 200))]" and env = offline_env
                              and st = "''mapbox/streets-v12''" and mk = "[]" and vp = "[]"
                              and w = "''200''" and h = "''400''"]
    by (simp add: args_of_def jget_def js_or_def default_to_def mk params viewport_segment_def num_eval)
  from eq l r show False by simp
qed

subsection \<open>The chat loop\<close>

lemma some_tool_use_none:
  "\<forall>b\<in>set blocks. \<not> nullish b \<and> field b ''type'' \<noteq> JStr ''tool_use'' \<Longrightarrow> some_tool_use blocks = Inr False"
  by (induction blocks) simp_all

lemma field_nullish: "nullish v \<Longrightarrow> field v k = JUndefined"
  by (cases v) simp_all

lemma tool_loop_done:
  "has_tool_use (finalResponse s) = Inr False \<Longrightarrow> tool_loop env tools s = Some (Inr s)"
  by (subst tool_loop.simps) simp

text \<open>
  C3. A chat request with a non-empty string \<^verbatim>\<open>message\<close> whose first model response
  holds no tool-use block is answered after exactly one call of the Messages API, with
  status 200 and a \<^verbatim>\<open>conversationHistory\<close> that is the request's own (empty when it is
  absent) followed by exactly \<^verbatim>\<open>{role: 'user', content: message}\<close> and
  \<^verbatim>\<open>{role: 'assistant', content: c}\<close>, \<open>c\<close> being the content of that response. (An
  empty \<^verbatim>\<open>message\<close> is answered with 400 before any call.)
\<close>

theorem chat_without_tool_use:
  assumes "field req ''message'' = JStr m" and "m \<noteq> []"
    and "field req ''conversationHistory'' = JArr hist
         \<or> field req ''conversationHistory'' = JUndefined \<and> hist = []"
    and "tools = (if availableTools = [] then initializeMCPTools env availableTools else availableTools)"
    and "messages_post env (first_payload tools (hist @ [user_message (JStr m)])) = Inr data"
    and "field data ''content'' = JArr blocks"
    and "\<forall>b\<in>set blocks. \<not> nullish b \<and> field b ''type'' \<noteq> JStr ''tool_use''"
  shows "\<exists>out. chat env availableTools req = Some out
           \<and> chat_trace out = (if availableTools = [] then [ToolsFetch (MCP_SERVER_URL env @ ''/tools'')] else [])
                               @ [ModelCall (first_payload tools (hist @ [user_message (JStr m)]))]
           \<and> length (filter is_model_call (chat_trace out)) = 1
           \<and> reply out = Responded
                \<lparr>status = 200,
                 body = JObj [(''response'', JArr blocks),
                              (''conversationHistory'',
                               JArr (hist @ [user_message (JStr m), assistant_message (JArr blocks)])),
                              (''usage'', field data ''usage'')]\<rparr>"
proof -
  have nn: "\<not> nullish req" "\<not> nullish data"
    using assms(1,6) field_nullish by fastforce+
  have sp: "spread ''conversationHistory'' (default_to (JArr []) (field req ''conversationHistory'')) = Inr hist"
    using assms(3) by (auto simp: spread_def default_to_def)
  let ?tr = "(if availableTools = [] then [ToolsFetch (MCP_SERVER_URL env @ ''/tools'')] else [])
             @ [ModelCall (first_payload tools (hist @ [user_message (JStr m)]))]"
  let ?s = "\<lparr>currentMessages = hist @ [user_message (JStr m)], finalResponse = data,
             totalUsage = field data ''usage'', trace = ?tr, tool_calls = 0\<rparr>"
  have "has_tool_use (finalResponse ?s) = Inr False"
    using nn(2) assms(6,7) by (simp add: has_tool_use_def jget_def some_tool_use_none)
  then have loop: "tool_loop env tools ?s = Some (Inr ?s)"
    by (rule tool_loop_done)
  have "chat env availableTools req
          = Some \<lparr>tools_after = tools, chat_trace = ?tr,
                  reply = Responded
                    \<lparr>status = 200,
                     body = JObj [(''response'', JArr blocks),
                                  (''conversationHistory'',
                                   JArr (hist @ [user_message (JStr m), assistant_message (JArr blocks)])),
                                  (''usage'', field data ''usage'')]\<rparr>\<rparr>"
    unfolding chat_def Let_def
    using nn assms(1,2,6) assms(4) [symmetric] assms(5) loop sp
    by (simp add: jget_def)
  then show ?thesis by simp
qed

lemma sample_no_tools: "initializeMCPTools sample_bridge_env [] = []"
  by (simp add: initializeMCPTools_def sample_bridge_env_def)

theorem chat_without_tool_use_witness:
  "\<exists>out. chat sample_bridge_env []
            (JObj [(''message'', JStr ''Thanks''),
                   (''conversationHistory'', JArr [user_message (JStr ''Where is Paris?''),
                                                   assistant_message (JStr ''In France.'')])]) = Some out
         \<and> length (filter is_model_call (chat_trace out)) = 1
         \<and> field (case reply out of Responded r \<Rightarrow> body r | Escaped e \<Rightarrow> JUndefined) ''conversationHistory''
             = JArr [user_message (JStr ''Where is Paris?''), assistant_message (JStr ''In France.''),
                     user_message (JStr ''Thanks''),
                     assistant_message (JArr [JObj [(''type'', JStr ''text''), (''text'', JStr ''Paris is in France.'')]])]"
proof -
  let ?req = "JObj [(''message'', JStr ''Thanks''),
                    (''conversationHistory'', JArr [user_message (JStr ''Where is Paris?''),
                                                    assistant_message (JStr ''In France.'')])]"
  let ?hist = "[user_message (JStr ''Where is Paris?''), assistant_message (JStr ''In France.'')]"
  let ?blocks = "[JObj [(''type'', JStr ''text''), (''text'', JStr ''Paris is in France.'')]]"
  have h1: "field ?req ''message'' = JStr ''Thanks''" by simp
  have h2: "''Thanks'' \<noteq> []" by simp
  have h3: "field ?req ''conversationHistory'' = JArr ?hist
            \<or> field ?req ''conversationHistory'' = JUndefined \<and> ?hist = []" by simp
  have h4: "[] = (if ([] :: jsval list) = [] then initializeMCPTools sample_bridge_env [] else [])"
    by (simp add: sample_no_tools)
  have h5: "messages_post sample_bridge_env (first_payload [] (?hist @ [user_message (JStr ''Thanks'')])) = Inr final_answer"
    by (simp add: sample_bridge_env_def first_payload_def)
  have h6: "field final_answer ''content'' = JArr ?blocks"
    by (simp add: final_answer_def)
  have h7: "\<forall>b\<in>set ?blocks. \<not> nullish b \<and> field b ''type'' \<noteq> JStr ''tool_use''"
    by simp
  from chat_without_tool_use [OF h1 h2 h3 h4 h5 h6 h7]
  obtain out where out: "chat sample_bridge_env [] ?req = Some out"
    "length (filter is_model_call (chat_trace out)) = 1"
    "reply out = Responded
                \<lparr>status = 200,
                 body = JObj [(''response'', JArr ?blocks),
                              (''conversationHistory'',
                               JArr (?hist @ [user_message (JStr ''Thanks''), assistant_message (JArr ?blocks)])),
                              (''usage'', field final_answer ''usage'')]\<rparr>"
    by blast
  show ?thesis
    by (rule exI [of _ out]) (simp add: out)
qed

lemma chat_failure_status: "status (chat_failure e) \<noteq> 200"
  by (auto simp: chat_failure_def split: js_error.splits option.splits prod.splits)

lemma bindE_Inr: "bindE m f = Inr y \<Longrightarrow> \<exists>x. m = Inr x \<and> f x = Inr y"
  by (cases m) simp_all

lemma tool_round_answer:
  assumes "tool_round env tools s = Inr s'"
  shows "\<exists>pre p. trace s' = pre @ [ModelCall p] \<and> messages_post env p = Inr (finalResponse s')"
proof -
  obtain content where c: "field (finalResponse s) ''content'' = JArr content"
    using assms by (cases "field (finalResponse s) ''content''") (simp_all add: tool_round_def)
  obtain toolResults where h: "snd (handleToolCalls env (tool_calls s) content) = Inr toolResults"
    using assms by (cases "snd (handleToolCalls env (tool_calls s) content)") (simp_all add: tool_round_def c Let_def)
  let ?messages = "currentMessages s
                   @ [JObj [(''role'', JStr ''assistant''), (''content'', JArr content)],
                      JObj [(''role'', JStr ''user''), (''content'', JArr toolResults)]]"
  let ?payload = "follow_up_payload tools ?messages"
  let ?tr = "trace s @ fst (handleToolCalls env (tool_calls s) content) @ [ModelCall ?payload]"
  from assms obtain data usage where
    d: "bindE (messages_post env ?payload) (\<lambda>data.
          bindE (accumulate_usage (totalUsage s) data) (\<lambda>usage. Inr (data, usage))) = Inr (data, usage)"
    and s': "s' = \<lparr>currentMessages = ?messages, finalResponse = data, totalUsage = usage,
                    trace = ?tr, tool_calls = tool_calls s + length (fst (handleToolCalls env (tool_calls s) content))\<rparr>"
    by (auto simp: tool_round_def c h Let_def split: sum.splits prod.splits)
  from bindE_Inr [OF d] obtain x where x: "messages_post env ?payload = Inr x"
    "bindE (accumulate_usage (totalUsage s) x) (\<lambda>usage. Inr (x, usage)) = Inr (data, usage)"
    by blast
  from bindE_Inr [OF x(2)] have "x = data" by auto
  with x(1) have "messages_post env ?payload = Inr (finalResponse s')"
    by (simp add: s')
  moreover have "trace s' = (trace s @ fst (handleToolCalls env (tool_calls s) content)) @ [ModelCall ?payload]"
    by (simp add: s')
  ultimately show ?thesis by blast
qed

lemma tool_loop_answer:
  assumes "tool_loop env tools s = Some y"
  shows "\<forall>s'. y = Inr s' \<longrightarrow>
           (\<exists>pre p. trace s = pre @ [ModelCall p] \<and> messages_post env p = Inr (finalResponse s)) \<longrightarrow>
           (\<exists>pre p. trace s' = pre @ [ModelCall p] \<and> messages_post env p = Inr (finalResponse s'))
           \<and> has_tool_use (finalResponse s') = Inr False"
proof (rule tool_loop.raw_induct
         [where P = "\<lambda>env tools s y. \<forall>s'. y = Inr s' \<longrightarrow>
           (\<exists>pre p. trace s = pre @ [ModelCall p] \<and> messages_post env p = Inr (finalResponse s)) \<longrightarrow>
           (\<exists>pre p. trace s' = pre @ [ModelCall p] \<and> messages_post env p = Inr (finalResponse s'))
           \<and> has_tool_use (finalResponse s') = Inr False", OF _ assms])
  fix loop :: "bridge_env \<Rightarrow> jsval list \<Rightarrow> loop_state \<Rightarrow> ((bridge_call list \<times> js_error) + loop_state) option"
  fix env tools s y
  assume ih: "\<And>env tools s y. loop env tools s = Some y \<Longrightarrow>
           \<forall>s'. y = Inr s' \<longrightarrow>
           (\<exists>pre p. trace s = pre @ [ModelCall p] \<and> messages_post env p = Inr (finalResponse s)) \<longrightarrow>
           (\<exists>pre p. trace s' = pre @ [ModelCall p] \<and> messages_post env p = Inr (finalResponse s'))
           \<and> has_tool_use (finalResponse s') = Inr False"
  assume body: "(case has_tool_use (finalResponse s) of
                   Inl e \<Rightarrow> Some (Inl (trace s, e))
                 | Inr again \<Rightarrow>
                     if again
                     then (case tool_round env tools s of
                             Inl failed \<Rightarrow> Some (Inl failed)
                           | Inr s' \<Rightarrow> loop env tools s')
                     else Some (Inr s)) = Some y"
  show "\<forall>s'. y = Inr s' \<longrightarrow>
           (\<exists>pre p. trace s = pre @ [ModelCall p] \<and> messages_post env p = Inr (finalResponse s)) \<longrightarrow>
           (\<exists>pre p. trace s' = pre @ [ModelCall p] \<and> messages_post env p = Inr (finalResponse s'))
           \<and> has_tool_use (finalResponse s') = Inr False"
  proof (cases "has_tool_use (finalResponse s)")
    case (Inl e)
    then show ?thesis using body by auto
  next
    case (Inr again)
    show ?thesis
    proof (cases again)
      case False
      then show ?thesis using body Inr by auto
    next
      case True
      show ?thesis
      proof (cases "tool_round env tools s")
        case (Inl failed)
        then show ?thesis using body Inr True by auto
      next
        case round: (Inr s1)
        then have "loop env tools s1 = Some y"
          using body Inr True by simp
        from ih [OF this] tool_round_answer [OF round] show ?thesis
          by blast
      qed
    qed
  qed
qed

lemma chat_answered:
  assumes "chat env availableTools req = Some out" and "reply out = Responded r" and "status r = 200"
  shows "\<exists>hist m fetched payload data usage s.
           spread ''conversationHistory'' (default_to (JArr []) (field req ''conversationHistory'')) = Inr hist
         \<and> field req ''message'' = JStr m
         \<and> messages_post env payload = Inr data
         \<and> tool_loop env (if availableTools = [] then initializeMCPTools env availableTools else availableTools)
              \<lparr>currentMessages = hist @ [user_message (JStr m)], finalResponse = data, totalUsage = usage,
               trace = fetched @ [ModelCall payload], tool_calls = 0\<rparr> = Some (Inr s)
         \<and> chat_trace out = trace s
         \<and> body r = JObj [(''response'', field (finalResponse s) ''content''),
                           (''conversationHistory'',
                            JArr (hist @ [user_message (JStr m),
                                          assistant_message (field (finalResponse s) ''content'')])),
                           (''usage'', totalUsage s)]"
proof -
  obtain m where m: "field req ''message'' = JStr m"
    using assms chat_failure_status
    by (cases "field req ''message''")
       (auto simp: chat_def Let_def split: if_splits sum.splits option.splits prod.splits)
  have nn: "\<not> nullish req"
    using m by (cases req) simp_all
  have tm: "truthy (JStr m)"
    using assms chat_failure_status nn
    by (auto simp: chat_def Let_def m split: if_splits sum.splits option.splits prod.splits)
  obtain hist where hist: "spread ''conversationHistory'' (default_to (JArr []) (field req ''conversationHistory'')) = Inr hist"
    using assms chat_failure_status nn tm
    by (cases "spread ''conversationHistory'' (default_to (JArr []) (field req ''conversationHistory''))")
       (auto simp: chat_def Let_def m split: if_splits sum.splits option.splits prod.splits)
  let ?tools = "if availableTools = [] then initializeMCPTools env availableTools else availableTools"
  let ?fetched = "if availableTools = [] then [ToolsFetch (MCP_SERVER_URL env @ ''/tools'')] else []"
  let ?payload = "first_payload ?tools (hist @ [user_message (JStr m)])"
  obtain data usage where du:
    "bindE (messages_post env ?payload) (\<lambda>data. bindE (jget data ''usage'') (\<lambda>usage. Inr (data, usage)))
       = Inr (data, usage)"
    using assms chat_failure_status nn tm
    by (cases "bindE (messages_post env ?payload) (\<lambda>data. bindE (jget data ''usage'') (\<lambda>usage. Inr (data, usage)))")
       (auto simp: chat_def Let_def m hist split: if_splits sum.splits option.splits prod.splits)
  from bindE_Inr [OF du] obtain x where x: "messages_post env ?payload = Inr x"
    "bindE (jget x ''usage'') (\<lambda>usage. Inr (x, usage)) = Inr (data, usage)"
    by blast
  from bindE_Inr [OF x(2)] have "x = data" by auto
  with x(1) have post: "messages_post env ?payload = Inr data" by simp
  let ?s0 = "\<lparr>currentMessages = hist @ [user_message (JStr m)], finalResponse = data, totalUsage = usage,
              trace = ?fetched @ [ModelCall ?payload], tool_calls = 0\<rparr>"
  obtain s where s: "tool_loop env ?tools ?s0 = Some (Inr s)"
    and out: "out = \<lparr>tools_after = ?tools, chat_trace = trace s,
                      reply = Responded
                        \<lparr>status = 200,
                         body = JObj [(''response'', field (finalResponse s) ''content''),
                                      (''conversationHistory'',
                                       JArr (hist @ [user_message (JStr m),
                                                     assistant_message (field (finalResponse s) ''content'')])),
                                      (''usage'', totalUsage s)]\<rparr>\<rparr>"
    using assms chat_failure_status nn tm
    by (simp add: chat_def Let_def m hist du split: if_splits sum.splits option.splits prod.splits) auto
  have "body r = JObj [(''response'', field (finalResponse s) ''content''),
                       (''conversationHistory'',
                        JArr (hist @ [user_message (JStr m),
                                      assistant_message (field (finalResponse s) ''content'')])),
                       (''usage'', totalUsage s)]"
    using assms(2) by (auto simp: out)
  moreover have "chat_trace out = trace s"
    by (simp add: out)
  ultimately show ?thesis
    using hist m post s by blast
qed

text \<open>
  C9. Whenever a chat request is answered with status 200, after however many rounds of
  tool calls, the last call made is a call of the Messages API, its answer holds no
  tool-use block, and the returned \<^verbatim>\<open>conversationHistory\<close> is the request's own history
  followed by exactly two entries, the user message and the assistant entry that carries
  the content of that last answer, which is also the \<^verbatim>\<open>response\<close>; the tool-use and
  tool-result messages of the rounds are not in it.
\<close>

theorem chat_history_grows_by_two:
  assumes "chat env availableTools req = Some out" and "reply out = Responded r" and "status r = 200"
  shows "\<exists>hist m pre payload final.
             spread ''conversationHistory'' (default_to (JArr []) (field req ''conversationHistory'')) = Inr hist
           \<and> field req ''message'' = JStr m
           \<and> chat_trace out = pre @ [ModelCall payload]
           \<and> messages_post env payload = Inr final
           \<and> has_tool_use final = Inr False
           \<and> field (body r) ''response'' = field final ''content''
           \<and> field (body r) ''conversationHistory''
               = JArr (hist @ [user_message (JStr m), assistant_message (field final ''content'')])
           \<and> (\<forall>h. field req ''conversationHistory'' = JArr h \<longrightarrow> hist = h)
           \<and> (field req ''conversationHistory'' = JUndefined \<longrightarrow> hist = [])"
proof -
  from chat_answered [OF assms]
  obtain hist m fetched payload data usage s where
    hist: "spread ''conversationHistory'' (default_to (JArr []) (field req ''conversationHistory'')) = Inr hist"
    and m: "field req ''message'' = JStr m"
    and post: "messages_post env payload = Inr data"
    and loop: "tool_loop env (if availableTools = [] then initializeMCPTools env availableTools else availableTools)
              \<lparr>currentMessages = hist @ [user_message (JStr m)], finalResponse = data, totalUsage = usage,
               trace = fetched @ [ModelCall payload], tool_calls = 0\<rparr> = Some (Inr s)"
    and tr: "chat_trace out = trace s"
    and body: "body r = JObj [(''response'', field (finalResponse s) ''content''),
                           (''conversationHistory'',
                            JArr (hist @ [user_message (JStr m),
                                          assistant_message (field (finalResponse s) ''content'')])),
                           (''usage'', totalUsage s)]"
    by blast
  have start: "\<exists>pre p. trace \<lparr>currentMessages = hist @ [user_message (JStr m)], finalResponse = data,
                                totalUsage = usage, trace = fetched @ [ModelCall payload], tool_calls = 0\<rparr>
                           = pre @ [ModelCall p]
                       \<and> messages_post env p
                           = Inr (finalResponse \<lparr>currentMessages = hist @ [user_message (JStr m)], finalResponse = data,
                                                 totalUsage = usage, trace = fetched @ [ModelCall payload],
                                                 tool_calls = 0\<rparr>)"
    using post by auto
  from tool_loop_answer [OF loop, rule_format, OF refl start]
  obtain pre p where lst: "trace s = pre @ [ModelCall p]" "messages_post env p = Inr (finalResponse s)"
    and fin: "has_tool_use (finalResponse s) = Inr False"
    by blast
  have sp: "(\<forall>h. field req ''conversationHistory'' = JArr h \<longrightarrow> hist = h)
           \<and> (field req ''conversationHistory'' = JUndefined \<longrightarrow> hist = [])"
    using hist by (auto simp: spread_def default_to_def)
  have "field (body r) ''response'' = field (finalResponse s) ''content''"
    "field (body r) ''conversationHistory''
       = JArr (hist @ [user_message (JStr m), assistant_message (field (finalResponse s) ''content'')])"
    by (simp_all add: body)
  with hist m tr lst fin sp show ?thesis
    by (intro exI [of _ hist] exI [of _ m] exI [of _ pre] exI [of _ p] exI [of _ "finalResponse s"]) simp
qed

lemmas bridge_eval = sample_bridge_env_def tool_use_answer_def final_answer_def
  tool_result_block_def follow_up_payload_def first_payload_def accumulate_usage_def add_to_member_def
  js_add_def to_primitive_def jget_def js_or_def has_tool_use_def user_message_def assistant_message_def

lemma input_tokens_sum: "binary64 (denoted 10 + denoted 30) = Fin 40"
  by (simp add: b64_eval)

lemma output_tokens_sum: "binary64 (denoted 20 + denoted 5) = Fin 25"
  by (simp add: b64_eval)

lemma paris_round:
  "tool_round sample_bridge_env [] paris_state
     = Inr \<lparr>currentMessages = paris_messages,
             finalResponse = final_answer,
             totalUsage = JObj [(''input_tokens'', JNum (Fin 40)), (''output_tokens'', JNum (Fin 25))],
             trace = trace paris_state
                     @ [ToolCall ''http://localhost:3000/geocode_forward'' (JObj [(''arguments'', JObj [(''query'', JStr ''Paris'')])]),
                        ToolCall ''http://localhost:3000/get_matrix'' (JObj [(''arguments'', JObj [])]),
                        ModelCall (follow_up_payload [] paris_messages)],
             tool_calls = 2\<rparr>"
  by (simp add: tool_round_def paris_state_def paris_messages_def bridge_eval Let_def
        input_tokens_sum output_tokens_sum)

lemma paris_follow_up: "messages_post sample_bridge_env (follow_up_payload [] paris_messages) = Inr final_answer"
  by (simp add: sample_bridge_env_def follow_up_payload_def paris_messages_def)

lemma paris_loop:
  "\<exists>s. tool_loop sample_bridge_env [] paris_state = Some (Inr s)
       \<and> trace s = trace paris_state
                     @ [ToolCall ''http://localhost:3000/geocode_forward'' (JObj [(''arguments'', JObj [(''query'', JStr ''Paris'')])]),
                        ToolCall ''http://localhost:3000/get_matrix'' (JObj [(''arguments'', JObj [])]),
                        ModelCall (follow_up_payload [] paris_messages)]"
proof -
  have again: "has_tool_use (finalResponse paris_state) = Inr True"
    by (simp add: paris_state_def bridge_eval)
  obtain s where s: "tool_round sample_bridge_env [] paris_state = Inr s"
    "finalResponse s = final_answer"
    "trace s = trace paris_state
                     @ [ToolCall ''http://localhost:3000/geocode_forward'' (JObj [(''arguments'', JObj [(''query'', JStr ''Paris'')])]),
                        ToolCall ''http://localhost:3000/get_matrix'' (JObj [(''arguments'', JObj [])]),
                        ModelCall (follow_up_payload [] paris_messages)]"
    using paris_round by simp
  have "has_tool_use (finalResponse s) = Inr False"
    by (simp add: s(2) bridge_eval)
  then have "tool_loop sample_bridge_env [] s = Some (Inr s)"
    by (rule tool_loop_done)
  then have "tool_loop sample_bridge_env [] paris_state = Some (Inr s)"
    by (subst tool_loop.simps) (simp add: again s(1))
  with s(3) show ?thesis by blast
qed

lemma paris_chat:
  "\<exists>out r. chat sample_bridge_env [] (JObj [(''message'', JStr ''Where is Paris?'')]) = Some out
       \<and> reply out = Responded r \<and> status r = 200
       \<and> chat_trace out
           = [ToolsFetch ''http://localhost:3000/tools'',
              ModelCall (first_payload [] [user_message (JStr ''Where is Paris?'')]),
              ToolCall ''http://localhost:3000/geocode_forward'' (JObj [(''arguments'', JObj [(''query'', JStr ''Paris'')])]),
              ToolCall ''http://localhost:3000/get_matrix'' (JObj [(''arguments'', JObj [])])]
             @ [ModelCall (follow_up_payload [] paris_messages)]"
proof -
  obtain s where s: "tool_loop sample_bridge_env [] paris_state = Some (Inr s)"
    "trace s = trace paris_state
                     @ [ToolCall ''http://localhost:3000/geocode_forward'' (JObj [(''arguments'', JObj [(''query'', JStr ''Paris'')])]),
                        ToolCall ''http://localhost:3000/get_matrix'' (JObj [(''arguments'', JObj [])]),
                        ModelCall (follow_up_payload [] paris_messages)]"
    using paris_loop by blast
  have first: "messages_post sample_bridge_env (first_payload [] [user_message (JStr ''Where is Paris?'')])
                 = Inr tool_use_answer"
    by (simp add: sample_bridge_env_def first_payload_def)
  have url: "MCP_SERVER_URL sample_bridge_env @ ''/tools'' = ''http://localhost:3000/tools''"
    by (simp add: sample_bridge_env_def)
  have nn: "\<not> nullish tool_use_answer"
    by (simp add: tool_use_answer_def)
  have "chat sample_bridge_env [] (JObj [(''message'', JStr ''Where is Paris?'')])
          = Some \<lparr>tools_after = [], chat_trace = trace s,
                  reply = Responded
                    \<lparr>status = 200,
                     body = JObj [(''response'', field (finalResponse s) ''content''),
                                  (''conversationHistory'',
                                   JArr ([] @ [user_message (JStr ''Where is Paris?''),
                                               assistant_message (field (finalResponse s) ''content'')])),
                                  (''usage'', totalUsage s)]\<rparr>\<rparr>"
    unfolding chat_def Let_def
    using s(1) unfolding paris_state_def
    by (simp add: sample_no_tools default_to_def spread_def first url jget_def nn)
  then show ?thesis
    using s(2) by (simp add: paris_state_def)
qed

theorem chat_history_grows_by_two_witness:
  "\<exists>out r. chat sample_bridge_env [] (JObj [(''message'', JStr ''Where is Paris?'')]) = Some out
     \<and> reply out = Responded r \<and> status r = 200
     \<and> length (filter is_model_call (chat_trace out)) = 2
     \<and> field (body r) ''response''
         = JArr [JObj [(''type'', JStr ''text''), (''text'', JStr ''Paris is in France.'')]]
     \<and> field (body r) ''conversationHistory''
         = JArr [user_message (JStr ''Where is Paris?''),
                 assistant_message (JArr [JObj [(''type'', JStr ''text''), (''text'', JStr ''Paris is in France.'')]])]"
proof -
  let ?req = "JObj [(''message'', JStr ''Where is Paris?'')]"
  obtain out r where o: "chat sample_bridge_env [] ?req = Some out" "reply out = Responded r" "status r = 200"
    "chat_trace out
           = [ToolsFetch ''http://localhost:3000/tools'',
              ModelCall (first_payload [] [user_message (JStr ''Where is Paris?'')]),
              ToolCall ''http://localhost:3000/geocode_forward'' (JObj [(''arguments'', JObj [(''query'', JStr ''Paris'')])]),
              ToolCall ''http://localhost:3000/get_matrix'' (JObj [(''arguments'', JObj [])])]
             @ [ModelCall (follow_up_payload [] paris_messages)]"
    using paris_chat by blast
  from chat_history_grows_by_two [OF o(1-3)]
  obtain hist m pre payload final where h: "field ?req ''message'' = JStr m"
    "chat_trace out = pre @ [ModelCall payload]"
    "messages_post sample_bridge_env payload = Inr final"
    "field (body r) ''response'' = field final ''content''"
    "field (body r) ''conversationHistory''
       = JArr (hist @ [user_message (JStr m), assistant_message (field final ''content'')])"
    "field ?req ''conversationHistory'' = JUndefined \<longrightarrow> hist = []"
    by blast
  have "payload = follow_up_payload [] paris_messages"
    using h(2) unfolding o(4) by simp
  then have "final = final_answer"
    using h(3) paris_follow_up by simp
  moreover have "m = ''Where is Paris?''" "hist = []"
    using h(1,6) by simp_all
  ultimately have "field (body r) ''response''
         = JArr [JObj [(''type'', JStr ''text''), (''text'', JStr ''Paris is in France.'')]]"
    "field (body r) ''conversationHistory''
         = JArr [user_message (JStr ''Where is Paris?''),
                 assistant_message (JArr [JObj [(''type'', JStr ''text''), (''text'', JStr ''Paris is in France.'')]])]"
    using h(4,5) by (simp_all add: final_answer_def)
  moreover have "length (filter is_model_call (chat_trace out)) = 2"
    unfolding o(4) by simp
  ultimately show ?thesis
    using o(1-3) by blast
qed

lemma handleToolCalls_spec:
  "wf_content content \<Longrightarrow>
   handleToolCalls env n content = (spec_tool_posts env content, Inr (spec_tool_results env n content))"
proof (induction content arbitrary: n)
  case Nil
  then show ?case by (simp add: spec_tool_posts_def spec_tool_results_def)
next
  case (Cons b bs)
  then have wf: "wf_content bs" and nn: "\<not> nullish b"
    by (simp_all add: wf_content_def)
  note ih = Cons.IH [OF wf]
  show ?case
  proof (cases "is_tool_use b")
    case True
    then obtain name where name: "field b ''name'' = JStr name"
      using Cons.prems by (cases "field b ''name''") (simp_all add: wf_content_def)
    show ?thesis
      using True nn
      by (simp add: ih name is_tool_use_def [symmetric] spec_tool_posts_def spec_tool_results_def
            tool_url_def tool_body_def the_str_def Let_def)
  next
    case False
    then show ?thesis
      using nn by (simp add: ih is_tool_use_def [symmetric] spec_tool_posts_def spec_tool_results_def)
  qed
qed

lemma tool_result_block_error:
  "field (tool_result_block env b name (Inl e)) ''is_error'' = JBool True
   \<and> field (tool_result_block env b name (Inl e)) ''content''
       = JStr (''Error calling tool '' @ name @ '': '' @ error_message e)
   \<and> field (tool_result_block env b name (Inl e)) ''type'' = JStr ''tool_result''
   \<and> field (tool_result_block env b name (Inl e)) ''tool_use_id'' = field b ''id''"
  by (simp add: tool_result_block_def)

lemma tool_result_block_ok:
  "\<not> has_member (tool_result_block env b name (Inr d)) ''is_error''
   \<and> field (tool_result_block env b name (Inr d)) ''content'' = JSON_stringify env d
   \<and> field (tool_result_block env b name (Inr d)) ''type'' = JStr ''tool_result''
   \<and> field (tool_result_block env b name (Inr d)) ''tool_use_id'' = field b ''id''"
  by (simp add: tool_result_block_def has_member_def)

text \<open>
  C8. In one round of tool calls over a model response of the documented shape, each
  tool-use block makes exactly one POST, to the gateway route named by the block and with
  the body \<^verbatim>\<open>{arguments: block.input}\<close>, in the order of the blocks; each gives one
  tool-result block, which for a failed call carries \<^verbatim>\<open>is_error: true\<close> and the error
  text, and the round goes on; the assistant message with the response's content and one
  user message with all results of the round are appended to the messages, and the next
  call of the Messages API is sent with them.
\<close>

theorem tool_round_results_appended:
  assumes "field (finalResponse s) ''content'' = JArr content" and "wf_content content"
  shows "handleToolCalls env (tool_calls s) content
           = (spec_tool_posts env content, Inr (spec_tool_results env (tool_calls s) content))
       \<and> length (spec_tool_results env (tool_calls s) content) = length (filter is_tool_use content)
       \<and> (\<forall>b name e. field (tool_result_block env b name (Inl e)) ''is_error'' = JBool True
             \<and> field (tool_result_block env b name (Inl e)) ''content''
                 = JStr (''Error calling tool '' @ name @ '': '' @ error_message e))
       \<and> (\<forall>b name d. \<not> has_member (tool_result_block env b name (Inr d)) ''is_error''
             \<and> field (tool_result_block env b name (Inr d)) ''content'' = JSON_stringify env d)
       \<and> (case tool_round env availableTools s of Inl (tr, e) \<Rightarrow> tr | Inr s' \<Rightarrow> trace s')
           = trace s @ spec_tool_posts env content
             @ [ModelCall (follow_up_payload availableTools
                  (currentMessages s @ [assistant_message (JArr content),
                                        user_message (JArr (spec_tool_results env (tool_calls s) content))]))]
       \<and> (\<forall>s'. tool_round env availableTools s = Inr s' \<longrightarrow>
             currentMessages s' = currentMessages s
                @ [assistant_message (JArr content),
                   user_message (JArr (spec_tool_results env (tool_calls s) content))])"
proof -
  note h = handleToolCalls_spec [OF assms(2), of env "tool_calls s"]
  have len: "length (spec_tool_results env (tool_calls s) content) = length (filter is_tool_use content)"
    by (simp add: spec_tool_results_def)
  have tr: "(case tool_round env availableTools s of Inl (tr, e) \<Rightarrow> tr | Inr s' \<Rightarrow> trace s')
           = trace s @ spec_tool_posts env content
             @ [ModelCall (follow_up_payload availableTools
                  (currentMessages s @ [assistant_message (JArr content),
                                        user_message (JArr (spec_tool_results env (tool_calls s) content))]))]"
    unfolding tool_round_def Let_def assms(1)
    by (simp add: h assistant_message_def user_message_def split: sum.splits prod.splits)
  have ms: "currentMessages s' = currentMessages s
                @ [assistant_message (JArr content),
                   user_message (JArr (spec_tool_results env (tool_calls s) content))]"
    if "tool_round env availableTools s = Inr s'" for s'
    using that unfolding tool_round_def Let_def assms(1)
    by (auto simp: h assistant_message_def user_message_def split: sum.splits prod.splits)
  from h len tr ms tool_result_block_error tool_result_block_ok show ?thesis
    by blast
qed

theorem tool_round_results_appended_witness:
  "handleToolCalls sample_bridge_env 0
      [JObj [(''type'', JStr ''text''), (''text'', JStr ''Let me look that up.'')],
       JObj [(''type'', JStr ''tool_use''), (''id'', JStr ''toolu_1''),
             (''name'', JStr ''geocode_forward''), (''input'', JObj [(''query'', JStr ''Paris'')])],
       JObj [(''type'', JStr ''tool_use''), (''id'', JStr ''toolu_2''),
             (''name'', JStr ''get_matrix''), (''input'', JObj [])]]
     = ([ToolCall ''http://localhost:3000/geocode_forward'' (JObj [(''arguments'', JObj [(''query'', JStr ''Paris'')])]),
         ToolCall ''http://localhost:3000/get_matrix'' (JObj [(''arguments'', JObj [])])],
        Inr [JObj [(''type'', JStr ''tool_result''), (''tool_use_id'', JStr ''toolu_1''), (''content'', JStr ''{}'')],
             JObj [(''type'', JStr ''tool_result''), (''tool_use_id'', JStr ''toolu_2''),
                   (''content'', JStr ''Error calling tool get_matrix: timeout of 15000ms exceeded''),
                   (''is_error'', JBool True)]])"
proof -
  let ?content = "[JObj [(''type'', JStr ''text''), (''text'', JStr ''Let me look that up.'')],
       JObj [(''type'', JStr ''tool_use''), (''id'', JStr ''toolu_1''),
             (''name'', JStr ''geocode_forward''), (''input'', JObj [(''query'', JStr ''Paris'')])],
       JObj [(''type'', JStr ''tool_use''), (''id'', JStr ''toolu_2''),
             (''name'', JStr ''get_matrix''), (''input'', JObj [])]]"
  have h1: "field (finalResponse paris_state) ''content'' = JArr ?content"
    by (simp add: paris_state_def tool_use_answer_def)
  have h2: "wf_content ?content"
    by (simp add: wf_content_def is_tool_use_def)
  have n: "tool_calls paris_state = 0"
    by (simp add: paris_state_def)
  have posts: "spec_tool_posts sample_bridge_env ?content
     = [ToolCall ''http://localhost:3000/geocode_forward'' (JObj [(''arguments'', JObj [(''query'', JStr ''Paris'')])]),
        ToolCall ''http://localhost:3000/get_matrix'' (JObj [(''arguments'', JObj [])])]"
    by (simp add: spec_tool_posts_def is_tool_use_def tool_url_def tool_body_def the_str_def sample_bridge_env_def)
  have results: "spec_tool_results sample_bridge_env 0 ?content
     = [JObj [(''type'', JStr ''tool_result''), (''tool_use_id'', JStr ''toolu_1''), (''content'', JStr ''{}'')],
        JObj [(''type'', JStr ''tool_result''), (''tool_use_id'', JStr ''toolu_2''),
              (''content'', JStr ''Error calling tool get_matrix: timeout of 15000ms exceeded''),
              (''is_error'', JBool True)]]"
    by (simp add: spec_tool_results_def is_tool_use_def tool_url_def tool_body_def the_str_def
          sample_bridge_env_def tool_result_block_def enumerate_eq_zip upt_rec)
  from tool_round_results_appended [OF h1 h2, of sample_bridge_env "[]", THEN conjunct1]
  show ?thesis
    unfolding n posts results .
qed

end
